theory Spec2Isabelle
  imports Complex_Main "HOL-Library.Sublist"
begin

section \<open>Python strings and pandas cells\<close>

text \<open>
  The scripts of the repository load a CSV file into a pandas DataFrame, change cells and
  write the frame back. A Python \<open>str\<close> is modelled as the list of its Unicode code points,
  so that \<open>len\<close>, \<open>in\<close>, \<open>+\<close> and \<open>==\<close> are \<open>length\<close>, contiguous-sublist test, \<open>@\<close> and
  \<open>=\<close>. A cell of a text column is either NaN (\<open>None\<close>) or a string.
\<close>

type_synonym pystr = "nat list"

definition ascii :: "string \<Rightarrow> pystr" where
  "ascii s = map of_char s"

type_synonym cell = "pystr option"

definition isna :: "cell \<Rightarrow> bool" where
  "isna c = (c = None)"

definition notna :: "cell \<Rightarrow> bool" where
  "notna c = (c \<noteq> None)"

definition str_cell :: "cell \<Rightarrow> pystr" where
  \<comment> \<open>\<open>str(x)\<close>: NaN prints as \<open>nan\<close>, a string is itself\<close>
  "str_cell c = (case c of None \<Rightarrow> ascii ''nan'' | Some s \<Rightarrow> s)"

definition isspace :: "nat \<Rightarrow> bool" where
  \<comment> \<open>the code points for which \<open>str.isspace\<close> holds\<close>
  "isspace c = ((9 \<le> c \<and> c \<le> 13) \<or> (28 \<le> c \<and> c \<le> 32) \<or> c = 133 \<or> c = 160
      \<or> c = 5760 \<or> (8192 \<le> c \<and> c \<le> 8202) \<or> c = 8232 \<or> c = 8233 \<or> c = 8239
      \<or> c = 8287 \<or> c = 12288)"

definition strip :: "pystr \<Rightarrow> pystr" where
  "strip s = rev (dropWhile isspace (rev (dropWhile isspace s)))"

fun py_in :: "pystr \<Rightarrow> pystr \<Rightarrow> bool" where
  \<comment> \<open>\<open>p in s\<close> on strings\<close>
  "py_in p [] = (p = [])"
| "py_in p (c # cs) = (prefix p (c # cs) \<or> py_in p cs)"

section \<open>Date validation (validated\_archive\_import.py)\<close>

text \<open>
  \<open>datetime.strptime\<close> compiles the format into a regular expression with one group per
  directive, matches it at the start of the string (alternatives in the order written,
  with backtracking), fails when text remains after the match, and then builds the date,
  which fails for a day that the month does not have. The groups are those of CPython's
  \<open>_strptime\<close>: \<open>%d\<close> is \<open>3[0-1]|[1-2]\\d|0[1-9]|[1-9]| [1-9]\<close>, \<open>%m\<close> is
  \<open>1[0-2]|0[1-9]|[1-9]\<close>, \<open>%Y\<close> is \<open>\\d\\d\\d\\d\<close>. The class \<open>\\d\<close> is every Unicode
  decimal digit, the ranges \<open>[0-1]\<close>, \<open>[1-2]\<close>, \<open>[1-9]\<close> are ASCII; \<open>int\<close> reads both.
\<close>

definition digit_bases :: "nat list" where
  \<comment> \<open>the code point of the digit zero of every decimal digit system of Unicode 14.0
      (the data of CPython 3.11); the ten digits of a system are consecutive\<close>
  "digit_bases =
    [48, 1632, 1776, 1984, 2406, 2534, 2662, 2790, 2918, 3046, 3174, 3302, 3430, 3558, 3664,
     3792, 3872, 4160, 4240, 6112, 6160, 6470, 6608, 6784, 6800, 6992, 7088, 7232, 7248, 42528,
     43216, 43264, 43472, 43504, 43600, 44016, 65296, 66720, 68912, 69734, 69872, 69942, 70096,
     70384, 70736, 70864, 71248, 71360, 71472, 71904, 72016, 72784, 73040, 73120, 92768, 92864,
     93008, 120782, 120792, 120802, 120812, 120822, 123200, 123632, 125264, 130032]"

definition digit_base :: "nat \<Rightarrow> nat option" where
  "digit_base c = find (\<lambda>b. b \<le> c \<and> c < b + 10) digit_bases"

definition isdigit :: "nat \<Rightarrow> bool" where
  \<comment> \<open>the class \<open>\\d\<close> of a string pattern: every Unicode decimal digit\<close>
  "isdigit c = (digit_base c \<noteq> None)"

definition chr_is :: "nat \<Rightarrow> nat \<Rightarrow> bool" where
  "chr_is a c = (c = a)"

definition chr_range :: "nat \<Rightarrow> nat \<Rightarrow> nat \<Rightarrow> bool" where
  "chr_range lo hi c = (lo \<le> c \<and> c \<le> hi)"

datatype directive = Dir_d | Dir_m | Dir_Y

datatype tok = Dir directive | Lit nat

fun directive_alts :: "directive \<Rightarrow> (nat \<Rightarrow> bool) list list" where
  "directive_alts Dir_d =
     [[chr_is 51, chr_range 48 49], [chr_range 49 50, isdigit], [chr_is 48, chr_range 49 57],
      [chr_range 49 57], [chr_is 32, chr_range 49 57]]"
| "directive_alts Dir_m =
     [[chr_is 49, chr_range 48 50], [chr_is 48, chr_range 49 57], [chr_range 49 57]]"
| "directive_alts Dir_Y = [[isdigit, isdigit, isdigit, isdigit]]"

fun re_chars :: "(nat \<Rightarrow> bool) list \<Rightarrow> pystr \<Rightarrow> (pystr \<times> pystr) option" where
  \<comment> \<open>a sequence of character classes against the start of a string: the text matched and the rest\<close>
  "re_chars [] s = Some ([], s)"
| "re_chars (p # ps) [] = None"
| "re_chars (p # ps) (c # cs) =
     (if p c then (case re_chars ps cs of None \<Rightarrow> None | Some (m, r) \<Rightarrow> Some (c # m, r))
      else None)"

fun re_match :: "tok list \<Rightarrow> pystr \<Rightarrow> ((directive \<times> pystr) list \<times> pystr) option"
  and re_alts :: "directive \<Rightarrow> tok list \<Rightarrow> (nat \<Rightarrow> bool) list list \<Rightarrow> pystr
      \<Rightarrow> ((directive \<times> pystr) list \<times> pystr) option" where
  \<comment> \<open>the first match of the compiled format at the start of the string (groups and unmatched
      rest); \<open>re_alts\<close> tries the alternatives of a group in order, going on to the next one
      when the remainder of the pattern fails\<close>
  "re_match [] s = Some ([], s)"
| "re_match (Lit c # ts) s =
     (case s of [] \<Rightarrow> None | x # xs \<Rightarrow> if x = c then re_match ts xs else None)"
| "re_match (Dir d # ts) s = re_alts d ts (directive_alts d) s"
| "re_alts d ts [] s = None"
| "re_alts d ts (alt # alts) s =
     (case re_chars alt s of
        None \<Rightarrow> re_alts d ts alts s
      | Some (m, r) \<Rightarrow>
          (case re_match ts r of
             None \<Rightarrow> re_alts d ts alts s
           | Some (gs, r') \<Rightarrow> Some ((d, m) # gs, r')))"

definition digit_val :: "nat \<Rightarrow> nat" where
  \<comment> \<open>the value that \<open>int\<close> gives a decimal digit\<close>
  "digit_val c = (case digit_base c of None \<Rightarrow> 0 | Some b \<Rightarrow> c - b)"

definition int_str :: "pystr \<Rightarrow> nat" where
  \<comment> \<open>\<open>int(s)\<close> on the text of a group: surrounding blanks dropped, decimal digits read\<close>
  "int_str m = foldl (\<lambda>n c. 10 * n + digit_val c) 0 (strip m)"

definition group_val :: "(directive \<times> pystr) list \<Rightarrow> directive \<Rightarrow> nat \<Rightarrow> nat" where
  "group_val gs d dflt = (case map_of gs d of None \<Rightarrow> dflt | Some m \<Rightarrow> int_str m)"

definition is_leap :: "nat \<Rightarrow> bool" where
  "is_leap y = (y mod 4 = 0 \<and> (y mod 100 \<noteq> 0 \<or> y mod 400 = 0))"

definition days_in_month :: "nat \<Rightarrow> nat \<Rightarrow> nat" where
  "days_in_month y m =
     (if m = 2 then (if is_leap y then 29 else 28)
      else if m = 4 \<or> m = 6 \<or> m = 9 \<or> m = 11 then 30 else 31)"

type_synonym date = "nat \<times> nat \<times> nat"

definition valid_date :: "date \<Rightarrow> bool" where
  \<comment> \<open>what the \<open>datetime\<close> constructor accepts\<close>
  "valid_date dt = (case dt of (y, m, d) \<Rightarrow>
     1 \<le> y \<and> y \<le> 9999 \<and> 1 \<le> m \<and> m \<le> 12 \<and> 1 \<le> d \<and> d \<le> days_in_month y m)"

definition strptime :: "tok list \<Rightarrow> pystr \<Rightarrow> date option" where
  \<comment> \<open>\<open>None\<close> stands for the \<open>ValueError\<close> that the callers catch\<close>
  "strptime fmt s =
     (case re_match fmt s of
        None \<Rightarrow> None
      | Some (gs, rest) \<Rightarrow>
          if rest \<noteq> [] then None
          else let dt = (group_val gs Dir_Y 1900, group_val gs Dir_m 1, group_val gs Dir_d 1)
               in if valid_date dt then Some dt else None)"

definition zero_pad2 :: "nat \<Rightarrow> pystr" where
  \<comment> \<open>two decimal digits, as \<open>%02d\<close> prints a number below 100\<close>
  "zero_pad2 n = [48 + n div 10 mod 10, 48 + n mod 10]"

fun decimal :: "nat \<Rightarrow> pystr" where
  \<comment> \<open>a number in decimal digits, without padding\<close>
  "decimal n = (if n < 10 then [48 + n] else decimal (n div 10) @ [48 + n mod 10])"

declare decimal.simps [simp del]

definition strftime_ymd :: "date \<Rightarrow> pystr" where
  \<comment> \<open>\<open>strftime('%Y-%m-%d')\<close> as CPython 3.11 gives it with the C library of Linux: month and
      day with two digits, the year without padding (999 for the year 999)\<close>
  "strftime_ymd dt = (case dt of (y, m, d) \<Rightarrow> decimal y @ [45] @ zero_pad2 m @ [45] @ zero_pad2 d)"

definition fmt_iso :: "tok list" where
  "fmt_iso = [Dir Dir_Y, Lit 45, Dir Dir_m, Lit 45, Dir Dir_d]"

definition fmt_dmy_slash :: "tok list" where
  "fmt_dmy_slash = [Dir Dir_d, Lit 47, Dir Dir_m, Lit 47, Dir Dir_Y]"

definition fmt_mdy_slash :: "tok list" where
  "fmt_mdy_slash = [Dir Dir_m, Lit 47, Dir Dir_d, Lit 47, Dir Dir_Y]"

definition fmt_ymd_slash :: "tok list" where
  "fmt_ymd_slash = [Dir Dir_Y, Lit 47, Dir Dir_m, Lit 47, Dir Dir_d]"

definition fmt_dmy_dash :: "tok list" where
  "fmt_dmy_dash = [Dir Dir_d, Lit 45, Dir Dir_m, Lit 45, Dir Dir_Y]"

definition formats :: "tok list list" where
  "formats = [fmt_dmy_slash, fmt_mdy_slash, fmt_ymd_slash, fmt_dmy_dash]"

definition iso_shape :: "pystr \<Rightarrow> bool" where
  \<comment> \<open>\<open>re.match(r'^\\d{4}-\\d{2}-\\d{2}$', s)\<close> on a stripped string\<close>
  "iso_shape s =
     (case re_chars [isdigit, isdigit, isdigit, isdigit, chr_is 45, isdigit, isdigit, chr_is 45,
                     isdigit, isdigit] s of
        None \<Rightarrow> False
      | Some (m, r) \<Rightarrow> r = [])"

fun try_formats :: "tok list list \<Rightarrow> pystr \<Rightarrow> pystr option" where
  "try_formats [] s = None"
| "try_formats (fmt # fmts) s =
     (case strptime fmt s of Some dt \<Rightarrow> Some (strftime_ymd dt) | None \<Rightarrow> try_formats fmts s)"

definition validate_date_format :: "cell \<Rightarrow> pystr option" where
  "validate_date_format date_str =
     (if isna date_str \<or> str_cell date_str = ascii ''nan'' then None
      else let s = strip (str_cell date_str) in
        if s = [] then None
        else if iso_shape s then (case strptime fmt_iso s of Some dt \<Rightarrow> Some s | None \<Rightarrow> None)
        else try_formats formats s)"

section \<open>The data frame\<close>

text \<open>
  A row of \<open>hostages-from-kan.csv\<close> (and of the archive file, which has the same columns),
  restricted to the columns the scripts read or write. \<open>pd.read_csv\<close> numbers the rows
  from 0, so a data frame is the list of its rows and the index label of a row is its
  position. An empty field of the file is read as NaN.
\<close>

record row =
  hebrew_name :: cell
  hostage_name :: cell
  current_status :: cell
  date_of_death :: cell
  context_of_death :: cell
  release_date :: cell
  release_death_circumstances :: cell
  citation_urls :: cell
  countries_involved :: cell
  hebrew_desc_short :: cell
  hebrew_desc_long :: cell
  kidnapping_summary :: cell

type_synonym dataframe = "row list"

definition cell_eq :: "cell \<Rightarrow> cell \<Rightarrow> bool" where
  \<comment> \<open>\<open>==\<close> on cells: NaN is equal to nothing, not even to NaN\<close>
  "cell_eq a b = (a \<noteq> None \<and> a = b)"

definition truthy :: "pystr option \<Rightarrow> bool" where
  \<comment> \<open>\<open>if x:\<close> for a value that is \<open>None\<close> or a string\<close>
  "truthy v = (case v of None \<Rightarrow> False | Some s \<Rightarrow> s \<noteq> [])"

fun split_on :: "nat \<Rightarrow> pystr \<Rightarrow> pystr list" where
  \<comment> \<open>\<open>s.split(sep)\<close> for a separator of one character\<close>
  "split_on sep [] = [[]]"
| "split_on sep (c # cs) =
     (if c = sep then [] # split_on sep cs
      else (case split_on sep cs of [] \<Rightarrow> [[c]] | p # ps \<Rightarrow> (c # p) # ps))"

fun join :: "pystr \<Rightarrow> pystr list \<Rightarrow> pystr" where
  \<comment> \<open>\<open>sep.join(xs)\<close>\<close>
  "join sep [] = []"
| "join sep [x] = x"
| "join sep (x # y # ys) = x @ sep @ join sep (y # ys)"

section \<open>Category and URL validation (validated\_archive\_import.py)\<close>

definition valid_categories :: "pystr list" where
  "valid_categories =
    [ascii ''Returned in Deal'',
     ascii ''Returned in Deal - Body'',
     ascii ''Returned in Military Operation'',
     ascii ''Returned in Military Operation - Body'',
     ascii ''Died Before/During Kidnapping'',
     ascii ''Died in Captivity - Unknown Circumstances'',
     ascii ''Died in Captivity - Killed by IDF'',
     ascii ''Died in Captivity - Hunger/Conditions'',
     ascii ''Died in Captivity - Killed by Hamas'',
     ascii ''Died in Captivity - Killed by Fleeing Hamas'',
     ascii ''Died in Captivity - Unprovoked Execution'']"

definition category_mapping :: "(pystr \<times> pystr option) list" where
  \<comment> \<open>the dictionary \<open>mapping\<close>; one key is mapped to \<open>None\<close>\<close>
  "category_mapping =
    [(ascii ''Released via deal'', Some (ascii ''Returned in Deal'')),
     (ascii ''Released in deal'', Some (ascii ''Returned in Deal'')),
     (ascii ''Killed in captivity by captors'', Some (ascii ''Died in Captivity - Killed by Hamas'')),
     (ascii ''Still in captivity'', None),
     (ascii ''Body returned in deal'', Some (ascii ''Returned in Deal - Body'')),
     (ascii ''Military recovery'', Some (ascii ''Returned in Military Operation - Body''))]"

definition validate_circumstances_category :: "cell \<Rightarrow> pystr option" where
  "validate_circumstances_category circumstances_str =
     (if isna circumstances_str \<or> strip (str_cell circumstances_str) = [] then None
      else let s = strip (str_cell circumstances_str) in
        if s \<in> set valid_categories then Some s
        else (case map_of category_mapping s of None \<Rightarrow> None | Some v \<Rightarrow> v))"

definition strip_http :: "pystr \<Rightarrow> pystr option" where
  \<comment> \<open>the text after a leading \<open>http://\<close> or \<open>https://\<close>\<close>
  "strip_http u =
     (if prefix (ascii ''https://'') u then Some (drop 8 u)
      else if prefix (ascii ''http://'') u then Some (drop 7 u)
      else None)"

definition generic_domain :: "pystr \<Rightarrow> bool" where
  \<comment> \<open>one of the two patterns \<open>^https?://[^/]+/?$\<close> and \<open>^https?://[^/]+/#?$\<close> matches
      (the string is stripped, so \<open>$\<close> is its end)\<close>
  "generic_domain u =
     (case strip_http u of
        None \<Rightarrow> False
      | Some rest \<Rightarrow>
          takeWhile (\<lambda>c. c \<noteq> 47) rest \<noteq> []
          \<and> dropWhile (\<lambda>c. c \<noteq> 47) rest \<in> {[], [47], [47, 35]})"

definition validate_url :: "(pystr \<Rightarrow> bool) \<Rightarrow> pystr \<Rightarrow> bool" where
  \<comment> \<open>\<open>urlparse\<close> belongs to the standard library: \<open>has_scheme_netloc u\<close> stands for
      ``\<open>urlparse(u)\<close> returns, with a scheme and a network location''\<close>
  "validate_url has_scheme_netloc url =
     (if strip url = [] then False
      else let u = strip url in
        if \<not> has_scheme_netloc u then False
        else if generic_domain u then False
        else True)"

section \<open>The validated import (validated\_archive\_import.py)\<close>

definition empty_cell :: "cell \<Rightarrow> bool" where
  \<comment> \<open>the guard \<open>pd.isna(x) or str(x) == 'nan'\<close>\<close>
  "empty_cell c = (isna c \<or> str_cell c = ascii ''nan'')"

definition archive_lookup :: "dataframe \<Rightarrow> cell \<Rightarrow> row option" where
  \<comment> \<open>\<open>archive_df[archive_df['Hebrew Name'] == hebrew_name]\<close>, then \<open>.iloc[0]\<close> unless
      there is no match\<close>
  "archive_lookup archive_df name =
     (case filter (\<lambda>a. cell_eq (hebrew_name a) name) archive_df of
        [] \<Rightarrow> None
      | a # rest \<Rightarrow> Some a)"

definition import_date :: "cell \<Rightarrow> cell \<Rightarrow> pystr option" where
  \<comment> \<open>the entry of \<open>import_data\<close> for a date column, \<open>None\<close> when there is none\<close>
  "import_date current archive =
     (if empty_cell current
      then (if truthy (validate_date_format archive) then validate_date_format archive else None)
      else None)"

definition import_category :: "cell \<Rightarrow> cell \<Rightarrow> pystr option" where
  "import_category current archive =
     (if empty_cell current
      then (if truthy (validate_circumstances_category archive)
            then validate_circumstances_category archive else None)
      else None)"

definition new_urls :: "(pystr \<Rightarrow> bool) \<Rightarrow> pystr \<Rightarrow> pystr \<Rightarrow> pystr list" where
  \<comment> \<open>the URLs of the archive cell that pass the validation and are not a substring of the
      current cell\<close>
  "new_urls has_scheme_netloc current_citations archive_citations =
     filter (\<lambda>url. validate_url has_scheme_netloc url \<and> \<not> py_in url current_citations)
       (map strip (split_on 59 archive_citations))"

definition import_citations :: "(pystr \<Rightarrow> bool) \<Rightarrow> cell \<Rightarrow> cell \<Rightarrow> pystr option" where
  "import_citations has_scheme_netloc current archive =
     (let current_citations = str_cell current; archive_citations = str_cell archive in
      if archive_citations \<noteq> [] \<and> archive_citations \<noteq> ascii ''nan''
      then (let urls = new_urls has_scheme_netloc current_citations archive_citations in
            if urls \<noteq> []
            then (if current_citations \<noteq> [] \<and> current_citations \<noteq> ascii ''nan''
                  then Some (current_citations @ ascii ''; '' @ join (ascii ''; '') urls)
                  else Some (join (ascii ''; '') urls))
            else None)
      else None)"

definition import_countries :: "cell \<Rightarrow> cell \<Rightarrow> pystr option" where
  "import_countries current archive =
     (if empty_cell current
      then (if notna archive \<and> strip (str_cell archive) \<noteq> [] \<and> str_cell archive \<noteq> ascii ''nan''
            then Some (strip (str_cell archive)) else None)
      else None)"

definition assign :: "pystr option \<Rightarrow> cell \<Rightarrow> cell" where
  \<comment> \<open>\<open>current_df.at[idx, field] = value\<close> for a field of \<open>import_data\<close>, the cell kept
      when the field is not in the dictionary\<close>
  "assign v c = (case v of None \<Rightarrow> c | Some s \<Rightarrow> Some s)"

definition import_row :: "(pystr \<Rightarrow> bool) \<Rightarrow> dataframe \<Rightarrow> row \<Rightarrow> row" where
  \<comment> \<open>one turn of the loop over \<open>current_df.iterrows()\<close>\<close>
  "import_row has_scheme_netloc archive_df current_row =
     (case archive_lookup archive_df (hebrew_name current_row) of
        None \<Rightarrow> current_row
      | Some archive_row \<Rightarrow>
          current_row
            \<lparr>date_of_death :=
               assign (import_date (date_of_death current_row) (date_of_death archive_row))
                 (date_of_death current_row),
             context_of_death :=
               assign (import_category (context_of_death current_row) (context_of_death archive_row))
                 (context_of_death current_row),
             release_date :=
               assign (import_date (release_date current_row) (release_date archive_row))
                 (release_date current_row),
             release_death_circumstances :=
               assign (import_category (release_death_circumstances current_row)
                         (release_death_circumstances archive_row))
                 (release_death_circumstances current_row),
             citation_urls :=
               assign (import_citations has_scheme_netloc (citation_urls current_row)
                         (citation_urls archive_row))
                 (citation_urls current_row),
             countries_involved :=
               assign (import_countries (countries_involved current_row)
                         (countries_involved archive_row))
                 (countries_involved current_row)\<rparr>)"

definition validated_archive_import :: "(pystr \<Rightarrow> bool) \<Rightarrow> dataframe \<Rightarrow> dataframe \<Rightarrow> dataframe" where
  \<comment> \<open>the frame that \<open>to_csv\<close> writes: every row is read and written at its own index\<close>
  "validated_archive_import has_scheme_netloc archive_df current_df =
     map (import_row has_scheme_netloc archive_df) current_df"

section \<open>The release import (properly\_import\_releases.py)\<close>

definition py_lower :: "pystr \<Rightarrow> pystr" where
  \<comment> \<open>\<open>str.lower\<close> on ASCII letters; other code points are kept, which is what \<open>lower\<close> does
      to Hebrew text\<close>
  "py_lower s = map (\<lambda>c. if 65 \<le> c \<and> c \<le> 90 then c + 32 else c) s"

fun split_ws_acc :: "pystr \<Rightarrow> pystr \<Rightarrow> pystr list" where
  \<comment> \<open>the words of a string, the first argument being the word read so far (reversed)\<close>
  "split_ws_acc w [] = (if w = [] then [] else [rev w])"
| "split_ws_acc w (c # cs) =
     (if isspace c then (if w = [] then split_ws_acc [] cs else rev w # split_ws_acc [] cs)
      else split_ws_acc (c # w) cs)"

definition split_ws :: "pystr \<Rightarrow> pystr list" where
  \<comment> \<open>\<open>s.split()\<close>\<close>
  "split_ws s = split_ws_acc [] s"

fun first_index :: "('a \<Rightarrow> bool) \<Rightarrow> 'a list \<Rightarrow> nat option" where
  \<comment> \<open>the index of the first element with the property: \<open>df[mask].index[0]\<close> when the
      selection is not empty, and the index at which a loop with \<open>break\<close> stops\<close>
  "first_index P [] = None"
| "first_index P (x # xs) =
     (if P x then Some 0 else (case first_index P xs of None \<Rightarrow> None | Some i \<Rightarrow> Some (Suc i)))"

definition not_release_values :: "pystr list" where
  "not_release_values = [ascii ''Body held'', ascii ''Released/Death circumstances'', ascii ''Still in captivity'']"

definition archive_released :: "dataframe \<Rightarrow> dataframe" where
  "archive_released archive_df =
     filter (\<lambda>a. \<not> isna (release_date a) \<and> release_date a \<notin> Some ` set not_release_values)
       archive_df"

definition name_mappings :: "(pystr \<times> pystr) list" where
  "name_mappings =
    [([1488, 1502, 1497, 1500, 1497, 32, 1491, 1502, 1488, 1512, 1497], [1488, 1502, 1497, 1500, 1497, 32, 1491, 1502, 1488, 1512, 1497]),
     ([1512, 1493, 1502, 1497, 32, 1490, 1493, 1504, 1503], [1512, 1493, 1502, 1497, 32, 1490, 1493, 1504, 1503]),
     ([1500, 1497, 1512, 1497, 32, 1488, 1500, 1489, 1490], [1500, 1497, 1512, 1497, 32, 1488, 1500, 1489, 1490]),
     ([1511, 1488, 1512, 1497, 1504, 1492, 32, 1488, 1512, 1497, 1489], [1511, 1488, 1512, 1497, 1504, 1492, 32, 1488, 1512, 1497, 1489]),
     ([1504, 1506, 1502, 1492, 32, 1500, 1493, 1497], [1504, 1506, 1502, 1492, 32, 1500, 1493, 1497])]"

definition find_current_match :: "dataframe \<Rightarrow> pystr \<Rightarrow> pystr \<Rightarrow> nat option" where
  \<comment> \<open>the three matching strategies, in the order of the script (\<open>archive_english\<close> is
      stripped and not empty where it is split, so it has a first word)\<close>
  "find_current_match current_df archive_hebrew archive_english =
     (let by_exact_name = first_index (\<lambda>r. cell_eq (hebrew_name r) (Some archive_hebrew)) current_df;
          current_match =
            (if by_exact_name \<noteq> None then by_exact_name
             else if archive_english \<noteq> [] \<and> archive_english \<noteq> ascii ''nan''
             then (case split_ws archive_english of
                     [] \<Rightarrow> None
                   | first_word # other_words \<Rightarrow>
                       first_index
                         (\<lambda>r. py_in (py_lower first_word) (py_lower (str_cell (kidnapping_summary r))))
                         current_df)
             else None)
      in if current_match = None
         then (case map_of name_mappings archive_hebrew of
                 None \<Rightarrow> None
               | Some mapped_name \<Rightarrow> first_index (\<lambda>r. cell_eq (hebrew_name r) (Some mapped_name)) current_df)
         else current_match)"

definition append_citations :: "cell \<Rightarrow> pystr \<Rightarrow> cell" where
  \<comment> \<open>\<open>current + '; ' + new\<close> when the cell holds text, else the new text alone\<close>
  "append_citations current new =
     (if str_cell current \<noteq> [] \<and> str_cell current \<noteq> ascii ''nan''
      then Some (str_cell current @ ascii ''; '' @ new)
      else Some new)"

definition update_release :: "row \<Rightarrow> row \<Rightarrow> row" where
  \<comment> \<open>the assignments made to the matched row of \<open>current_df\<close>\<close>
  "update_release archive_row r =
     (let r' = r\<lparr>current_status := Some (ascii ''Released''),
                  release_date := release_date archive_row,
                  release_death_circumstances := release_death_circumstances archive_row\<rparr>;
          archive_citations = str_cell (citation_urls archive_row)
      in if archive_citations \<noteq> [] \<and> archive_citations \<noteq> ascii ''nan''
         then r'\<lparr>citation_urls := append_citations (citation_urls r') archive_citations\<rparr>
         else r')"

definition import_release :: "dataframe \<Rightarrow> row \<Rightarrow> dataframe" where
  \<comment> \<open>one turn of the loop over the rows of \<open>archive_released\<close>\<close>
  "import_release current_df archive_row =
     (let archive_hebrew = strip (str_cell (hebrew_name archive_row));
          archive_english = strip (str_cell (hostage_name archive_row))
      in if isna (release_date archive_row)
            \<or> release_date archive_row \<in> {Some (ascii ''Body held''), Some (ascii ''Still in captivity'')}
         then current_df
         else (case find_current_match current_df archive_hebrew archive_english of
                 None \<Rightarrow> current_df
               | Some i \<Rightarrow> current_df[i := update_release archive_row (current_df ! i)]))"

definition release_indicators :: "pystr list" where
  "release_indicators = [[1513, 1493, 1495, 1512, 1512], [1513, 1493, 1495, 1512, 1512, 1492], [1513, 1495, 1512, 1493, 1512]]"

definition hebrew_text_release :: "row \<Rightarrow> row" where
  \<comment> \<open>the second loop: a release read from the Hebrew summary\<close>
  "hebrew_text_release r =
     (if current_status r \<in> {Some (ascii ''Unknown''), Some (ascii ''Held in Gaza'')}
      then (if \<exists>indicator \<in> set release_indicators. py_in indicator (str_cell (kidnapping_summary r))
            then r\<lparr>current_status := Some (ascii ''Released''),
                   release_death_circumstances :=
                     (if isna (release_death_circumstances r) then Some (ascii ''Released via deal'')
                      else release_death_circumstances r),
                   release_date :=
                     (if isna (release_date r) then Some (ascii ''2023-11-24'') else release_date r)\<rparr>
            else r)
      else r)"

definition properly_import_releases :: "dataframe \<Rightarrow> dataframe \<Rightarrow> dataframe" where
  "properly_import_releases archive_df current_df =
     map hebrew_text_release (foldl import_release current_df (archive_released archive_df))"

section \<open>A manual correction (update\_hersh\_goldberg\_polin.py)\<close>






section \<open>Extraction from the Hebrew descriptions (comprehensive\_data\_extraction.py)\<close>

definition full_text_of :: "row \<Rightarrow> pystr" where
  "full_text_of r =
     join (ascii '' '')
       [str_cell (hebrew_desc_short r), str_cell (hebrew_desc_long r), str_cell (kidnapping_summary r)]"

definition date_patterns :: "(pystr \<times> pystr) list" where
  \<comment> \<open>the dictionary \<open>date_patterns\<close>, in the order in which the loop visits it\<close>
  "date_patterns =
    [([1489, 45, 50, 57, 46, 56, 46, 50, 53], ascii ''2025-08-29''),
     ([1489, 45, 50, 50, 46, 54, 46, 50, 53], ascii ''2025-06-22''),
     ([1489, 45, 49, 49, 46, 48, 54, 46, 50, 53], ascii ''2025-06-11''),
     ([1489, 45, 48, 55, 46, 48, 54, 46, 50, 53], ascii ''2025-06-07''),
     ([1489, 45, 48, 53, 46, 48, 54, 46, 50, 53], ascii ''2025-06-05''),
     ([1489, 45, 50, 55, 46, 50, 46, 50, 53], ascii ''2025-02-27''),
     ([1489, 45, 49, 57, 46, 49, 46, 50, 53], ascii ''2025-01-19''),
     ([1489, 45, 56, 46, 49, 46, 50, 53], ascii ''2025-01-08''),
     ([1489, 45, 52, 46, 49, 50, 46, 50, 52], ascii ''2024-12-04''),
     ([1489, 45, 51, 49, 46, 56, 46, 50, 52], ascii ''2024-08-31''),
     ([1489, 45, 50, 48, 46, 56, 46, 50, 52], ascii ''2024-08-20''),
     ([1489, 45, 50, 52, 46, 48, 55, 46, 50, 52], ascii ''2024-07-24''),
     ([1489, 45, 50, 52, 46, 55, 46, 50, 52], ascii ''2024-07-24'')]"

definition extract_death_date :: "pystr \<Rightarrow> row \<Rightarrow> row \<times> bool \<Rightarrow> row \<times> bool" where
  \<comment> \<open>each section reads the row as it was loaded and the text, and changes the frame's row and
      the flag \<open>updated\<close>, which are the pair\<close>
  "extract_death_date full_text row st =
     (if isna (date_of_death row)
      then (if py_in [1489, 45, 55, 32, 1489, 1488, 1493, 1511, 1496, 1493, 1489, 1512] full_text \<or> py_in [1504, 1512, 1510, 1495, 32, 1489, 45, 55, 46, 49, 48] full_text
               \<or> py_in [1504, 1512, 1510, 1495, 1492, 32, 1489, 45, 55, 46, 49, 48] full_text \<or> py_in [1504, 1508, 1500, 32, 1489, 45, 55, 46, 49, 48] full_text
            then ((fst st)\<lparr>date_of_death := Some (ascii ''2023-10-07'')\<rparr>, True)
            else if py_in (ascii ''2014'') full_text \<and> py_in [1504, 1508, 1500, 32, 1489, 1502, 1489, 1510, 1506] full_text
            then ((fst st)\<lparr>date_of_death := Some (ascii ''2014-07-20'')\<rparr>, True)
            else st)
      else st)"

definition extract_death_context :: "pystr \<Rightarrow> row \<Rightarrow> row \<times> bool \<Rightarrow> row \<times> bool" where
  "extract_death_context full_text row st =
     (if isna (context_of_death row)
      then (if py_in [1504, 1512, 1510, 1495, 32, 1489, 1513, 1489, 1497] full_text \<or> py_in [1504, 1512, 1510, 1495, 1492, 32, 1489, 1513, 1489, 1497] full_text
            then ((fst st)\<lparr>context_of_death := Some (ascii ''Died in Captivity - Killed by Hamas'')\<rparr>, True)
            else if \<exists>phrase \<in> set [[1504, 1512, 1510, 1495, 32, 1489, 45, 55, 32, 1489, 1488, 1493, 1511, 1496, 1493, 1489, 1512], [1504, 1512, 1510, 1495, 1492, 32, 1489, 45, 55, 32, 1489, 1488, 1493, 1511, 1496, 1493, 1489, 1512], [1504, 1508, 1500, 32, 1489, 1511, 1512, 1489, 32, 1489, 45, 55],
                                      [1504, 1492, 1512, 1490, 32, 1489, 1511, 1512, 1489, 32, 1489, 45, 55]]. py_in phrase full_text
            then ((fst st)\<lparr>context_of_death := Some (ascii ''Died Before/During Kidnapping'')\<rparr>, True)
            else if py_in [1504, 1508, 1500, 32, 1489, 1502, 1489, 1510, 1506] full_text \<or> py_in [1504, 1508, 1500, 32, 1493, 1504, 1495, 1496, 1507] full_text
            then ((fst st)\<lparr>context_of_death := Some (ascii ''Died Before/During Kidnapping'')\<rparr>, True)
            else st)
      else st)"

definition extract_release_date :: "pystr \<Rightarrow> row \<Rightarrow> row \<times> bool \<Rightarrow> row \<times> bool" where
  \<comment> \<open>the phrase patterns are tried when \<open>updated\<close> is still false, whichever section set it\<close>
  "extract_release_date full_text row st =
     (if isna (release_date row)
      then (let st1 = (case find (\<lambda>(pattern, date). py_in pattern full_text) date_patterns of
                         None \<Rightarrow> st
                       | Some (pattern, date) \<Rightarrow> ((fst st)\<lparr>release_date := Some date\<rparr>, True))
            in if \<not> snd st1
               then (if py_in [1504, 1493, 1489, 1502, 1489, 1512, 32, 50, 48, 50, 51] full_text \<or> py_in [1488, 1495, 1512, 1497, 32, 52, 57, 32, 1497, 1493, 1501] full_text
                     then ((fst st1)\<lparr>release_date := Some (ascii ''2023-11-24'')\<rparr>, True)
                     else if py_in [1488, 1495, 1512, 1497, 32, 53, 53, 32, 1497, 1493, 1501] full_text
                     then ((fst st1)\<lparr>release_date := Some (ascii ''2023-12-01'')\<rparr>, True)
                     else if py_in [1488, 1495, 1512, 1497, 32, 50, 52, 54, 32, 1497, 1502, 1497, 1501] full_text
                     then ((fst st1)\<lparr>release_date := Some (ascii ''2024-06-08'')\<rparr>, True)
                     else st1)
               else st1)
      else st)"

definition extract_circumstances :: "pystr \<Rightarrow> row \<Rightarrow> row \<times> bool \<Rightarrow> row \<times> bool" where
  "extract_circumstances full_text row st =
     (if isna (release_death_circumstances row)
      then (if current_status row = Some (ascii ''Deceased - Returned'')
            then ((fst st)\<lparr>release_death_circumstances :=
                              Some (ascii ''Returned in Military Operation - Body'')\<rparr>, True)
            else if current_status row = Some (ascii ''Released'')
            then (if py_in [1506, 1505, 1511, 1492] full_text \<or> py_in [1513, 1495, 1512, 1493, 1512] full_text
                  then ((fst st)\<lparr>release_death_circumstances := Some (ascii ''Released via deal'')\<rparr>, True)
                  else ((fst st)\<lparr>release_death_circumstances := Some (ascii ''Returned in Deal'')\<rparr>, True))
            else if py_in [1513, 1493, 1495, 1512, 1512] full_text \<or> py_in [1513, 1493, 1495, 1512, 1512, 1492] full_text
            then ((if current_status row = Some (ascii ''Unknown'')
                   then (fst st)\<lparr>release_death_circumstances := Some (ascii ''Returned in Deal''),
                                  current_status := Some (ascii ''Released'')\<rparr>
                   else (fst st)\<lparr>release_death_circumstances := Some (ascii ''Returned in Deal'')\<rparr>), True)
            else if py_in [1495, 1493, 1500, 1509] full_text \<or> py_in [1495, 1493, 1500, 1510, 1492] full_text
            then ((if current_status row = Some (ascii ''Unknown'')
                   then (fst st)\<lparr>release_death_circumstances := Some (ascii ''Returned in Military Operation''),
                                  current_status := Some (ascii ''Released'')\<rparr>
                   else (fst st)\<lparr>release_death_circumstances :=
                                    Some (ascii ''Returned in Military Operation'')\<rparr>), True)
            else if py_in [1490, 1493, 1508, 1514, 1493, 32, 1492, 1493, 1513, 1489, 1492] full_text \<or> py_in [1490, 1493, 1508, 1514, 1492, 32, 1492, 1493, 1513, 1489, 1492] full_text
            then ((fst st)\<lparr>release_death_circumstances :=
                              Some (ascii ''Returned in Military Operation - Body'')\<rparr>, True)
            else st)
      else st)"

definition extract_row :: "row \<Rightarrow> row \<times> bool" where
  \<comment> \<open>one turn of the loop: the row written to the frame and the final value of \<open>updated\<close>\<close>
  "extract_row row =
     (let full_text = full_text_of row
      in extract_circumstances full_text row
           (extract_release_date full_text row
              (extract_death_context full_text row
                 (extract_death_date full_text row (row, False)))))"

definition comprehensive_data_extraction :: "dataframe \<Rightarrow> dataframe" where
  \<comment> \<open>the frame that the script writes back\<close>
  "comprehensive_data_extraction current_df = map (\<lambda>row. fst (extract_row row)) current_df"

definition updated_count :: "dataframe \<Rightarrow> nat" where
  "updated_count current_df = length (filter (\<lambda>row. snd (extract_row row)) current_df)"

section \<open>The consistency check (check\_data\_consistency.py)\<close>

definition row_issues :: "row \<Rightarrow> pystr list" where
  \<comment> \<open>the list \<open>issues\<close> of one row\<close>
  "row_issues row =
     (let status = current_status row;
          release_date = str_cell (release_date row);
          release_circumstances = str_cell (release_death_circumstances row);
          death_context = str_cell (context_of_death row)
      in if status = Some (ascii ''Released'')
         then (if release_date \<in> {ascii ''nan'', []} then [ascii ''Released but no release date''] else [])
              @ (if release_circumstances \<in> {ascii ''nan'', []}
                 then [ascii ''Released but no release circumstances''] else [])
         else if status = Some (ascii ''Held in Gaza'')
         then (if release_date \<notin> {ascii ''nan'', []} then [ascii ''Held in Gaza but has release date''] else [])
              @ (if py_in (ascii ''Released'') release_circumstances
                    \<or> py_in (ascii ''Returned'') release_circumstances
                 then [ascii ''Held in Gaza but has release circumstances''] else [])
         else if status = Some (ascii ''Deceased'')
         then (if death_context \<in> {ascii ''nan'', []} then [ascii ''Deceased but no death context''] else [])
         else if status = Some (ascii ''Deceased - Returned'')
         then (if death_context \<in> {ascii ''nan'', []}
               then [ascii ''Deceased-Returned but no death context''] else [])
              @ (if release_date \<in> {ascii ''nan'', []}
                 then [ascii ''Deceased-Returned but no return date''] else [])
         else [])"

record inconsistency =
  inc_index :: nat
  inc_name :: cell
  inc_status :: cell
  inc_issues :: "pystr list"
  inc_release_date :: pystr
  inc_release_circumstances :: pystr
  inc_death_context :: pystr

fun scan_rows :: "nat \<Rightarrow> dataframe \<Rightarrow> inconsistency list" where
  \<comment> \<open>the loop over \<open>df.iterrows()\<close>, the first argument being the index of the next row\<close>
  "scan_rows idx [] = []"
| "scan_rows idx (row # rows) =
     (if row_issues row \<noteq> []
      then \<lparr>inc_index = idx, inc_name = hebrew_name row, inc_status = current_status row,
             inc_issues = row_issues row, inc_release_date = str_cell (release_date row),
             inc_release_circumstances = str_cell (release_death_circumstances row),
             inc_death_context = str_cell (context_of_death row)\<rparr> # scan_rows (Suc idx) rows
      else scan_rows (Suc idx) rows)"

definition check_data_consistency :: "dataframe \<Rightarrow> inconsistency list" where
  "check_data_consistency df = scan_rows 0 df"

section \<open>The consistency fix (fix\_data\_consistency.py)\<close>

definition status_rules :: "row \<Rightarrow> row" where
  \<comment> \<open>rules 1 to 4, one \<open>if\<close>/\<open>elif\<close> chain\<close>
  "status_rules row =
     (let status = current_status row;
          release_date = str_cell (release_date row);
          release_circumstances = str_cell (release_death_circumstances row)
      in if status = Some (ascii ''Held in Gaza'') \<and> release_date \<notin> {ascii ''nan'', []}
         then row\<lparr>current_status := Some (ascii ''Released'')\<rparr>
         else if status = Some (ascii ''Held in Gaza'')
                 \<and> (\<exists>word \<in> set [ascii ''Released'', ascii ''Returned'', ascii ''Rescue''].
                       py_in word release_circumstances)
         then (if py_in (ascii ''Body'') release_circumstances
               then row\<lparr>current_status := Some (ascii ''Deceased - Returned'')\<rparr>
               else row\<lparr>current_status := Some (ascii ''Released'')\<rparr>)
         else if status = Some (ascii ''Released'') \<and> py_in (ascii ''Currently Held'') release_circumstances
         then row\<lparr>current_status := Some (ascii ''Held in Gaza''), release_date := Some []\<rparr>
         else if status = Some (ascii ''Released'') \<and> py_in (ascii ''Body'') release_circumstances
         then row\<lparr>current_status := Some (ascii ''Deceased - Returned'')\<rparr>
         else row)"

definition fix_row :: "row \<Rightarrow> row" where
  \<comment> \<open>one turn of the first loop: rules 1 to 4, then rule 5, an \<open>if\<close> of its own; all
      conditions read the row as it was loaded\<close>
  "fix_row row =
     (if str_cell (release_death_circumstances row) = ascii ''Currently Held Captive''
         \<and> str_cell (release_date row) \<notin> {ascii ''nan'', []}
      then (status_rules row)\<lparr>release_date := Some []\<rparr>
      else status_rules row)"

definition cleanup_row :: "row \<Rightarrow> row" where
  \<comment> \<open>the second loop, over the frame as the first loop left it\<close>
  "cleanup_row row =
     (if current_status row = Some (ascii ''Held in Gaza'')
         \<and> str_cell (release_death_circumstances row) \<in> {ascii ''nan'', []}
      then row\<lparr>release_death_circumstances := Some (ascii ''Currently Held Captive'')\<rparr>
      else row)"

definition fix_data_consistency :: "dataframe \<Rightarrow> dataframe" where
  "fix_data_consistency df = map cleanup_row (map fix_row df)"

section \<open>Fuzzy matching of the held names (find\_missing\_names.py)\<close>

definition still_held_names :: "pystr list" where
  "still_held_names =
    [[1514, 1502, 1497, 1512, 32, 1488, 1491, 1512],
     [1488, 1500, 1493, 1503, 32, 1488, 1492, 1500],
     [1497, 1493, 1505, 1507, 32, 1495, 1497, 1497, 1501, 32, 1488, 1493, 1495, 1504, 1492],
     [1488, 1489, 1497, 1504, 1514, 1503, 32, 1488, 1493, 1512],
     [1491, 1512, 1493, 1512, 32, 1488, 1493, 1512],
     [1490, 1497, 1488, 32, 1488, 1497, 1500, 1493, 1494],
     [1502, 1493, 1495, 1502, 1491, 32, 1488, 1500, 1488, 1496, 1512, 1513],
     [1512, 1493, 1504, 1503, 32, 1488, 1504, 1490, 1500],
     [1502, 1514, 1503, 32, 1488, 1504, 1490, 1512, 1505, 1496],
     [1488, 1500, 1511, 1504, 1492, 32, 1489, 1493, 1495, 1489, 1493, 1496],
     [1488, 1493, 1512, 1497, 1488, 1500, 32, 1489, 1512, 1493, 1498],
     [1505, 1492, 1512, 32, 1489, 1512, 1493, 1498],
     [1490, 1500, 1497, 32, 1489, 1512, 1502, 1503],
     [1494, 1497, 1493, 32, 1489, 1512, 1502, 1503],
     [1512, 1493, 1501, 32, 1489, 1512, 1505, 1500, 1489, 1505, 1511, 1497],
     [1502, 1504, 1497, 32, 1490, 1493, 1491, 1488, 1512, 1491],
     [1512, 1503, 32, 1512, 1504, 1497, 32, 1490, 1488, 1493, 1497, 1500, 1497],
     [1492, 1491, 1512, 32, 1490, 1493, 1500, 1491, 1497, 1503],
     [1490, 1497, 1488, 32, 1490, 1500, 1489, 1493, 1506, 32, 1491, 1500, 1488, 1500],
     [1489, 1497, 1508, 1497, 1503, 32, 1490, 39, 1493, 1513, 1497],
     [1488, 1489, 1497, 1514, 1512, 32, 1491, 1493, 1491],
     [1506, 1493, 1494, 32, 1491, 1504, 1497, 1488, 1500],
     [1488, 1497, 1514, 1503, 32, 1492, 1493, 1512, 1503],
     [1506, 1504, 1489, 1512, 32, 1492, 1497, 1502, 1503],
     [1502, 1511, 1505, 1497, 1501, 32, 1492, 1512, 1511, 1497, 1503],
     [1488, 1512, 1497, 1492, 32, 1494, 1500, 1502, 1504, 1493, 1489, 1497, 1509],
     [1496, 1500, 32, 1495, 1497, 1497, 1502, 1497],
     [1488, 1505, 1507, 32, 1495, 1502, 1502, 1497],
     [1488, 1497, 1514, 1497, 32, 1495, 1503],
     [1504, 1502, 1512, 1493, 1491, 32, 1499, 1492, 1503],
     [1513, 1490, 1489, 32, 1499, 1500, 1508, 1493, 1503],
     [1488, 1497, 1514, 1503, 32, 1500, 1493, 1497],
     [1490, 39, 1493, 1513, 1493, 1506, 32, 1500, 1493, 1488, 1497, 1496, 1493, 32, 1502, 1493, 1500, 1500],
     [1488, 1497, 1514, 1503, 32, 1488, 1489, 1512, 1492, 1501, 32, 1502, 1493, 1512],
     [1506, 1502, 1512, 1497, 32, 1502, 1497, 1512, 1503],
     [1488, 1500, 1497, 1492, 1493, 32, 1502, 1512, 1490, 1500, 1497, 1514],
     [1506, 1493, 1502, 1512, 32, 1504, 1488, 1493, 1496, 1512, 1492],
     [1514, 1502, 1497, 1512, 32, 1504, 1502, 1512, 1493, 1491, 1497],
     [1491, 1504, 1497, 1488, 1500, 32, 1513, 1502, 1506, 1493, 1503, 32, 1508, 1512, 1509],
     [1502, 1514, 1503, 32, 1510, 1504, 1490, 1488, 1493, 1511, 1512],
     [1488, 1512, 1497, 1488, 1500, 32, 1511, 1493, 1504, 1497, 1493],
     [1491, 1493, 1491, 32, 1511, 1493, 1504, 1497, 1493],
     [1506, 1502, 1497, 1512, 1501, 32, 1511, 1493, 1508, 1512],
     [1489, 1512, 32, 1488, 1489, 1512, 1492, 1501, 32, 1511, 1493, 1508, 1512, 1513, 1496, 1497, 1497, 1503],
     [1500, 1497, 1488, 1493, 1512, 32, 1512, 1493, 1491, 1488, 1497, 1507],
     [1497, 1493, 1505, 1497, 32, 1513, 1512, 1506, 1489, 1497],
     [1506, 1497, 1491, 1503, 32, 1513, 1514, 1497, 1493, 1497]]"

definition missing_names :: "dataframe \<Rightarrow> pystr list" where
  "missing_names df =
     filter (\<lambda>name. filter (\<lambda>r. cell_eq (hebrew_name r) (Some name)) df = []) still_held_names"

definition part_score :: "pystr list \<Rightarrow> pystr \<Rightarrow> nat" where
  \<comment> \<open>the inner loop over the parts of the missing name\<close>
  "part_score parts csv_name =
     foldl (\<lambda>score part. if length part > 1 \<and> py_in part csv_name then score + length part else score)
       0 parts"

definition match_score :: "pystr \<Rightarrow> pystr \<Rightarrow> nat" where
  "match_score missing_name csv_name =
     (let score = part_score (split_ws missing_name) csv_name
      in if abs (int (length csv_name) - int (length missing_name)) < 3 then score + 2 else score)"

fun best_match_loop :: "pystr \<Rightarrow> nat \<Rightarrow> dataframe \<Rightarrow> nat option \<times> nat \<Rightarrow> nat option \<times> nat" where
  \<comment> \<open>the loop over \<open>df.iterrows()\<close>: the index of the next row, the rows left, and the pair
      \<open>(best_match, best_score)\<close>\<close>
  "best_match_loop missing_name idx [] best = best"
| "best_match_loop missing_name idx (row # rows) best =
     (if current_status row = Some (ascii ''Held in Gaza'')
      then best_match_loop missing_name (Suc idx) rows best
      else (let score = match_score missing_name (str_cell (hebrew_name row))
            in if score > snd best \<and> score \<ge> 3
               then best_match_loop missing_name (Suc idx) rows (Some idx, score)
               else best_match_loop missing_name (Suc idx) rows best))"

record fuzzy_update =
  upd_missing :: pystr
  upd_found :: cell
  upd_index :: nat
  upd_current_status :: cell
  upd_score :: nat

definition fuzzy_match :: "dataframe \<Rightarrow> pystr \<Rightarrow> fuzzy_update option" where
  \<comment> \<open>the entry appended to \<open>additional_updates\<close> for one missing name, if any\<close>
  "fuzzy_match df missing_name =
     (case best_match_loop missing_name 0 df (None, 0) of
        (None, best_score) \<Rightarrow> None
      | (Some best_match, best_score) \<Rightarrow>
          Some \<lparr>upd_missing = missing_name, upd_found = hebrew_name (df ! best_match),
                upd_index = best_match, upd_current_status = current_status (df ! best_match),
                upd_score = best_score\<rparr>)"

definition additional_updates :: "dataframe \<Rightarrow> fuzzy_update list" where
  "additional_updates df = List.map_filter (fuzzy_match df) (missing_names df)"

definition mark_held :: "row \<Rightarrow> row" where
  \<comment> \<open>the three assignments that make a row a held one\<close>
  "mark_held r =
     r\<lparr>current_status := Some (ascii ''Held in Gaza''),
       release_death_circumstances := Some (ascii ''Currently Held Captive''),
       release_date := Some []\<rparr>"

definition apply_updates :: "dataframe \<Rightarrow> fuzzy_update list \<Rightarrow> dataframe" where
  "apply_updates df updates = foldl (\<lambda>d u. d[upd_index u := mark_held (d ! upd_index u)]) df updates"

definition held_count :: "dataframe \<Rightarrow> nat" where
  \<comment> \<open>\<open>len(df[df['Current Status'] == 'Held in Gaza'])\<close>\<close>
  "held_count df = length (filter (\<lambda>r. current_status r = Some (ascii ''Held in Gaza'')) df)"

definition is_candidate :: "row \<Rightarrow> bool" where
  "is_candidate r =
     (current_status r \<in> {Some (ascii ''Released''), Some (ascii ''Unknown'')}
      \<and> (isna (release_date r) \<or> release_date r = Some []))"

definition candidates :: "dataframe \<Rightarrow> nat list" where
  \<comment> \<open>the index of the selection \<open>candidates\<close>, taken before any conversion\<close>
  "candidates df = filter (\<lambda>i. is_candidate (df ! i)) [0..<length df]"

definition convert_candidates :: "dataframe \<Rightarrow> dataframe" where
  \<comment> \<open>the block under \<open>if final_held < 47\<close>\<close>
  "convert_candidates df =
     (let final_held = held_count df
      in if final_held < 47
         then (let remaining_needed = 47 - final_held;
                   cands = candidates df
               in foldl (\<lambda>d idx. d[idx := mark_held (d ! idx)]) df
                    (take (min remaining_needed (length cands)) cands))
         else df)"

definition find_missing_names :: "dataframe \<Rightarrow> dataframe" where
  \<comment> \<open>the frame that the script leaves in \<open>hostages-from-kan.csv\<close>\<close>
  "find_missing_names df = convert_candidates (apply_updates df (additional_updates df))"

section \<open>Fuzzy completion of the Hebrew names (complete\_hebrew\_mapping.py)\<close>

definition comprehensive_mappings :: "(pystr \<times> pystr list) list" where
  \<comment> \<open>the dictionary, in insertion order\<close>
  "comprehensive_mappings =
    [([1497, 1493, 1504, 1514, 1503, 32, 1505, 1502, 1512, 1504, 1493], [ascii ''Yonatan Samreno'', ascii ''Jonathan Samreno'']),
     ([1513, 1497, 32, 1500, 1493, 1497, 1504, 1505, 1493, 1503], [ascii ''Shai Levinson'', ascii ''Shay Levinson'']),
     ([1506, 1508, 1512, 1492, 32, 1511, 1497, 1491, 1512], [ascii ''Ofra Keidar'', ascii ''Ofra Kedar'']),
     ([1488, 1489, 1497, 1489, 32, 1488, 1510, 1497, 1500, 1497], [ascii ''Aviv Atzili'', ascii ''Aviv Etzili'']),
     ([1497, 1488, 1497, 1512, 32, 1497, 1506, 1511, 1489], [ascii ''Yair Yaakov'', ascii ''Yair Jacob'']),
     ([1504, 1496, 1508, 1493, 1504, 1490, 32, 1508, 1497, 1504, 1496, 1492], [ascii ''Nattapong Pinta'', ascii ''Nattapong Phinta'']),
     ([1490, 1523, 1493, 1491, 1497, 32, 1493, 1497, 1497, 1504, 1513, 1496, 1497, 1497, 1503], [ascii ''Judy Weinstein'', ascii ''Judith Weinstein'']),
     ([1490, 1491, 1497, 32, 1495, 1490, 1497], [ascii ''Gadi Haggai'', ascii ''Gadi Hagay'']),
     ([1488, 1500, 1493, 1503, 32, 1488, 1493, 1492, 1500], [ascii ''Alon Ohel'']),
     ([1488, 1493, 1512, 32, 1500, 1493, 1497], [ascii ''Or Levy'', ascii ''Or Levi'']),
     ([1488, 1500, 1499, 1505, 1504, 1491, 1512, 32, 1500, 1493, 1489, 1504, 1493, 1489], [ascii ''Alexander Lobanov'', ascii ''Aleksandr Lobanov'']),
     ([1506, 1500, 1502, 1493, 1490, 32, 1505, 1512, 1493, 1505, 1497], [ascii ''Almog Sarusi'', ascii ''Almog Saroussi'']),
     ([1506, 1491, 1503, 32, 1497, 1512, 1493, 1513, 1500, 1502, 1497], [ascii ''Eden Yerushalmi'', ascii ''Eden Jerusalmi'']),
     ([1502, 1514, 1503, 32, 1510, 1504, 1490, 1493, 1511, 1512], [ascii ''Matan Zangauker'', ascii ''Matan Zangawker'']),
     ([1506, 1493, 1502, 1512, 1497, 32, 1502, 1497, 1512, 1503], [ascii ''Omri Miran'']),
     ([1488, 1502, 1497, 1512, 32, 1513, 1502, 1493, 1488, 1500], [ascii ''Amir Shmuel'', ascii ''Amir Samuel'']),
     ([1504, 1491, 1489, 32, 1508, 1493, 1508, 1500, 1493, 1493, 1500], [ascii ''Nadav Popplewell'']),
     ([1502, 1497, 1496, 1500, 32, 1495, 1497, 1497, 1501], [ascii ''Mital Haim'']),
     ([1488, 1500, 1497, 1492, 32, 1496, 1493, 1508, 1497, 1511], [ascii ''Elya Toufic'', ascii ''Elia Toufic'']),
     ([1491, 1493, 1500, 1489, 32, 1497, 1492, 1493, 1491], [ascii ''Dolev Yehud'']),
     ([1488, 1489, 1504, 1497, 1512, 32, 1505, 1497, 1502, 1503, 32, 1496, 1493, 1489], [ascii ''Avner Siton'', ascii ''Avner Simantuv'']),
     ([1488, 1502, 1497, 1500, 1497, 32, 1491, 1502, 1488, 1512, 1497], [ascii ''Emily Damari'']),
     ([1512, 1493, 1502, 1497, 32, 1490, 1493, 1504, 1503], [ascii ''Romi Gonen'']),
     ([1492, 1512, 1513, 32, 1490, 1493, 1500, 1491, 1489, 1512, 1490, 45, 1508, 1493, 1500, 1497, 1503], [ascii ''Hersh Goldberg-Polin'']),
     ([1500, 1497, 1512, 1497, 32, 1488, 1500, 1489, 1490], [ascii ''Liri Albag'']),
     ([1511, 1512, 1497, 1504, 1492, 32, 1488, 1512, 1497, 1488, 1489], [ascii ''Karina Ariev'']),
     ([1504, 1506, 1502, 1492, 32, 1500, 1493, 1497], [ascii ''Naama Levy'']),
     ([1488, 1493, 1492, 1491, 32, 1489, 1503, 32, 1506, 1502, 1497], [ascii ''Ohad Ben Ami'']),
     ([1490, 1497, 1488, 32, 1490, 1500, 1489, 1493, 1506, 32, 1491, 1500, 1488, 1500], [ascii ''Guy Gilboa-Dalal'']),
     ([1492, 1491, 1512, 32, 1490, 1493, 1500, 1491, 1497, 1503], [ascii ''Hadar Goldin'']),
     ([1488, 1493, 1512, 1493, 1503, 32, 1513, 1488, 1493, 1500], [ascii ''Oron Shaul'']),
     ([1506, 1491, 1503, 32, 1494, 1499, 1512, 1497, 1492], [ascii ''Eden Zacharia'', ascii ''Eden Zecharya'']),
     ([1488, 1500, 1499, 1505, 1504, 1491, 1512, 32, 1491, 1504, 1510, 1497, 1490], [ascii ''Alex Danzig'', ascii ''Alexander Danzig'']),
     ([1488, 1497, 1514, 1497, 32, 1505, 1489, 1497, 1512, 1505, 1511, 1497], [ascii ''Itai Svirsky'']),
     ([1514, 1502, 1497, 1512, 32, 1488, 1491, 1512], [ascii ''Tamir Adar'']),
     ([1512, 1493, 1503, 32, 1513, 1512, 1502, 1503], [ascii ''Ron Sherman'']),
     ([1500, 1497, 1488, 1493, 1512, 32, 1512, 1493, 1491, 1497, 1511], [ascii ''Lior Rudik'']),
     ([1491, 1503, 32, 1488, 1500, 1502, 1490], [ascii ''Dan Almog'']),
     ([1497, 1493, 1504, 1514, 1503, 32, 1505, 1502, 1493], [ascii ''Yonatan Samo'']),
     ([1506, 1502, 1497, 1514, 32, 1513, 1504, 1497], [ascii ''Amit Shani'']),
     ([1495, 1497, 1497, 1501, 32, 1491, 1505, 1511, 1500], [ascii ''Chaim Dascal'']),
     ([1514, 1502, 1512, 32, 1499, 1492, 1503], [ascii ''Tamar Cohen'']),
     ([1512, 1493, 1514, 1497, 32, 1502, 1493, 1504, 1491, 1493], [ascii ''Ruti Mondo'']),
     ([1490, 1500, 32, 1491, 1500, 1488, 1500], [ascii ''Gal Dalal'']),
     ([1502, 1497, 1492, 32, 1512, 1490, 1489], [ascii ''Maya Regev'']),
     ([1495, 1497, 1497, 1501, 32, 1508, 1512, 1497], [ascii ''Chaim Perry'']),
     ([1513, 1504, 1497, 32, 1500, 1493, 1511], [ascii ''Shani Look'']),
     ([1506, 1493, 1508, 1512, 1497, 32, 1489, 1512, 1493, 1491, 1510, 1511, 1497], [ascii ''Ofri Brodsky'']),
     ([1488, 1497, 1497, 1500, 1492, 32, 1502, 1510, 1490, 1512], [ascii ''Aiyla Metzger'']),
     ([1513, 1495, 1512, 32, 1489, 1503, 32, 1488, 1489, 1497, 1512, 1492, 1501], [ascii ''Shahar Ben Avraham'']),
     ([1512, 1493, 1502, 1503, 32, 1513, 1508, 1497, 1512, 1488], [ascii ''Roman Shapira'']),
     ([1514, 1492, 1497, 1500, 1492, 32, 1489, 1503, 32, 1502, 1513, 1492], [ascii ''Tehila Ben Moshe'']),
     ([1512, 1504, 1492, 32, 1512, 1489, 1497, 1504, 1493, 1489, 1497, 1509], [ascii ''Rina Rabinovitz'']),
     ([1488, 1500, 1497, 1494, 1489, 1514, 32, 1510, 1493, 1512, 1507], [ascii ''Elizabeth Tzureff'']),
     ([1514, 1502, 1512, 32, 1488, 1500, 1493, 1504, 1497], [ascii ''Tamar Aloni'']),
     ([1488, 1502, 1497, 1512, 1492, 32, 1512, 1488, 1513, 1497, 1491], [ascii ''Amira Rashid'']),
     ([1506, 1497, 1491, 1503, 32, 1488, 1500, 1499, 1505, 1504, 1491, 1512], [ascii ''Idan Alexander'']),
     ([1488, 1502, 1497, 1512, 32, 1512, 1488, 1508], [ascii ''Amir Rap'']),
     ([1506, 1497, 1491, 1503, 32, 1489, 1512, 1506], [ascii ''Idan Bara'']),
     ([1499, 1508, 1497, 1512, 32, 1489, 1497, 1489, 1505], [ascii ''Kfir Bibas'']),
     ([1488, 1512, 1497, 1488, 1500, 32, 1489, 1497, 1489, 1505], [ascii ''Ariel Bibas'']),
     ([1497, 1493, 1514, 1501, 32, 1508, 1488, 1514], [ascii ''Yotam Haim''])]"

definition similarity :: "(pystr \<Rightarrow> pystr \<Rightarrow> rat) \<Rightarrow> pystr \<Rightarrow> pystr \<Rightarrow> rat" where
  \<comment> \<open>\<open>SequenceMatcher\<close> belongs to the standard library: \<open>ratio a b\<close> stands for
      \<open>SequenceMatcher(None, a, b).ratio()\<close>, a quotient of two small integers\<close>
  "similarity ratio a b = ratio (py_lower a) (py_lower b)"

fun variants_loop :: "(pystr \<Rightarrow> pystr \<Rightarrow> rat) \<Rightarrow> pystr \<Rightarrow> pystr \<Rightarrow> pystr list
    \<Rightarrow> pystr option \<times> rat \<Rightarrow> pystr option \<times> rat" where
  \<comment> \<open>the inner loop over the English variants of one Hebrew name\<close>
  "variants_loop ratio english_name hebrew_key [] best = best"
| "variants_loop ratio english_name hebrew_key (english_variant # vs) best =
     (let score = similarity ratio english_name english_variant
      in if score > snd best \<and> score > 7 / 10
         then variants_loop ratio english_name hebrew_key vs (Some hebrew_key, score)
         else variants_loop ratio english_name hebrew_key vs best)"

fun mappings_loop :: "(pystr \<Rightarrow> pystr \<Rightarrow> rat) \<Rightarrow> pystr \<Rightarrow> (pystr \<times> pystr list) list
    \<Rightarrow> pystr option \<times> rat \<Rightarrow> pystr option \<times> rat" where
  "mappings_loop ratio english_name [] best = best"
| "mappings_loop ratio english_name ((hebrew_key, english_variants) # ms) best =
     mappings_loop ratio english_name ms
       (variants_loop ratio english_name hebrew_key english_variants best)"

definition best_hebrew_match :: "(pystr \<Rightarrow> pystr \<Rightarrow> rat) \<Rightarrow> (pystr \<times> pystr list) list \<Rightarrow> pystr
    \<Rightarrow> pystr option" where
  \<comment> \<open>the body of \<open>find_best_hebrew_match\<close> over a given dictionary\<close>
  "best_hebrew_match ratio mappings english_name =
     (case mappings_loop ratio english_name mappings (None, 0) of
        (best_match, best_score) \<Rightarrow> if best_score > 7 / 10 then best_match else None)"

definition find_best_hebrew_match :: "(pystr \<Rightarrow> pystr \<Rightarrow> rat) \<Rightarrow> pystr \<Rightarrow> pystr option" where
  "find_best_hebrew_match ratio english_name =
     best_hebrew_match ratio comprehensive_mappings english_name"

definition complete_hebrew_row :: "(pystr \<Rightarrow> pystr \<Rightarrow> rat) \<Rightarrow> row \<Rightarrow> row" where
  "complete_hebrew_row ratio row =
     (if isna (hebrew_name row) \<or> hebrew_name row = Some []
      then (let hebrew_match = find_best_hebrew_match ratio (str_cell (hostage_name row))
            in if truthy hebrew_match then row\<lparr>hebrew_name := hebrew_match\<rparr> else row)
      else row)"

definition complete_hebrew_mapping :: "(pystr \<Rightarrow> pystr \<Rightarrow> rat) \<Rightarrow> dataframe \<Rightarrow> dataframe" where
  "complete_hebrew_mapping ratio df = map (complete_hebrew_row ratio) df"

section \<open>Notions of the specification\<close>

definition zero_pad4 :: "nat \<Rightarrow> pystr" where
  \<comment> \<open>four decimal digits of a number below 10000\<close>
  "zero_pad4 n = [48 + n div 1000 mod 10, 48 + n div 100 mod 10, 48 + n div 10 mod 10, 48 + n mod 10]"

definition ymd_text :: "date \<Rightarrow> pystr" where
  \<comment> \<open>the form \<open>YYYY-MM-DD\<close> of a date: four, two and two ASCII digits\<close>
  "ymd_text dt = (case dt of (y, m, d) \<Rightarrow> zero_pad4 y @ [45] @ zero_pad2 m @ [45] @ zero_pad2 d)"

definition date_le :: "date \<Rightarrow> date \<Rightarrow> bool" where
  \<comment> \<open>chronological order of (year, month, day)\<close>
  "date_le a b = (case a of (y1, m1, d1) \<Rightarrow> case b of (y2, m2, d2) \<Rightarrow>
     y1 < y2 \<or> (y1 = y2 \<and> (m1 < m2 \<or> (m1 = m2 \<and> d1 \<le> d2))))"

definition in_window :: "date \<Rightarrow> date \<Rightarrow> date \<Rightarrow> bool" where
  \<comment> \<open>the plausible historical window of the specification: on or after the earliest
      possible kidnapping date, on or before ``now''\<close>
  "in_window earliest now dt = (date_le earliest dt \<and> date_le dt now)"

definition has_text :: "cell \<Rightarrow> bool" where
  \<comment> \<open>the test \<open>s and s != 'nan'\<close> that the scripts make on \<open>s = str(cell)\<close> before they
      read or extend a list of citations\<close>
  "has_text c = (str_cell c \<noteq> [] \<and> str_cell c \<noteq> ascii ''nan'')"


definition field_kept :: "(row \<Rightarrow> cell) \<Rightarrow> row \<Rightarrow> row \<Rightarrow> bool" where
  \<comment> \<open>a column that was populated in the row before (neither NaN nor the text \<open>nan\<close>) has
      the same value in the row after\<close>
  "field_kept f before after = (\<not> empty_cell (f before) \<longrightarrow> f after = f before)"

definition is_held :: "row \<Rightarrow> bool" where
  \<comment> \<open>the rows that \<open>held_count\<close> counts\<close>
  "is_held r = (current_status r = Some (ascii ''Held in Gaza''))"

definition loop_post :: "pystr \<Rightarrow> nat \<Rightarrow> dataframe \<Rightarrow> nat option \<times> nat \<Rightarrow> nat option \<times> nat \<Rightarrow> bool" where
  \<comment> \<open>what the loop over the rows establishes, from the pair \<open>start\<close> to the pair
      \<open>result\<close>, \<open>k\<close> being the index of the first of the rows: the best score does not
      fall, it bounds the score of every row that is not held and reaches 3, and either
      nothing changed or the match is the first row with the highest score\<close>
  "loop_post name k rows start result =
     (snd start \<le> snd result
      \<and> (\<forall>i < length rows. \<not> is_held (rows ! i) \<and> 3 \<le> match_score name (str_cell (hebrew_name (rows ! i)))
            \<longrightarrow> match_score name (str_cell (hebrew_name (rows ! i))) \<le> snd result)
      \<and> (result = start
          \<or> (\<exists>i < length rows. fst result = Some (k + i) \<and> \<not> is_held (rows ! i)
                \<and> match_score name (str_cell (hebrew_name (rows ! i))) = snd result
                \<and> 3 \<le> snd result \<and> snd start < snd result
                \<and> (\<forall>j < i. \<not> is_held (rows ! j)
                      \<longrightarrow> match_score name (str_cell (hebrew_name (rows ! j))) < snd result))))"

definition nan_row :: row where
  \<comment> \<open>a row whose cells are all NaN, from which the example frames are written\<close>
  "nan_row = \<lparr>hebrew_name = None, hostage_name = None, current_status = None, date_of_death = None,
     context_of_death = None, release_date = None, release_death_circumstances = None,
     citation_urls = None, countries_involved = None, hebrew_desc_short = None,
     hebrew_desc_long = None, kidnapping_summary = None\<rparr>"

section \<open>Facts about the date parser\<close>

lemmas date_defs = validate_date_format_def ascii_def isna_def str_cell_def strip_def
  isspace_def iso_shape_def isdigit_def digit_base_def digit_bases_def chr_is_def chr_range_def
  formats_def fmt_dmy_slash_def fmt_mdy_slash_def fmt_ymd_slash_def fmt_dmy_dash_def fmt_iso_def
  strptime_def group_val_def int_str_def digit_val_def valid_date_def days_in_month_def
  is_leap_def strftime_ymd_def zero_pad2_def decimal.simps

lemma re_chars_Some:
  "re_chars ps s = Some (m, r) \<Longrightarrow> s = m @ r \<and> list_all2 (\<lambda>p c. p c) ps m"
  by (induction ps s arbitrary: m r rule: re_chars.induct)
     (auto split: if_splits option.splits)

lemma iso_shapeD:
  assumes "iso_shape s"
  obtains a b c d e f g h where "s = [a, b, c, d, 45, e, f, 45, g, h]"
    "isdigit a" "isdigit b" "isdigit c" "isdigit d" "isdigit e" "isdigit f" "isdigit g" "isdigit h"
proof -
  from assms obtain m where "re_chars [isdigit, isdigit, isdigit, isdigit, chr_is 45, isdigit, isdigit,
        chr_is 45, isdigit, isdigit] s = Some (m, [])"
    unfolding iso_shape_def by (auto split: option.splits)
  from re_chars_Some [OF this] that show thesis
    by (auto simp: list_all2_Cons1 chr_is_def)
qed

lemma strptime_re_match_None: "re_match fmt s = None \<Longrightarrow> strptime fmt s = None"
  by (simp add: strptime_def)

lemma isdigit_not_sep:
  assumes "isdigit c"
  shows "c \<noteq> 32" "c \<noteq> 45" "c \<noteq> 47"
proof -
  have "\<not> isdigit 32" "\<not> isdigit 45" "\<not> isdigit 47"
    by (simp_all add: isdigit_def digit_base_def digit_bases_def)
  with assms show "c \<noteq> 32" "c \<noteq> 45" "c \<noteq> 47" by metis+
qed

lemma iso_no_dmy_slash:
  assumes "isdigit a" "isdigit b" "isdigit c"
  shows "re_match fmt_dmy_slash (a # b # c # r) = None"
  using assms isdigit_not_sep [OF assms(1)] isdigit_not_sep [OF assms(2)] isdigit_not_sep [OF assms(3)]
  unfolding fmt_dmy_slash_def
  by (simp add: chr_is_def chr_range_def)

lemma iso_no_dmy_dash:
  assumes "isdigit a" "isdigit b" "isdigit c"
  shows "re_match fmt_dmy_dash (a # b # c # r) = None"
  using assms isdigit_not_sep [OF assms(1)] isdigit_not_sep [OF assms(2)] isdigit_not_sep [OF assms(3)]
  unfolding fmt_dmy_dash_def
  by (simp add: chr_is_def chr_range_def)

lemma iso_no_mdy_slash:
  assumes "isdigit a" "isdigit b" "isdigit c"
  shows "re_match fmt_mdy_slash (a # b # c # r) = None"
  using assms isdigit_not_sep [OF assms(1)] isdigit_not_sep [OF assms(2)] isdigit_not_sep [OF assms(3)]
  unfolding fmt_mdy_slash_def
  by (simp add: chr_is_def chr_range_def)

lemma iso_no_ymd_slash: "re_match fmt_ymd_slash (a # b # c # d # 45 # r) = None"
  unfolding fmt_ymd_slash_def
  by (simp add: chr_is_def chr_range_def)

lemma iso_shape_not_listed:
  assumes "iso_shape s" "fmt \<in> set formats"
  shows "strptime fmt s = None"
proof -
  from assms(1) obtain a b c d e f g h where s: "s = [a, b, c, d, 45, e, f, 45, g, h]"
    and dg: "isdigit a" "isdigit b" "isdigit c"
    by (rule iso_shapeD)
  have "re_match fmt s = None"
    using assms(2) dg unfolding s formats_def
    by (auto simp: iso_no_dmy_slash iso_no_dmy_dash iso_no_mdy_slash iso_no_ymd_slash)
  then show ?thesis by (rule strptime_re_match_None)
qed

lemma strptime_valid: "strptime fmt s = Some dt \<Longrightarrow> valid_date dt"
  by (auto simp: strptime_def Let_def split: option.splits if_splits prod.splits)

lemma decimal_four_digits:
  assumes "1000 \<le> y" "y \<le> 9999"
  shows "decimal y = zero_pad4 y"
proof -
  have d1: "y div 10 div 10 = y div 100" "y div 100 div 10 = y div 1000"
    by (simp_all add: div_mult2_eq)
  have b: "\<not> y < 10" "\<not> y div 10 < 10" "\<not> y div 100 < 10" "y div 1000 < 10"
    using assms by simp_all
  have "decimal y = decimal (y div 10) @ [48 + y mod 10]"
    using b(1) by (subst decimal.simps) simp
  also have "decimal (y div 10) = decimal (y div 100) @ [48 + y div 10 mod 10]"
    using b(2) by (subst decimal.simps) (simp add: d1)
  also have "decimal (y div 100) = decimal (y div 1000) @ [48 + y div 100 mod 10]"
    using b(3) by (subst decimal.simps) (simp add: d1)
  also have "decimal (y div 1000) = [48 + y div 1000]"
    using b(4) by (subst decimal.simps) simp
  finally show ?thesis using b(4) by (simp add: zero_pad4_def)
qed

lemma strftime_ymd_text:
  assumes "valid_date dt" "1000 \<le> fst dt"
  shows "strftime_ymd dt = ymd_text dt"
proof -
  obtain y m d where dt: "dt = (y, m, d)" by (cases dt)
  with assms have "1000 \<le> y" "y \<le> 9999" by (simp_all add: valid_date_def)
  then show ?thesis unfolding dt by (simp add: strftime_ymd_def ymd_text_def decimal_four_digits)
qed

lemma try_formats_None:
  "(try_formats fmts s = None) = (\<forall>fmt \<in> set fmts. strptime fmt s = None)"
  by (induction fmts) (auto split: option.splits)

lemma try_formats_Some:
  "try_formats fmts s = Some out \<Longrightarrow> \<exists>fmt dt. fmt \<in> set fmts \<and> strptime fmt s = Some dt \<and> out = strftime_ymd dt"
  by (induction fmts) (auto split: option.splits)

lemma strip_nan: "strip (ascii ''nan'') = ascii ''nan''"
  by (simp add: strip_def ascii_def isspace_def)

lemma strptime_nil: "fmt \<in> set (fmt_iso # formats) \<Longrightarrow> strptime fmt [] = None"
  by (auto simp: formats_def fmt_iso_def fmt_dmy_slash_def fmt_mdy_slash_def fmt_ymd_slash_def
      fmt_dmy_dash_def strptime_def)

lemma strptime_nan: "fmt \<in> set (fmt_iso # formats) \<Longrightarrow> strptime fmt (ascii ''nan'') = None"
  by (auto simp: formats_def fmt_iso_def fmt_dmy_slash_def fmt_mdy_slash_def fmt_ymd_slash_def
      fmt_dmy_dash_def strptime_def ascii_def chr_is_def chr_range_def isdigit_def)

lemma iso_shape_nan: "\<not> iso_shape (ascii ''nan'')"
  by (simp add: iso_shape_def ascii_def isdigit_def)

lemma iso_shape_nil: "\<not> iso_shape []"
  by (simp add: iso_shape_def)

lemma str_cell_Some: "str_cell (Some s) = s"
  by (simp add: str_cell_def)

lemma str_cell_None: "str_cell None = ascii ''nan''"
  by (simp add: str_cell_def)

lemma validate_date_format_None_iff:
  "(validate_date_format c = None) =
     (\<not> (iso_shape (strip (str_cell c)) \<and> strptime fmt_iso (strip (str_cell c)) \<noteq> None)
      \<and> (\<forall>fmt \<in> set formats. strptime fmt (strip (str_cell c)) = None))"
proof (cases "isna c \<or> str_cell c = ascii ''nan''")
  case True
  then have s: "strip (str_cell c) = ascii ''nan''"
    by (auto simp: isna_def str_cell_None strip_nan)
  from True have "validate_date_format c = None" by (simp add: validate_date_format_def)
  then show ?thesis unfolding s using strptime_nan iso_shape_nan by simp
next
  case False
  note nn = this
  show ?thesis
  proof (cases "strip (str_cell c) = []")
    case True
    with nn have "validate_date_format c = None" by (simp add: validate_date_format_def)
    then show ?thesis unfolding True using strptime_nil iso_shape_nil by simp
  next
    case False
    note ne = this
    show ?thesis
    proof (cases "iso_shape (strip (str_cell c))")
      case True
      with nn ne have "(validate_date_format c = None) = (strptime fmt_iso (strip (str_cell c)) = None)"
        by (simp add: validate_date_format_def Let_def split: option.splits)
      then show ?thesis using True iso_shape_not_listed [OF True]
        by (simp del: split_paired_All split_paired_Ex)
    next
      case False
      with nn ne have "validate_date_format c = try_formats formats (strip (str_cell c))"
        by (simp add: validate_date_format_def Let_def)
      then show ?thesis using False by (simp add: try_formats_None)
    qed
  qed
qed

lemma validate_date_format_dmy:
  assumes "strptime fmt_dmy_slash (strip (str_cell c)) = Some dt"
  shows "validate_date_format c = Some (strftime_ymd dt)"
proof -
  let ?s = "strip (str_cell c)"
  have in_f: "fmt_dmy_slash \<in> set formats" by (simp add: formats_def)
  have 1: "\<not> (isna c \<or> str_cell c = ascii ''nan'')"
  proof
    assume "isna c \<or> str_cell c = ascii ''nan''"
    then have "?s = ascii ''nan''" by (auto simp: isna_def str_cell_None strip_nan)
    with assms strptime_nan [of fmt_dmy_slash] in_f show False by simp
  qed
  have 2: "?s \<noteq> []" using assms strptime_nil [of fmt_dmy_slash] in_f by auto
  have 3: "\<not> iso_shape ?s" using assms iso_shape_not_listed [OF _ in_f, of ?s] by auto
  have "try_formats formats ?s = Some (strftime_ymd dt)" using assms by (simp add: formats_def)
  with 1 2 3 show ?thesis by (simp add: validate_date_format_def Let_def)
qed

lemma validate_date_format_Some:
  assumes "validate_date_format c = Some out"
  shows "(iso_shape (strip (str_cell c)) \<and> out = strip (str_cell c)
          \<and> (\<exists>dt. strptime fmt_iso (strip (str_cell c)) = Some dt \<and> valid_date dt))
       \<or> (\<not> iso_shape (strip (str_cell c))
          \<and> (\<exists>fmt dt. fmt \<in> set formats \<and> strptime fmt (strip (str_cell c)) = Some dt
                \<and> valid_date dt \<and> out = strftime_ymd dt))"
proof (cases "iso_shape (strip (str_cell c))")
  case True
  with assms obtain dt where dt: "strptime fmt_iso (strip (str_cell c)) = Some dt" and o: "out = strip (str_cell c)"
    by (auto simp: validate_date_format_def Let_def split: if_splits option.splits)
  from strptime_valid [OF dt] dt have "\<exists>dt. strptime fmt_iso (strip (str_cell c)) = Some dt \<and> valid_date dt"
    by (intro exI [of _ dt]) simp
  with True o show ?thesis by simp
next
  case False
  with assms have "try_formats formats (strip (str_cell c)) = Some out"
    by (auto simp: validate_date_format_def Let_def split: if_splits)
  from try_formats_Some [OF this] obtain fmt dt where f: "fmt \<in> set formats"
    "strptime fmt (strip (str_cell c)) = Some dt" "out = strftime_ymd dt" by blast
  with strptime_valid [of fmt "strip (str_cell c)" dt]
  have "\<exists>fmt dt. fmt \<in> set formats \<and> strptime fmt (strip (str_cell c)) = Some dt
                \<and> valid_date dt \<and> out = strftime_ymd dt"
    by (intro exI [of _ fmt] exI [of _ dt]) simp
  with False show ?thesis by simp
qed

section \<open>Date validation: what is accepted (C3)\<close>

lemma import_date_rejected:
  "validate_date_format archive = None \<Longrightarrow> assign (import_date current archive) current = current"
  by (simp add: import_date_def assign_def truthy_def)

lemma validate_31_02_2024: "validate_date_format (Some (ascii ''31/02/2024'')) = None"
  by (simp add: date_defs)

lemma import_row_release_date:
  "archive_lookup archive_df (hebrew_name r) = Some a \<Longrightarrow>
   release_date (import_row up archive_df r) = assign (import_date (release_date r) (release_date a)) (release_date r)"
  by (simp add: import_row_def)

text \<open>
  C3. A date is accepted by \<open>validate_date_format\<close> only if its stripped text is read as a
  valid calendar date: either the text has the shape of four digits, a dash, two digits, a
  dash and two digits, \<open>%Y-%m-%d\<close> reads a valid date from it, and the text itself is
  returned, unchanged; or the text has not that shape, one of the formats \<open>%d/%m/%Y\<close>,
  \<open>%m/%d/%Y\<close>, \<open>%Y/%m/%d\<close>, \<open>%d-%m-%Y\<close> reads a valid date from it, and the date is returned
  as \<open>strftime('%Y-%m-%d')\<close> prints it, which is the form \<open>YYYY-MM-DD\<close> when the year has four
  digits. No historical window is checked. The proposed release date \<open>31/02/2024\<close> is
  rejected, and the import leaves the release date of the store's row as it was.
\<close>

theorem validate_date_format_accepts_valid_dates:
  "(validate_date_format c = Some out \<longrightarrow>
      (iso_shape (strip (str_cell c)) \<and> out = strip (str_cell c)
         \<and> (\<exists>dt. strptime fmt_iso (strip (str_cell c)) = Some dt \<and> valid_date dt))
      \<or> (\<not> iso_shape (strip (str_cell c))
         \<and> (\<exists>fmt dt. fmt \<in> set formats \<and> strptime fmt (strip (str_cell c)) = Some dt
               \<and> valid_date dt \<and> out = strftime_ymd dt)))
   \<and> (valid_date dt' \<and> 1000 \<le> fst dt' \<longrightarrow> strftime_ymd dt' = ymd_text dt')
   \<and> validate_date_format (Some (ascii ''31/02/2024'')) = None
   \<and> (archive_lookup archive_df (hebrew_name r) = Some a
        \<and> release_date a = Some (ascii ''31/02/2024'')
      \<longrightarrow> release_date (import_row up archive_df r) = release_date r)"
proof (intro conjI impI)
  assume "validate_date_format c = Some out"
  then show "(iso_shape (strip (str_cell c)) \<and> out = strip (str_cell c)
         \<and> (\<exists>dt. strptime fmt_iso (strip (str_cell c)) = Some dt \<and> valid_date dt))
      \<or> (\<not> iso_shape (strip (str_cell c))
         \<and> (\<exists>fmt dt. fmt \<in> set formats \<and> strptime fmt (strip (str_cell c)) = Some dt
               \<and> valid_date dt \<and> out = strftime_ymd dt))"
    by (rule validate_date_format_Some)
next
  assume "valid_date dt' \<and> 1000 \<le> fst dt'"
  then show "strftime_ymd dt' = ymd_text dt'"
    using strftime_ymd_text [of dt'] by (elim conjE)
next
  show "validate_date_format (Some (ascii ''31/02/2024'')) = None"
    by (rule validate_31_02_2024)
next
  assume "archive_lookup archive_df (hebrew_name r) = Some a
        \<and> release_date a = Some (ascii ''31/02/2024'')"
  then show "release_date (import_row up archive_df r) = release_date r"
    using import_date_rejected [OF validate_31_02_2024] by (simp add: import_row_release_date)
qed

theorem validate_date_format_accepts_valid_dates_witness:
  "validate_date_format (Some (ascii ''05/06/2024'')) = Some (ascii ''2024-06-05'')
   \<and> (\<exists>fmt dt. fmt \<in> set formats
         \<and> strptime fmt (strip (str_cell (Some (ascii ''05/06/2024'')))) = Some dt
         \<and> valid_date dt \<and> ascii ''2024-06-05'' = strftime_ymd dt)
   \<and> validate_date_format (Some ([1634, 1632, 1634, 1636] @ ascii ''-06-05''))
        = Some ([1634, 1632, 1634, 1636] @ ascii ''-06-05'')
   \<and> (\<exists>dt. strptime fmt_iso (strip (str_cell (Some ([1634, 1632, 1634, 1636] @ ascii ''-06-05'')))) = Some dt
         \<and> valid_date dt)
   \<and> strftime_ymd (2024, 6, 5) = ymd_text (2024, 6, 5)
   \<and> archive_lookup [nan_row\<lparr>hebrew_name := Some (ascii ''X''), release_date := Some (ascii ''31/02/2024'')\<rparr>]
        (hebrew_name (nan_row\<lparr>hebrew_name := Some (ascii ''X'')\<rparr>))
      = Some (nan_row\<lparr>hebrew_name := Some (ascii ''X''), release_date := Some (ascii ''31/02/2024'')\<rparr>)
   \<and> release_date (import_row (\<lambda>u. True)
        [nan_row\<lparr>hebrew_name := Some (ascii ''X''), release_date := Some (ascii ''31/02/2024'')\<rparr>]
        (nan_row\<lparr>hebrew_name := Some (ascii ''X'')\<rparr>)) = None"
proof -
  let ?c = "Some (ascii ''05/06/2024'')"
  let ?u = "Some ([1634, 1632, 1634, 1636] @ ascii ''-06-05'')"
  let ?a = "nan_row\<lparr>hebrew_name := Some (ascii ''X''), release_date := Some (ascii ''31/02/2024'')\<rparr>"
  let ?r = "nan_row\<lparr>hebrew_name := Some (ascii ''X'')\<rparr>"
  have h1: "validate_date_format ?c = Some (ascii ''2024-06-05'')"
    by (simp add: date_defs)
  have n1: "\<not> iso_shape (strip (str_cell ?c))"
    by (simp add: date_defs)
  have h2: "validate_date_format ?u = Some ([1634, 1632, 1634, 1636] @ ascii ''-06-05'')"
    by (simp add: date_defs)
  have i2: "iso_shape (strip (str_cell ?u))"
    by (simp add: date_defs)
  have h3: "valid_date (2024, 6, 5) \<and> 1000 \<le> fst (2024 :: nat, 6 :: nat, 5 :: nat)"
    by (simp add: valid_date_def days_in_month_def)
  have h4: "archive_lookup [?a] (hebrew_name ?r) = Some ?a \<and> release_date ?a = Some (ascii ''31/02/2024'')"
    by (simp add: archive_lookup_def cell_eq_def nan_row_def)
  have h5: "release_date ?r = None"
    by (simp add: nan_row_def)
  note t1 = validate_date_format_accepts_valid_dates
    [where c = ?c and out = "ascii ''2024-06-05''" and dt' = "(2024, 6, 5)" and archive_df = "[?a]"
       and r = ?r and a = ?a and up = "\<lambda>u. True"]
  note t2 = validate_date_format_accepts_valid_dates
    [where c = ?u and out = "[1634, 1632, 1634, 1636] @ ascii ''-06-05''" and dt' = "(2024, 6, 5)"
       and archive_df = "[?a]" and r = ?r and a = ?a and up = "\<lambda>u. True"]
  from t1 [THEN conjunct1, THEN mp, OF h1] n1
  have a: "\<exists>fmt dt. fmt \<in> set formats \<and> strptime fmt (strip (str_cell ?c)) = Some dt
         \<and> valid_date dt \<and> ascii ''2024-06-05'' = strftime_ymd dt"
    by (elim disjE conjE) (rule FalseE, erule (1) notE)
  from t2 [THEN conjunct1, THEN mp, OF h2] i2
  have b: "\<exists>dt. strptime fmt_iso (strip (str_cell ?u)) = Some dt \<and> valid_date dt"
    by (elim disjE conjE) (assumption, rule FalseE, erule (1) notE)
  have c: "strftime_ymd (2024, 6, 5) = ymd_text (2024, 6, 5)"
    using t1 [THEN conjunct2, THEN conjunct1, THEN mp, OF h3] .
  have d: "release_date (import_row (\<lambda>u. True) [?a] ?r) = None"
    using t1 [THEN conjunct2, THEN conjunct2, THEN conjunct2, THEN mp, OF h4] h5 by simp
  from h1 a h2 b c h4 [THEN conjunct1] d show ?thesis by (intro conjI)
qed

theorem validate_date_format_no_window_counterexample:
  "validate_date_format (Some (ascii ''1900-01-01'')) = Some (ascii ''1900-01-01'')
   \<and> strptime fmt_iso (strip (str_cell (Some (ascii ''1900-01-01'')))) = Some (1900, 1, 1)
   \<and> \<not> in_window (2014, 7, 20) (9999, 12, 31) (1900, 1, 1)
   \<and> validate_date_format (Some ([1634, 1632, 1634, 1636] @ ascii ''-06-05''))
        = Some ([1634, 1632, 1634, 1636] @ ascii ''-06-05'')
   \<and> validate_date_format (Some (ascii ''01/01/0999'')) = Some (ascii ''999-01-01'')"
  by (simp add: date_defs in_window_def date_le_def)

section \<open>Date validation: the order of the formats (C10)\<close>

text \<open>
  C10. The formats are tried in the fixed order \<open>%d/%m/%Y\<close>, \<open>%m/%d/%Y\<close>, \<open>%Y/%m/%d\<close>,
  \<open>%d-%m-%Y\<close>: whenever the day-first format reads the stripped input as a valid date (so in
  particular when the day-first and the month-first format both do), the result is that
  day-first date as \<open>strftime('%Y-%m-%d')\<close> prints it, which is the form \<open>YYYY-MM-DD\<close> when
  the year is 1000 or later. The result is \<open>None\<close> exactly when the stripped input is not a
  valid date already written in the shape of \<open>YYYY-MM-DD\<close> and none of the four listed
  formats reads it as a valid date.
\<close>

theorem validate_date_format_day_first:
  "(strptime fmt_dmy_slash (strip (str_cell c)) = Some dt
      \<longrightarrow> validate_date_format c = Some (strftime_ymd dt))
   \<and> (strptime fmt_dmy_slash (strip (str_cell c)) = Some dt \<and> 1000 \<le> fst dt
      \<longrightarrow> validate_date_format c = Some (ymd_text dt))
   \<and> ((validate_date_format c = None) =
        (\<not> (iso_shape (strip (str_cell c)) \<and> strptime fmt_iso (strip (str_cell c)) \<noteq> None)
         \<and> (\<forall>fmt \<in> set formats. strptime fmt (strip (str_cell c)) = None)))"
proof (intro conjI impI)
  assume "strptime fmt_dmy_slash (strip (str_cell c)) = Some dt"
  then show "validate_date_format c = Some (strftime_ymd dt)"
    by (rule validate_date_format_dmy)
next
  assume a: "strptime fmt_dmy_slash (strip (str_cell c)) = Some dt \<and> 1000 \<le> fst dt"
  then have "validate_date_format c = Some (strftime_ymd dt)"
    using validate_date_format_dmy [of c dt] by (elim conjE)
  moreover from a have "strftime_ymd dt = ymd_text dt"
    using strptime_valid [of fmt_dmy_slash "strip (str_cell c)" dt] strftime_ymd_text [of dt]
    by (elim conjE) simp
  ultimately show "validate_date_format c = Some (ymd_text dt)" by simp
next
  show "(validate_date_format c = None) =
        (\<not> (iso_shape (strip (str_cell c)) \<and> strptime fmt_iso (strip (str_cell c)) \<noteq> None)
         \<and> (\<forall>fmt \<in> set formats. strptime fmt (strip (str_cell c)) = None))"
    by (rule validate_date_format_None_iff)
qed

theorem validate_date_format_day_first_witness:
  "strptime fmt_dmy_slash (strip (str_cell (Some (ascii ''05/06/'' @ [1634, 1632, 1634, 1636])))) = Some (2024, 6, 5)
   \<and> strptime fmt_mdy_slash (strip (str_cell (Some (ascii ''05/06/'' @ [1634, 1632, 1634, 1636])))) = Some (2024, 5, 6)
   \<and> validate_date_format (Some (ascii ''05/06/'' @ [1634, 1632, 1634, 1636])) = Some (ascii ''2024-06-05'')
   \<and> strptime fmt_dmy_slash (strip (str_cell (Some (ascii ''01/01/0999'')))) = Some (999, 1, 1)
   \<and> validate_date_format (Some (ascii ''01/01/0999'')) = Some (strftime_ymd (999, 1, 1))
   \<and> validate_date_format (Some (ascii ''31/02/2024'')) = None"
proof -
  let ?c = "Some (ascii ''05/06/'' @ [1634, 1632, 1634, 1636])"
  let ?o = "Some (ascii ''01/01/0999'')"
  let ?n = "Some (ascii ''31/02/2024'')"
  have h1: "strptime fmt_dmy_slash (strip (str_cell ?c)) = Some (2024, 6, 5)"
    by (simp add: date_defs)
  have h1': "strptime fmt_dmy_slash (strip (str_cell ?c)) = Some (2024, 6, 5) \<and> 1000 \<le> fst (2024 :: nat, 6 :: nat, 5 :: nat)"
    using h1 by simp
  have h2: "strptime fmt_mdy_slash (strip (str_cell ?c)) = Some (2024, 5, 6)"
    by (simp add: date_defs)
  have h3: "ymd_text (2024, 6, 5) = ascii ''2024-06-05''"
    by (simp add: ymd_text_def zero_pad4_def zero_pad2_def ascii_def)
  have h6: "strptime fmt_dmy_slash (strip (str_cell ?o)) = Some (999, 1, 1)"
    by (simp add: date_defs)
  have h4: "\<not> (iso_shape (strip (str_cell ?n)) \<and> strptime fmt_iso (strip (str_cell ?n)) \<noteq> None)"
    by (simp add: date_defs)
  have h5: "\<forall>fmt \<in> set formats. strptime fmt (strip (str_cell ?n)) = None"
    by (simp add: date_defs)
  from validate_date_format_day_first [of ?c "(2024, 6, 5)", THEN conjunct2, THEN conjunct1, THEN mp, OF h1'] h3
  have a: "validate_date_format ?c = Some (ascii ''2024-06-05'')" by simp
  from validate_date_format_day_first [of ?o "(999, 1, 1)", THEN conjunct1, THEN mp, OF h6]
  have o: "validate_date_format ?o = Some (strftime_ymd (999, 1, 1))" .
  from validate_date_format_day_first [of ?n "(2024, 6, 5)", THEN conjunct2, THEN conjunct2] h4 h5
  have b: "validate_date_format ?n = None" by (simp only: simp_thms)
  from h1 h2 a h6 o b show ?thesis by (intro conjI)
qed

theorem validate_date_format_iso_counterexample:
  "validate_date_format (Some (ascii ''2024-06-05'')) = Some (ascii ''2024-06-05'')
   \<and> strptime fmt_dmy_slash (strip (str_cell (Some (ascii ''2024-06-05'')))) = None
   \<and> strptime fmt_mdy_slash (strip (str_cell (Some (ascii ''2024-06-05'')))) = None
   \<and> strptime fmt_ymd_slash (strip (str_cell (Some (ascii ''2024-06-05'')))) = None
   \<and> strptime fmt_dmy_dash (strip (str_cell (Some (ascii ''2024-06-05'')))) = None
   \<and> strptime fmt_dmy_slash (strip (str_cell (Some (ascii ''01/01/0999'')))) = Some (999, 1, 1)
   \<and> strptime fmt_mdy_slash (strip (str_cell (Some (ascii ''01/01/0999'')))) = Some (999, 1, 1)
   \<and> validate_date_format (Some (ascii ''01/01/0999'')) = Some (ascii ''999-01-01'')"
  by (simp add: date_defs)

section \<open>Category validation (C7)\<close>

lemmas cat_defs = validate_circumstances_category_def valid_categories_def category_mapping_def
  ascii_def isna_def str_cell_def strip_def isspace_def

lemma category_mapping_valid:
  "map_of category_mapping s = Some (Some out) \<Longrightarrow> out \<in> set valid_categories"
  by (auto simp: category_mapping_def valid_categories_def ascii_def split: if_splits)

lemma validate_circumstances_category_Some:
  assumes "validate_circumstances_category c = Some out"
  shows "out \<in> set valid_categories
     \<and> (out = strip (str_cell c) \<or> map_of category_mapping (strip (str_cell c)) = Some (Some out))"
  using assms(1) category_mapping_valid [of "strip (str_cell c)" out]
  by (auto simp: validate_circumstances_category_def Let_def split: if_splits option.splits)

lemma valid_categories_not_empty: "[] \<notin> set valid_categories"
  by (simp add: valid_categories_def ascii_def)

lemma validate_circumstances_category_member:
  assumes "c \<noteq> None" "strip (str_cell c) \<in> set valid_categories"
  shows "validate_circumstances_category c = Some (strip (str_cell c))"
  using assms valid_categories_not_empty
  by (auto simp: validate_circumstances_category_def Let_def isna_def)

lemma validate_circumstances_category_other:
  assumes "strip (str_cell c) \<notin> set valid_categories" "strip (str_cell c) \<notin> fst ` set category_mapping"
  shows "validate_circumstances_category c = None"
proof -
  from assms(2) have "map_of category_mapping (strip (str_cell c)) = None"
    by (simp add: map_of_eq_None_iff)
  with assms(1) show ?thesis
    by (simp add: validate_circumstances_category_def Let_def)
qed

lemma hebrew_text_release_circumstances:
  "release_death_circumstances (hebrew_text_release r)
     \<in> {release_death_circumstances r, Some (ascii ''Released via deal'')}"
  by (simp add: hebrew_text_release_def)

lemma map_of_category_mapping:
  "map_of category_mapping s =
     (if s = ascii ''Released via deal'' then Some (Some (ascii ''Returned in Deal''))
      else if s = ascii ''Released in deal'' then Some (Some (ascii ''Returned in Deal''))
      else if s = ascii ''Killed in captivity by captors'' then Some (Some (ascii ''Died in Captivity - Killed by Hamas''))
      else if s = ascii ''Still in captivity'' then Some None
      else if s = ascii ''Body returned in deal'' then Some (Some (ascii ''Returned in Deal - Body''))
      else if s = ascii ''Military recovery'' then Some (Some (ascii ''Returned in Military Operation - Body''))
      else None)"
  by (simp add: category_mapping_def)

lemma strip_str_cell_not_None:
  assumes "strip (str_cell c) = k" "k \<noteq> ascii ''nan''"
  shows "c \<noteq> None"
proof
  assume "c = None"
  then have "strip (str_cell c) = ascii ''nan''"
    by (simp add: str_cell_def strip_def isspace_def ascii_def)
  with assms show False by simp
qed

lemma validate_circumstances_category_key:
  assumes "strip (str_cell c) = k" "k \<noteq> ascii ''nan''" "k \<noteq> []" "k \<notin> set valid_categories"
  shows "validate_circumstances_category c = (case map_of category_mapping k of None \<Rightarrow> None | Some v \<Rightarrow> v)"
proof -
  have "\<not> isna c"
    using strip_str_cell_not_None [OF assms(1,2)] by (simp add: isna_def)
  with assms(1,3,4) show ?thesis
    by (simp add: validate_circumstances_category_def Let_def)
qed

lemma validate_circumstances_category_released_via:
  "strip (str_cell c) = ascii ''Released via deal'' \<Longrightarrow>
   validate_circumstances_category c = Some (ascii ''Returned in Deal'')"
  by (subst validate_circumstances_category_key [where k = "ascii ''Released via deal''"])
     (simp_all add: category_mapping_def valid_categories_def ascii_def)

lemma validate_circumstances_category_released_in:
  "strip (str_cell c) = ascii ''Released in deal'' \<Longrightarrow>
   validate_circumstances_category c = Some (ascii ''Returned in Deal'')"
  by (subst validate_circumstances_category_key [where k = "ascii ''Released in deal''"])
     (simp_all add: category_mapping_def valid_categories_def ascii_def)

lemma validate_circumstances_category_killed:
  "strip (str_cell c) = ascii ''Killed in captivity by captors'' \<Longrightarrow>
   validate_circumstances_category c = Some (ascii ''Died in Captivity - Killed by Hamas'')"
  by (subst validate_circumstances_category_key [where k = "ascii ''Killed in captivity by captors''"])
     (simp_all add: category_mapping_def valid_categories_def ascii_def)

lemma validate_circumstances_category_body:
  "strip (str_cell c) = ascii ''Body returned in deal'' \<Longrightarrow>
   validate_circumstances_category c = Some (ascii ''Returned in Deal - Body'')"
  by (subst validate_circumstances_category_key [where k = "ascii ''Body returned in deal''"])
     (simp_all add: category_mapping_def valid_categories_def ascii_def)

lemma validate_circumstances_category_military:
  "strip (str_cell c) = ascii ''Military recovery'' \<Longrightarrow>
   validate_circumstances_category c = Some (ascii ''Returned in Military Operation - Body'')"
  by (subst validate_circumstances_category_key [where k = "ascii ''Military recovery''"])
     (simp_all add: category_mapping_def valid_categories_def ascii_def)

lemma validate_circumstances_category_rejected:
  assumes "strip (str_cell c) \<notin> set valid_categories"
    and "strip (str_cell c) \<noteq> ascii ''Released via deal''"
    and "strip (str_cell c) \<noteq> ascii ''Released in deal''"
    and "strip (str_cell c) \<noteq> ascii ''Killed in captivity by captors''"
    and "strip (str_cell c) \<noteq> ascii ''Body returned in deal''"
    and "strip (str_cell c) \<noteq> ascii ''Military recovery''"
  shows "validate_circumstances_category c = None"
  using assms
  by (simp add: validate_circumstances_category_def Let_def map_of_category_mapping)

lemma import_category_valid:
  "assign (import_category current archive) current = current
   \<or> (\<exists>v. assign (import_category current archive) current = Some v \<and> v \<in> set valid_categories)"
proof (cases "import_category current archive")
  case None
  then show ?thesis by (simp add: assign_def)
next
  case (Some v)
  then have "validate_circumstances_category archive = Some v"
    by (simp add: import_category_def split: if_splits)
  from validate_circumstances_category_Some [OF this] Some show ?thesis
    by (simp add: assign_def)
qed

lemma import_row_categories:
  "(release_death_circumstances (import_row up archive_df r) = release_death_circumstances r
      \<or> (\<exists>v. release_death_circumstances (import_row up archive_df r) = Some v \<and> v \<in> set valid_categories))
   \<and> (context_of_death (import_row up archive_df r) = context_of_death r
      \<or> (\<exists>v. context_of_death (import_row up archive_df r) = Some v \<and> v \<in> set valid_categories))"
proof (cases "archive_lookup archive_df (hebrew_name r)")
  case None
  then show ?thesis by (simp add: import_row_def)
next
  case (Some a)
  then show ?thesis
    using import_category_valid [of "release_death_circumstances r" "release_death_circumstances a"]
      import_category_valid [of "context_of_death r" "context_of_death a"]
    by (simp add: import_row_def)
qed

text \<open>
  C7. The result of \<open>validate_circumstances_category\<close> is \<open>None\<close> or a member of
  the fixed enumeration. A stripped value that is in the enumeration is accepted as it is.
  A value outside the enumeration is not always rejected: the five strings ``Released via
  deal'', ``Released in deal'', ``Killed in captivity by captors'', ``Body returned in deal''
  and ``Military recovery'' are accepted and coerced into the categories ``Returned in Deal''
  (the first two), ``Died in Captivity - Killed by Hamas'', ``Returned in Deal - Body'' and
  ``Returned in Military Operation - Body''. Every other string, ``Still in captivity''
  among them, is rejected with \<open>None\<close>. The validated import writes to the two category
  columns of a row only members of the enumeration, or leaves the cell as it was. The
  Hebrew-text pass of \<open>properly_import_releases.py\<close> keeps the circumstances of a row or
  writes ``Released via deal'', without validation.
\<close>

theorem validate_circumstances_category_enumeration:
  "(validate_circumstances_category c = Some out \<longrightarrow>
      out \<in> set valid_categories
      \<and> (out = strip (str_cell c) \<or> map_of category_mapping (strip (str_cell c)) = Some (Some out)))
   \<and> (c \<noteq> None \<and> strip (str_cell c) \<in> set valid_categories \<longrightarrow>
        validate_circumstances_category c = Some (strip (str_cell c)))
   \<and> (strip (str_cell c) = ascii ''Released via deal'' \<longrightarrow>
        validate_circumstances_category c = Some (ascii ''Returned in Deal''))
   \<and> (strip (str_cell c) = ascii ''Released in deal'' \<longrightarrow>
        validate_circumstances_category c = Some (ascii ''Returned in Deal''))
   \<and> (strip (str_cell c) = ascii ''Killed in captivity by captors'' \<longrightarrow>
        validate_circumstances_category c = Some (ascii ''Died in Captivity - Killed by Hamas''))
   \<and> (strip (str_cell c) = ascii ''Body returned in deal'' \<longrightarrow>
        validate_circumstances_category c = Some (ascii ''Returned in Deal - Body''))
   \<and> (strip (str_cell c) = ascii ''Military recovery'' \<longrightarrow>
        validate_circumstances_category c = Some (ascii ''Returned in Military Operation - Body''))
   \<and> (strip (str_cell c) \<notin> set valid_categories
        \<and> strip (str_cell c) \<noteq> ascii ''Released via deal''
        \<and> strip (str_cell c) \<noteq> ascii ''Released in deal''
        \<and> strip (str_cell c) \<noteq> ascii ''Killed in captivity by captors''
        \<and> strip (str_cell c) \<noteq> ascii ''Body returned in deal''
        \<and> strip (str_cell c) \<noteq> ascii ''Military recovery'' \<longrightarrow>
        validate_circumstances_category c = None)
   \<and> (release_death_circumstances (import_row up archive_df r) = release_death_circumstances r
        \<or> (\<exists>v. release_death_circumstances (import_row up archive_df r) = Some v \<and> v \<in> set valid_categories))
   \<and> (context_of_death (import_row up archive_df r) = context_of_death r
        \<or> (\<exists>v. context_of_death (import_row up archive_df r) = Some v \<and> v \<in> set valid_categories))
   \<and> release_death_circumstances (hebrew_text_release r)
        \<in> {release_death_circumstances r, Some (ascii ''Released via deal'')}"
proof (intro conjI impI)
  assume "validate_circumstances_category c = Some out"
  from validate_circumstances_category_Some [OF this]
  show "out \<in> set valid_categories" 
    and "out = strip (str_cell c) \<or> map_of category_mapping (strip (str_cell c)) = Some (Some out)"
    by (rule conjunct1, rule conjunct2)
next
  assume "c \<noteq> None \<and> strip (str_cell c) \<in> set valid_categories"
  then show "validate_circumstances_category c = Some (strip (str_cell c))"
    using validate_circumstances_category_member [of c] by (elim conjE)
next
  assume "strip (str_cell c) = ascii ''Released via deal''"
  then show "validate_circumstances_category c = Some (ascii ''Returned in Deal'')"
    by (rule validate_circumstances_category_released_via)
next
  assume "strip (str_cell c) = ascii ''Released in deal''"
  then show "validate_circumstances_category c = Some (ascii ''Returned in Deal'')"
    by (rule validate_circumstances_category_released_in)
next
  assume "strip (str_cell c) = ascii ''Killed in captivity by captors''"
  then show "validate_circumstances_category c = Some (ascii ''Died in Captivity - Killed by Hamas'')"
    by (rule validate_circumstances_category_killed)
next
  assume "strip (str_cell c) = ascii ''Body returned in deal''"
  then show "validate_circumstances_category c = Some (ascii ''Returned in Deal - Body'')"
    by (rule validate_circumstances_category_body)
next
  assume "strip (str_cell c) = ascii ''Military recovery''"
  then show "validate_circumstances_category c = Some (ascii ''Returned in Military Operation - Body'')"
    by (rule validate_circumstances_category_military)
next
  assume "strip (str_cell c) \<notin> set valid_categories
        \<and> strip (str_cell c) \<noteq> ascii ''Released via deal''
        \<and> strip (str_cell c) \<noteq> ascii ''Released in deal''
        \<and> strip (str_cell c) \<noteq> ascii ''Killed in captivity by captors''
        \<and> strip (str_cell c) \<noteq> ascii ''Body returned in deal''
        \<and> strip (str_cell c) \<noteq> ascii ''Military recovery''"
  then show "validate_circumstances_category c = None"
    using validate_circumstances_category_rejected [of c] by (elim conjE)
next
  show "release_death_circumstances (import_row up archive_df r) = release_death_circumstances r
        \<or> (\<exists>v. release_death_circumstances (import_row up archive_df r) = Some v \<and> v \<in> set valid_categories)"
    by (rule import_row_categories [THEN conjunct1])
next
  show "context_of_death (import_row up archive_df r) = context_of_death r
        \<or> (\<exists>v. context_of_death (import_row up archive_df r) = Some v \<and> v \<in> set valid_categories)"
    by (rule import_row_categories [THEN conjunct2])
next
  show "release_death_circumstances (hebrew_text_release r)
        \<in> {release_death_circumstances r, Some (ascii ''Released via deal'')}"
    by (rule hebrew_text_release_circumstances)
qed

theorem validate_circumstances_category_enumeration_witness:
  "validate_circumstances_category (Some (ascii ''Body returned in deal'')) = Some (ascii ''Returned in Deal - Body'')
   \<and> ascii ''Returned in Deal - Body'' \<in> set valid_categories
   \<and> validate_circumstances_category (Some (ascii '' Returned in Deal '')) = Some (ascii ''Returned in Deal'')
   \<and> validate_circumstances_category (Some (ascii ''Released via deal'')) = Some (ascii ''Returned in Deal'')
   \<and> validate_circumstances_category (Some (ascii ''Released in deal'')) = Some (ascii ''Returned in Deal'')
   \<and> validate_circumstances_category (Some (ascii ''Killed in captivity by captors''))
       = Some (ascii ''Died in Captivity - Killed by Hamas'')
   \<and> validate_circumstances_category (Some (ascii '' Military recovery''))
       = Some (ascii ''Returned in Military Operation - Body'')
   \<and> validate_circumstances_category (Some (ascii ''Still in captivity'')) = None
   \<and> validate_circumstances_category (Some (ascii ''Rescued by helicopter'')) = None"
proof -
  let ?a = "Some (ascii ''Body returned in deal'')"
  let ?b = "Some (ascii '' Returned in Deal '')"
  let ?c = "Some (ascii ''Rescued by helicopter'')"
  let ?d = "Some (ascii ''Released via deal'')"
  let ?e = "Some (ascii ''Released in deal'')"
  let ?f = "Some (ascii ''Killed in captivity by captors'')"
  let ?g = "Some (ascii '' Military recovery'')"
  let ?h = "Some (ascii ''Still in captivity'')"
  have ha: "strip (str_cell ?a) = ascii ''Body returned in deal''"
    by (simp add: cat_defs)
  have h2: "?b \<noteq> None \<and> strip (str_cell ?b) \<in> set valid_categories"
    by (simp add: cat_defs)
  have h2': "strip (str_cell ?b) = ascii ''Returned in Deal''"
    by (simp add: cat_defs)
  have h3: "strip (str_cell ?c) \<notin> set valid_categories
        \<and> strip (str_cell ?c) \<noteq> ascii ''Released via deal''
        \<and> strip (str_cell ?c) \<noteq> ascii ''Released in deal''
        \<and> strip (str_cell ?c) \<noteq> ascii ''Killed in captivity by captors''
        \<and> strip (str_cell ?c) \<noteq> ascii ''Body returned in deal''
        \<and> strip (str_cell ?c) \<noteq> ascii ''Military recovery''"
    by (simp add: cat_defs)
  have hd: "strip (str_cell ?d) = ascii ''Released via deal''"
    by (simp add: cat_defs)
  have he: "strip (str_cell ?e) = ascii ''Released in deal''"
    by (simp add: cat_defs)
  have hf: "strip (str_cell ?f) = ascii ''Killed in captivity by captors''"
    by (simp add: cat_defs)
  have hg: "strip (str_cell ?g) = ascii ''Military recovery''"
    by (simp add: cat_defs)
  have hh: "strip (str_cell ?h) \<notin> set valid_categories
        \<and> strip (str_cell ?h) \<noteq> ascii ''Released via deal''
        \<and> strip (str_cell ?h) \<noteq> ascii ''Released in deal''
        \<and> strip (str_cell ?h) \<noteq> ascii ''Killed in captivity by captors''
        \<and> strip (str_cell ?h) \<noteq> ascii ''Body returned in deal''
        \<and> strip (str_cell ?h) \<noteq> ascii ''Military recovery''"
    by (simp add: cat_defs)
  note ta = validate_circumstances_category_enumeration
    [where c = ?a and out = "ascii ''Returned in Deal - Body''" and r = nan_row and archive_df = "[]" and up = "\<lambda>u. True"]
  note tb = validate_circumstances_category_enumeration
    [where c = ?b and out = "[]" and r = nan_row and archive_df = "[]" and up = "\<lambda>u. True"]
  note tc = validate_circumstances_category_enumeration
    [where c = ?c and out = "[]" and r = nan_row and archive_df = "[]" and up = "\<lambda>u. True"]
  note td = validate_circumstances_category_enumeration
    [where c = ?d and out = "[]" and r = nan_row and archive_df = "[]" and up = "\<lambda>u. True"]
  note te = validate_circumstances_category_enumeration
    [where c = ?e and out = "[]" and r = nan_row and archive_df = "[]" and up = "\<lambda>u. True"]
  note tf = validate_circumstances_category_enumeration
    [where c = ?f and out = "[]" and r = nan_row and archive_df = "[]" and up = "\<lambda>u. True"]
  note tg = validate_circumstances_category_enumeration
    [where c = ?g and out = "[]" and r = nan_row and archive_df = "[]" and up = "\<lambda>u. True"]
  note th = validate_circumstances_category_enumeration
    [where c = ?h and out = "[]" and r = nan_row and archive_df = "[]" and up = "\<lambda>u. True"]
  note c3 = conjunct2 [THEN conjunct2, THEN conjunct1]
  note c4 = conjunct2 [THEN conjunct2, THEN conjunct2, THEN conjunct1]
  note c5 = conjunct2 [THEN conjunct2, THEN conjunct2, THEN conjunct2, THEN conjunct1]
  note c6 = conjunct2 [THEN conjunct2, THEN conjunct2, THEN conjunct2, THEN conjunct2, THEN conjunct1]
  note c7 = conjunct2 [THEN conjunct2, THEN conjunct2, THEN conjunct2, THEN conjunct2, THEN conjunct2, THEN conjunct1]
  note c8 = conjunct2 [THEN conjunct2, THEN conjunct2, THEN conjunct2, THEN conjunct2, THEN conjunct2, THEN conjunct2,
    THEN conjunct1]
  have h1: "validate_circumstances_category ?a = Some (ascii ''Returned in Deal - Body'')"
    using ta [THEN c6, THEN mp, OF ha] .
  have a: "ascii ''Returned in Deal - Body'' \<in> set valid_categories"
    using ta [THEN conjunct1, THEN mp, OF h1] by (rule conjunct1)
  have b: "validate_circumstances_category ?b = Some (ascii ''Returned in Deal'')"
    using tb [THEN conjunct2, THEN conjunct1, THEN mp, OF h2] unfolding h2' .
  have c: "validate_circumstances_category ?c = None"
    using tc [THEN c8, THEN mp, OF h3] .
  have d: "validate_circumstances_category ?d = Some (ascii ''Returned in Deal'')"
    using td [THEN c3, THEN mp, OF hd] .
  have e: "validate_circumstances_category ?e = Some (ascii ''Returned in Deal'')"
    using te [THEN c4, THEN mp, OF he] .
  have f: "validate_circumstances_category ?f = Some (ascii ''Died in Captivity - Killed by Hamas'')"
    using tf [THEN c5, THEN mp, OF hf] .
  have g: "validate_circumstances_category ?g = Some (ascii ''Returned in Military Operation - Body'')"
    using tg [THEN c7, THEN mp, OF hg] .
  have h: "validate_circumstances_category ?h = None"
    using th [THEN c8, THEN mp, OF hh] .
  from h1 a b d e f g h c show ?thesis by (intro conjI)
qed

theorem validate_circumstances_category_coerces_counterexample:
  "validate_circumstances_category (Some (ascii ''Released via deal'')) = Some (ascii ''Returned in Deal'')
   \<and> ascii ''Released via deal'' \<notin> set valid_categories
   \<and> release_death_circumstances
        (hebrew_text_release (nan_row\<lparr>current_status := Some (ascii ''Unknown''),
           kidnapping_summary := Some [1513, 1493, 1495, 1512, 1512]\<rparr>))
      = Some (ascii ''Released via deal'')"
  by (simp add: cat_defs hebrew_text_release_def release_indicators_def nan_row_def)

section \<open>Citations only grow (C6)\<close>














































section \<open>Populated fields and duplicate keys in the validated import (C1, C8)\<close>

lemma assign_import_date_kept: "\<not> empty_cell c \<Longrightarrow> assign (import_date c a) c = c"
  by (simp add: import_date_def assign_def)

lemma assign_import_category_kept: "\<not> empty_cell c \<Longrightarrow> assign (import_category c a) c = c"
  by (simp add: import_category_def assign_def)

lemma assign_import_countries_kept: "\<not> empty_cell c \<Longrightarrow> assign (import_countries c a) c = c"
  by (simp add: import_countries_def assign_def)

lemma assign_import_citations_extends:
  assumes "has_text c"
  shows "\<exists>added. assign (import_citations up c a) c = Some (str_cell c @ added)"
proof (cases "import_citations up c a")
  case None
  from assms obtain s where "c = Some s" by (cases c) (auto simp: has_text_def str_cell_def)
  with None show ?thesis by (simp add: assign_def str_cell_def)
next
  case (Some v)
  with assms have "v = str_cell c @ ascii ''; '' @ join (ascii ''; '') (new_urls up (str_cell c) (str_cell a))"
    by (auto simp: import_citations_def Let_def has_text_def split: if_splits)
  with Some show ?thesis by (simp add: assign_def)
qed

lemma import_row_kept:
  "field_kept date_of_death r (import_row up archive_df r)"
  "field_kept release_date r (import_row up archive_df r)"
  "field_kept context_of_death r (import_row up archive_df r)"
  "field_kept release_death_circumstances r (import_row up archive_df r)"
  "field_kept countries_involved r (import_row up archive_df r)"
  by (cases "archive_lookup archive_df (hebrew_name r)";
      simp add: field_kept_def import_row_def assign_import_date_kept assign_import_category_kept
        assign_import_countries_kept)+

lemma import_row_untouched:
  "hebrew_name (import_row up archive_df r) = hebrew_name r"
  "hostage_name (import_row up archive_df r) = hostage_name r"
  "current_status (import_row up archive_df r) = current_status r"
  "hebrew_desc_short (import_row up archive_df r) = hebrew_desc_short r"
  "hebrew_desc_long (import_row up archive_df r) = hebrew_desc_long r"
  "kidnapping_summary (import_row up archive_df r) = kidnapping_summary r"
  by (cases "archive_lookup archive_df (hebrew_name r)"; simp add: import_row_def)+

lemma import_row_citations_extended:
  assumes "has_text (citation_urls r)"
  shows "\<exists>added. citation_urls (import_row up archive_df r) = Some (str_cell (citation_urls r) @ added)"
proof (cases "archive_lookup archive_df (hebrew_name r)")
  case None
  from assms obtain s where "citation_urls r = Some s"
    by (cases "citation_urls r") (auto simp: has_text_def str_cell_def)
  with None show ?thesis by (simp add: import_row_def str_cell_def)
next
  case (Some a)
  then show ?thesis
    using assign_import_citations_extends [OF assms, of up "citation_urls a"]
    by (simp add: import_row_def)
qed

text \<open>
  C1. In the validated import, every one of the guarded columns (date of death,
  release date, context of death, release/death circumstances, countries involved) that is
  populated in a row before the import has the same value after it, whatever the archive
  holds; the name, status and description columns are never written; a citation cell that
  holds text is kept as the beginning of the new cell. The release import
  (\<open>properly_import_releases.py\<close>) is not bound by this: it overwrites the status, the
  release date and the release circumstances of every row it matches.
\<close>

theorem validated_import_keeps_populated_fields:
  "i < length current_df \<Longrightarrow>
     length (validated_archive_import up archive_df current_df) = length current_df
     \<and> field_kept date_of_death (current_df ! i) (validated_archive_import up archive_df current_df ! i)
     \<and> field_kept release_date (current_df ! i) (validated_archive_import up archive_df current_df ! i)
     \<and> field_kept context_of_death (current_df ! i) (validated_archive_import up archive_df current_df ! i)
     \<and> field_kept release_death_circumstances (current_df ! i)
          (validated_archive_import up archive_df current_df ! i)
     \<and> field_kept countries_involved (current_df ! i) (validated_archive_import up archive_df current_df ! i)
     \<and> hebrew_name (validated_archive_import up archive_df current_df ! i) = hebrew_name (current_df ! i)
     \<and> hostage_name (validated_archive_import up archive_df current_df ! i) = hostage_name (current_df ! i)
     \<and> current_status (validated_archive_import up archive_df current_df ! i) = current_status (current_df ! i)
     \<and> hebrew_desc_short (validated_archive_import up archive_df current_df ! i)
          = hebrew_desc_short (current_df ! i)
     \<and> hebrew_desc_long (validated_archive_import up archive_df current_df ! i)
          = hebrew_desc_long (current_df ! i)
     \<and> kidnapping_summary (validated_archive_import up archive_df current_df ! i)
          = kidnapping_summary (current_df ! i)
     \<and> (has_text (citation_urls (current_df ! i)) \<longrightarrow>
          (\<exists>added. citation_urls (validated_archive_import up archive_df current_df ! i)
             = Some (str_cell (citation_urls (current_df ! i)) @ added)))"
  using import_row_citations_extended [of "current_df ! i" up archive_df]
  by (simp add: validated_archive_import_def import_row_kept import_row_untouched)

theorem validated_import_keeps_populated_fields_witness:
  "0 < length [nan_row\<lparr>hebrew_name := Some (ascii ''X''), release_date := Some (ascii ''2023-11-24'')\<rparr>]
   \<and> \<not> empty_cell (release_date (nan_row\<lparr>hebrew_name := Some (ascii ''X''), release_date := Some (ascii ''2023-11-24'')\<rparr>))
   \<and> release_date (validated_archive_import (\<lambda>u. True)
        [nan_row\<lparr>hebrew_name := Some (ascii ''X''), release_date := Some (ascii ''2025-01-19'')\<rparr>]
        [nan_row\<lparr>hebrew_name := Some (ascii ''X''), release_date := Some (ascii ''2023-11-24'')\<rparr>] ! 0)
      = Some (ascii ''2023-11-24'')"
proof -
  let ?r = "nan_row\<lparr>hebrew_name := Some (ascii ''X''), release_date := Some (ascii ''2023-11-24'')\<rparr>"
  let ?a = "nan_row\<lparr>hebrew_name := Some (ascii ''X''), release_date := Some (ascii ''2025-01-19'')\<rparr>"
  have h0: "0 < length [?r]" by simp
  have h1: "\<not> empty_cell (release_date ?r)"
    by (simp add: empty_cell_def isna_def str_cell_def ascii_def)
  from validated_import_keeps_populated_fields [OF h0, of "\<lambda>u. True" "[?a]"]
  have "field_kept release_date ([?r] ! 0) (validated_archive_import (\<lambda>u. True) [?a] [?r] ! 0)"
    by (elim conjE)
  with h1 have "release_date (validated_archive_import (\<lambda>u. True) [?a] [?r] ! 0) = Some (ascii ''2023-11-24'')"
    by (simp add: field_kept_def)
  with h0 h1 show ?thesis by (intro conjI)
qed

theorem release_import_overwrites_counterexample:
  "\<not> empty_cell (release_date (nan_row\<lparr>hebrew_name := Some (ascii ''X''),
        current_status := Some (ascii ''Deceased''), release_date := Some (ascii ''2023-11-24'')\<rparr>))
   \<and> properly_import_releases
        [nan_row\<lparr>hebrew_name := Some (ascii ''X''), release_date := Some (ascii ''2025-01-19''),
           release_death_circumstances := Some (ascii ''Returned in Deal'')\<rparr>]
        [nan_row\<lparr>hebrew_name := Some (ascii ''X''), current_status := Some (ascii ''Deceased''),
           release_date := Some (ascii ''2023-11-24'')\<rparr>]
      = [nan_row\<lparr>hebrew_name := Some (ascii ''X''), current_status := Some (ascii ''Released''),
           release_date := Some (ascii ''2025-01-19''),
           release_death_circumstances := Some (ascii ''Returned in Deal'')\<rparr>]"
  by (simp add: properly_import_releases_def archive_released_def not_release_values_def
      import_release_def find_current_match_def update_release_def hebrew_text_release_def
      cell_eq_def empty_cell_def isna_def nan_row_def str_cell_def ascii_def strip_def isspace_def
      Let_def)

lemma archive_lookup_first:
  assumes "cell_eq (hebrew_name a) name" "\<forall>b \<in> set before. \<not> cell_eq (hebrew_name b) name"
  shows "archive_lookup (before @ a # after) name = Some a"
proof -
  from assms(2) have "filter (\<lambda>a. cell_eq (hebrew_name a) name) before = []"
    by (simp add: filter_empty_conv)
  with assms(1) show ?thesis by (simp add: archive_lookup_def)
qed

text \<open>
  C8. Loading checks no keys and duplicate keys make nothing fail: when
  several rows of the archive have the key of a row of the store, the validated import
  takes the first of them (\<open>archive_matches.iloc[0]\<close>) and the result is what it would be
  if the archive held that row alone; the other rows with the key are ignored without a
  report.
\<close>

theorem import_uses_first_duplicate:
  "cell_eq (hebrew_name a) (hebrew_name r) \<Longrightarrow>
   \<forall>b \<in> set before. \<not> cell_eq (hebrew_name b) (hebrew_name r) \<Longrightarrow>
   import_row up (before @ a # after) r = import_row up [a] r"
  using archive_lookup_first [of a "hebrew_name r" before after] archive_lookup_first [of a "hebrew_name r" "[]" "[]"]
  by (simp add: import_row_def)

theorem import_uses_first_duplicate_witness:
  "cell_eq (hebrew_name (nan_row\<lparr>hebrew_name := Some (ascii ''X''), release_date := Some (ascii ''2025-01-19'')\<rparr>))
     (hebrew_name (nan_row\<lparr>hebrew_name := Some (ascii ''X'')\<rparr>))
   \<and> \<not> cell_eq (hebrew_name (nan_row\<lparr>hebrew_name := Some (ascii ''W'')\<rparr>))
         (hebrew_name (nan_row\<lparr>hebrew_name := Some (ascii ''X'')\<rparr>))
   \<and> import_row (\<lambda>u. True)
        ([nan_row\<lparr>hebrew_name := Some (ascii ''W'')\<rparr>]
         @ nan_row\<lparr>hebrew_name := Some (ascii ''X''), release_date := Some (ascii ''2025-01-19'')\<rparr>
         # [nan_row\<lparr>hebrew_name := Some (ascii ''X''), release_date := Some (ascii ''2025-02-01'')\<rparr>])
        (nan_row\<lparr>hebrew_name := Some (ascii ''X'')\<rparr>)
      = import_row (\<lambda>u. True)
          [nan_row\<lparr>hebrew_name := Some (ascii ''X''), release_date := Some (ascii ''2025-01-19'')\<rparr>]
          (nan_row\<lparr>hebrew_name := Some (ascii ''X'')\<rparr>)"
proof -
  let ?a = "nan_row\<lparr>hebrew_name := Some (ascii ''X''), release_date := Some (ascii ''2025-01-19'')\<rparr>"
  let ?r = "nan_row\<lparr>hebrew_name := Some (ascii ''X'')\<rparr>"
  let ?w = "nan_row\<lparr>hebrew_name := Some (ascii ''W'')\<rparr>"
  have h1: "cell_eq (hebrew_name ?a) (hebrew_name ?r)"
    by (simp add: cell_eq_def)
  have h2: "\<forall>b \<in> set [?w]. \<not> cell_eq (hebrew_name b) (hebrew_name ?r)"
    by (simp add: cell_eq_def ascii_def)
  have h3: "\<not> cell_eq (hebrew_name ?w) (hebrew_name ?r)"
    by (simp add: cell_eq_def ascii_def)
  from h1 h3 import_uses_first_duplicate [OF h1 h2, of "\<lambda>u. True"
      "[nan_row\<lparr>hebrew_name := Some (ascii ''X''), release_date := Some (ascii ''2025-02-01'')\<rparr>]"]
  show ?thesis by (intro conjI)
qed

theorem duplicate_keys_no_error_counterexample:
  "validated_archive_import (\<lambda>u. True)
     [nan_row\<lparr>hebrew_name := Some (ascii ''X''), release_date := Some (ascii ''2025-01-19'')\<rparr>,
      nan_row\<lparr>hebrew_name := Some (ascii ''X''), release_date := Some (ascii ''2025-02-01'')\<rparr>]
     [nan_row\<lparr>hebrew_name := Some (ascii ''X'')\<rparr>]
   = [nan_row\<lparr>hebrew_name := Some (ascii ''X''), release_date := Some (ascii ''2025-01-19'')\<rparr>]"
  by (simp add: validated_archive_import_def import_row_def archive_lookup_def cell_eq_def
      nan_row_def import_date_def import_category_def import_citations_def import_countries_def
      assign_def truthy_def empty_cell_def notna_def validate_circumstances_category_def Let_def
      date_defs)

section \<open>Conversion to the target count (C9)\<close>

lemma held_count_Cons: "held_count (r # rs) = (if is_held r then 1 else 0) + held_count rs"
  by (simp add: held_count_def is_held_def)

lemma held_count_update:
  "i < length d \<Longrightarrow> \<not> is_held (d ! i) \<Longrightarrow> is_held x \<Longrightarrow> held_count (d[i := x]) = Suc (held_count d)"
proof (induction d arbitrary: i)
  case Nil
  then show ?case by simp
next
  case (Cons r rs)
  show ?case
  proof (cases i)
    case 0
    with Cons.prems show ?thesis by (simp add: held_count_Cons)
  next
    case (Suc j)
    with Cons show ?thesis by (simp add: held_count_Cons)
  qed
qed

lemma is_held_mark_held: "is_held (mark_held r)"
  by (simp add: is_held_def mark_held_def)

lemma mark_loop_count:
  assumes "distinct idxs" "\<forall>i \<in> set idxs. i < length d \<and> \<not> is_held (d ! i)"
  shows "held_count (foldl (\<lambda>d idx. d[idx := mark_held (d ! idx)]) d idxs) = held_count d + length idxs"
  using assms
proof (induction idxs arbitrary: d)
  case Nil
  show ?case by simp
next
  case (Cons i idxs)
  let ?d = "d[i := mark_held (d ! i)]"
  from Cons.prems have i: "i < length d" "\<not> is_held (d ! i)" by simp_all
  have "\<forall>j \<in> set idxs. j < length ?d \<and> \<not> is_held (?d ! j)"
    using Cons.prems by (auto simp: nth_list_update)
  with Cons.prems have "held_count (foldl (\<lambda>d idx. d[idx := mark_held (d ! idx)]) ?d idxs)
      = held_count ?d + length idxs"
    by (intro Cons.IH) simp_all
  then show ?case using held_count_update [OF i is_held_mark_held] by simp
qed

lemma candidate_not_held: "is_candidate r \<Longrightarrow> \<not> is_held r"
  by (auto simp: is_candidate_def is_held_def ascii_def)

lemma candidates_props:
  "distinct (candidates df)" "\<forall>i \<in> set (candidates df). i < length df \<and> \<not> is_held (df ! i)"
  by (auto simp: candidates_def candidate_not_held)

lemma convert_candidates_count:
  "held_count (convert_candidates df) =
     (if held_count df < 47 then held_count df + min (47 - held_count df) (length (candidates df))
      else held_count df)"
proof (cases "held_count df < 47")
  case False
  then show ?thesis by (simp add: convert_candidates_def)
next
  case True
  let ?k = "min (47 - held_count df) (length (candidates df))"
  have d: "distinct (take ?k (candidates df))" using candidates_props(1) by simp
  have s: "\<forall>i \<in> set (take ?k (candidates df)). i < length df \<and> \<not> is_held (df ! i)"
    using candidates_props(2) [of df] by (meson in_set_takeD)
  from mark_loop_count [OF d s] True show ?thesis
    by (simp add: convert_candidates_def Let_def)
qed

lemma held_count_Nil: "held_count [] = 0"
  by (simp add: held_count_def)

lemma held_count_append: "held_count (xs @ ys) = held_count xs + held_count ys"
  by (simp add: held_count_def)

lemma held_count_replicate: "held_count (replicate n r) = (if is_held r then n else 0)"
  by (induction n) (simp_all add: held_count_Cons held_count_Nil)

lemma length_candidates: "length (candidates df) = length (filter is_candidate df)"
proof -
  have "filter is_candidate (map (nth df) [0..<length df])
          = map (nth df) (filter (is_candidate \<circ> nth df) [0..<length df])"
    by (rule filter_map)
  then have "filter is_candidate df = map (nth df) (candidates df)"
    by (simp add: map_nth candidates_def comp_def)
  then show ?thesis by simp
qed

lemma length_mark_loop:
  "length (foldl (\<lambda>d idx. d[idx := mark_held (d ! idx)]) d idxs) = length d"
  by (induction idxs arbitrary: d) simp_all

lemma mark_loop_nth:
  assumes "distinct idxs" "i < length d"
  shows "foldl (\<lambda>d idx. d[idx := mark_held (d ! idx)]) d idxs ! i
           = (if i \<in> set idxs then mark_held (d ! i) else d ! i)"
  using assms
proof (induction idxs arbitrary: d)
  case Nil
  show ?case by simp
next
  case (Cons k idxs)
  let ?d = "d[k := mark_held (d ! k)]"
  from Cons.prems have d: "distinct idxs" and k: "k \<notin> set idxs" and i: "i < length ?d" by simp_all
  have "foldl (\<lambda>d idx. d[idx := mark_held (d ! idx)]) ?d idxs ! i
           = (if i \<in> set idxs then mark_held (?d ! i) else ?d ! i)"
    using d i by (rule Cons.IH)
  moreover have "i \<noteq> k \<Longrightarrow> ?d ! i = d ! i" by simp
  moreover have "i = k \<Longrightarrow> ?d ! i = mark_held (d ! i)" using Cons.prems(2) by simp
  ultimately show ?case using k by (cases "i = k") auto
qed

lemma map_nth_upt: "i \<le> length xs \<Longrightarrow> map (nth xs) [0..<i] = take i xs"
proof -
  assume i: "i \<le> length xs"
  have "take i xs = take i (map (nth xs) [0..<length xs])" by (simp add: map_nth)
  also have "\<dots> = map (nth xs) (take i [0..<length xs])" by (rule take_map)
  also have "take i [0..<length xs] = [0..<i]" using i by (simp add: take_upt)
  finally show ?thesis by simp
qed

lemma length_filter_upt:
  assumes "i \<le> length xs"
  shows "length (filter (\<lambda>j. P (xs ! j)) [0..<i]) = length (filter P (take i xs))"
proof -
  have "filter P (map (nth xs) [0..<i]) = map (nth xs) (filter (P \<circ> nth xs) [0..<i])"
    by (rule filter_map)
  then have "filter P (take i xs) = map (nth xs) (filter (\<lambda>j. P (xs ! j)) [0..<i])"
    using assms by (simp add: map_nth_upt comp_def)
  then show ?thesis by simp
qed

lemma in_take_filter_upt:
  "i \<in> set (take k (filter Q [0..<n])) \<longleftrightarrow> i < n \<and> Q i \<and> length (filter Q [0..<i]) < k"
proof (cases "i < n")
  case False
  have "set (take k (filter Q [0..<n])) \<subseteq> set (filter Q [0..<n])" by (rule set_take_subset)
  with False show ?thesis by auto
next
  case True
  then have split: "[0..<n] = [0..<i] @ i # [Suc i..<n]"
    by (metis upt_conv_Cons upt_add_eq_append le0 le_add_diff_inverse less_imp_le_nat)
  let ?a = "filter Q [0..<i]"
  let ?b = "filter Q [Suc i..<n]"
  have na: "i \<notin> set (take k ?a)"
    using set_take_subset [of k ?a] by auto
  have nb: "\<And>m. i \<notin> set (take m ?b)"
  proof -
    fix m show "i \<notin> set (take m ?b)" using set_take_subset [of m ?b] by auto
  qed
  show ?thesis
  proof (cases "Q i")
    case False
    have "set (take k (filter Q [0..<n])) \<subseteq> set (filter Q [0..<n])" by (rule set_take_subset)
    with False show ?thesis by auto
  next
    case True
    then have f: "filter Q [0..<n] = ?a @ i # ?b" by (subst split) simp
    show ?thesis
    proof (cases "length ?a < k")
      case True
      then obtain m where m: "k - length ?a = Suc m" by (metis Suc_diff_Suc)
      show ?thesis using True \<open>Q i\<close> \<open>i < n\<close> unfolding f by (simp add: m)
    next
      case False
      then show ?thesis using na unfolding f by simp
    qed
  qed
qed

lemma convert_candidates_length: "length (convert_candidates df) = length df"
  by (simp add: convert_candidates_def Let_def length_mark_loop)

lemma convert_candidates_nth:
  assumes "i < length df"
  shows "convert_candidates df ! i =
     (if held_count df < 47 \<and> is_candidate (df ! i)
         \<and> length (filter is_candidate (take i df)) < 47 - held_count df
      then mark_held (df ! i) else df ! i)"
proof (cases "held_count df < 47")
  case False
  then show ?thesis by (simp add: convert_candidates_def)
next
  case True
  let ?k = "47 - held_count df"
  have t: "take (min ?k (length (candidates df))) (candidates df) = take ?k (candidates df)"
    by (simp add: min_def)
  have d: "distinct (take ?k (candidates df))" using candidates_props(1) by simp
  have c: "convert_candidates df = foldl (\<lambda>d idx. d[idx := mark_held (d ! idx)]) df (take ?k (candidates df))"
    using True by (simp add: convert_candidates_def Let_def t)
  have m: "i \<in> set (take ?k (candidates df))
       \<longleftrightarrow> is_candidate (df ! i) \<and> length (filter is_candidate (take i df)) < ?k"
    using assms unfolding candidates_def in_take_filter_upt
    by (simp add: length_filter_upt)
  show ?thesis unfolding c mark_loop_nth [OF d assms] m using True by simp
qed

text \<open>
  C9. When fewer than 47 rows have the status ``Held in Gaza'' after the name
  matching, the candidate rows are the rows with status ``Released'' or ``Unknown'' whose
  release date is NaN or empty, and the first \<open>min(47 - held, number of candidates)\<close> of
  them in index order are made held rows: the row at index \<open>i\<close> is converted (its status
  becomes ``Held in Gaza'', its circumstances ``Currently Held Captive'', its release date
  the empty string) exactly when it is a candidate and fewer than \<open>47 - held\<close> candidates
  stand before it; every other row, and the number of rows, stay as they were. So the held
  count grows by that number: it becomes 47 when there are enough candidates and stays below
  47 otherwise. With 47 or more held rows nothing is changed.
\<close>

theorem convert_candidates_held_count:
  "find_missing_names df0 = convert_candidates (apply_updates df0 (additional_updates df0))
   \<and> length (convert_candidates df) = length df
   \<and> (\<forall>i < length df. convert_candidates df ! i =
         (if held_count df < 47 \<and> is_candidate (df ! i)
             \<and> length (filter is_candidate (take i df)) < 47 - held_count df
          then (df ! i)\<lparr>current_status := Some (ascii ''Held in Gaza''),
                 release_death_circumstances := Some (ascii ''Currently Held Captive''),
                 release_date := Some []\<rparr>
          else df ! i))
   \<and> (held_count df < 47 \<longrightarrow>
        held_count (convert_candidates df)
          = held_count df + min (47 - held_count df) (length (candidates df)))
   \<and> (held_count df < 47 \<and> 47 - held_count df \<le> length (candidates df) \<longrightarrow>
        held_count (convert_candidates df) = 47)
   \<and> (\<not> held_count df < 47 \<longrightarrow> convert_candidates df = df)"
proof (intro conjI impI allI)
  show "find_missing_names df0 = convert_candidates (apply_updates df0 (additional_updates df0))"
    by (simp add: find_missing_names_def)
next
  show "length (convert_candidates df) = length df"
    by (rule convert_candidates_length)
next
  fix i assume "i < length df"
  then show "convert_candidates df ! i =
         (if held_count df < 47 \<and> is_candidate (df ! i)
             \<and> length (filter is_candidate (take i df)) < 47 - held_count df
          then (df ! i)\<lparr>current_status := Some (ascii ''Held in Gaza''),
                 release_death_circumstances := Some (ascii ''Currently Held Captive''),
                 release_date := Some []\<rparr>
          else df ! i)"
    using convert_candidates_nth [of i df] by (simp only: mark_held_def)
next
  assume "held_count df < 47"
  then show "held_count (convert_candidates df)
          = held_count df + min (47 - held_count df) (length (candidates df))"
    using convert_candidates_count [of df] by simp
next
  assume "held_count df < 47 \<and> 47 - held_count df \<le> length (candidates df)"
  then show "held_count (convert_candidates df) = 47"
    using convert_candidates_count [of df] by simp
next
  assume "\<not> held_count df < 47"
  then show "convert_candidates df = df"
    by (simp add: convert_candidates_def)
qed

theorem convert_candidates_held_count_witness:
  "held_count (replicate 46 (nan_row\<lparr>current_status := Some (ascii ''Held in Gaza'')\<rparr>)
       @ [nan_row\<lparr>current_status := Some (ascii ''Unknown'')\<rparr>,
          nan_row\<lparr>current_status := Some (ascii ''Released'')\<rparr>]) = 46
   \<and> length (candidates (replicate 46 (nan_row\<lparr>current_status := Some (ascii ''Held in Gaza'')\<rparr>)
       @ [nan_row\<lparr>current_status := Some (ascii ''Unknown'')\<rparr>,
          nan_row\<lparr>current_status := Some (ascii ''Released'')\<rparr>])) = 2
   \<and> held_count (convert_candidates (replicate 46 (nan_row\<lparr>current_status := Some (ascii ''Held in Gaza'')\<rparr>)
       @ [nan_row\<lparr>current_status := Some (ascii ''Unknown'')\<rparr>,
          nan_row\<lparr>current_status := Some (ascii ''Released'')\<rparr>])) = 47
   \<and> length (convert_candidates (replicate 46 (nan_row\<lparr>current_status := Some (ascii ''Held in Gaza'')\<rparr>)
       @ [nan_row\<lparr>current_status := Some (ascii ''Unknown'')\<rparr>,
          nan_row\<lparr>current_status := Some (ascii ''Released'')\<rparr>])) = 48
   \<and> convert_candidates (replicate 46 (nan_row\<lparr>current_status := Some (ascii ''Held in Gaza'')\<rparr>)
       @ [nan_row\<lparr>current_status := Some (ascii ''Unknown'')\<rparr>,
          nan_row\<lparr>current_status := Some (ascii ''Released'')\<rparr>]) ! 46
       = nan_row\<lparr>current_status := Some (ascii ''Held in Gaza''),
           release_death_circumstances := Some (ascii ''Currently Held Captive''),
           release_date := Some []\<rparr>
   \<and> convert_candidates (replicate 46 (nan_row\<lparr>current_status := Some (ascii ''Held in Gaza'')\<rparr>)
       @ [nan_row\<lparr>current_status := Some (ascii ''Unknown'')\<rparr>,
          nan_row\<lparr>current_status := Some (ascii ''Released'')\<rparr>]) ! 47
       = nan_row\<lparr>current_status := Some (ascii ''Released'')\<rparr>
   \<and> convert_candidates (replicate 46 (nan_row\<lparr>current_status := Some (ascii ''Held in Gaza'')\<rparr>)
       @ [nan_row\<lparr>current_status := Some (ascii ''Unknown'')\<rparr>,
          nan_row\<lparr>current_status := Some (ascii ''Released'')\<rparr>]) ! 0
       = nan_row\<lparr>current_status := Some (ascii ''Held in Gaza'')\<rparr>
   \<and> convert_candidates (replicate 47 (nan_row\<lparr>current_status := Some (ascii ''Held in Gaza'')\<rparr>))
       = replicate 47 (nan_row\<lparr>current_status := Some (ascii ''Held in Gaza'')\<rparr>)"
proof -
  let ?h = "nan_row\<lparr>current_status := Some (ascii ''Held in Gaza'')\<rparr>"
  let ?u = "nan_row\<lparr>current_status := Some (ascii ''Unknown'')\<rparr>"
  let ?r = "nan_row\<lparr>current_status := Some (ascii ''Released'')\<rparr>"
  let ?df = "replicate 46 ?h @ [?u, ?r]"
  have hh: "is_held ?h" by (simp add: is_held_def)
  have nu: "\<not> is_held ?u" "\<not> is_held ?r" by (simp_all add: is_held_def ascii_def)
  have h1: "held_count ?df = 46"
    using hh nu by (simp add: held_count_append held_count_replicate held_count_Cons held_count_Nil)
  have ch: "\<not> is_candidate ?h" by (simp add: is_candidate_def ascii_def)
  have cu: "is_candidate ?u" "is_candidate ?r" by (simp_all add: is_candidate_def isna_def nan_row_def)
  have h2: "length (candidates ?df) = 2"
    using ch cu by (simp add: length_candidates)
  have h3: "\<not> held_count (replicate 47 ?h) < 47"
    using hh by (simp add: held_count_replicate)
  have len: "length ?df = 48" by simp
  have n0: "?df ! 0 = ?h" by (simp add: nth_append)
  have n46: "?df ! 46 = ?u" by (simp add: nth_append)
  have n47: "?df ! 47 = ?r" by (simp add: nth_append)
  have f46: "length (filter is_candidate (take 46 ?df)) = 0"
    using ch by simp
  have f47: "length (filter is_candidate (take 47 ?df)) = 1"
    using ch cu by simp
  note t = convert_candidates_held_count [of "[]" ?df]
  note tn = t [THEN conjunct2, THEN conjunct2, THEN conjunct1, THEN spec, THEN mp]
  have a: "held_count (convert_candidates ?df) = 47"
    using t [THEN conjunct2, THEN conjunct2, THEN conjunct2, THEN conjunct1] h1 h2 by simp
  have l: "length (convert_candidates ?df) = 48"
    using t [THEN conjunct2, THEN conjunct1] len by simp
  have c46: "convert_candidates ?df ! 46
       = nan_row\<lparr>current_status := Some (ascii ''Held in Gaza''),
           release_death_circumstances := Some (ascii ''Currently Held Captive''),
           release_date := Some []\<rparr>"
    using tn [of 46] cu(1) by (simp only: len h1 n46 f46) simp
  have c47: "convert_candidates ?df ! 47 = ?r"
    using tn [of 47] by (simp only: len h1 n47 f47) simp
  have c0: "convert_candidates ?df ! 0 = ?h"
    using tn [of 0] ch by (simp only: len n0) simp
  have b: "convert_candidates (replicate 47 ?h) = replicate 47 ?h"
    using convert_candidates_held_count [of "[]" "replicate 47 ?h", THEN conjunct2, THEN conjunct2,
      THEN conjunct2, THEN conjunct2, THEN conjunct2, THEN mp, OF h3] .
  from h1 h2 a l c46 c47 c0 b show ?thesis by (intro conjI)
qed

lemmas missing_defs = find_missing_names_def convert_candidates_def held_count_def candidates_def
  is_candidate_def apply_updates_def additional_updates_def fuzzy_match_def missing_names_def
  match_score_def part_score_def split_ws_def mark_held_def cell_eq_def isna_def str_cell_def
  isspace_def nan_row_def Let_def List.map_filter_def

theorem target_count_not_reached_counterexample:
  "held_count (find_missing_names
      [nan_row\<lparr>hebrew_name := Some (ascii ''X''), current_status := Some (ascii ''Deceased'')\<rparr>]) = 0"
  by (simp add: missing_defs still_held_names_def ascii_def)

section \<open>Running the extraction twice (C2)\<close>

lemmas extract_defs = comprehensive_data_extraction_def extract_row_def extract_death_date_def
  extract_death_context_def extract_release_date_def extract_circumstances_def full_text_of_def
  date_patterns_def isna_def str_cell_def nan_row_def ascii_def Let_def

text \<open>
  C2. A row whose Hebrew summary holds both the phrase for ``on 7 October'' and the phrase
  ``November 2023'' (the text used below is the two phrases, separated by a blank), with no
  date of death and no release date: the first run writes the date of death and, the flag
  \<open>updated\<close> being set by that, skips the release phrases; the second run finds the date
  of death in place, leaves the flag unset and writes the release date 2023-11-24. The
  store after the second run differs from the store after the first.
\<close>

theorem extraction_second_run_changes_store:
  "comprehensive_data_extraction
     [nan_row\<lparr>current_status := Some (ascii ''Deceased''), kidnapping_summary := Some 
        [1489, 45, 55, 32, 1489, 1488, 1493, 1511, 1496, 1493, 1489, 1512, 32, 1504, 1493, 1489, 1502, 1489, 1512, 32, 50, 48, 50, 51]\<rparr>]
   = [nan_row\<lparr>current_status := Some (ascii ''Deceased''), kidnapping_summary := Some 
        [1489, 45, 55, 32, 1489, 1488, 1493, 1511, 1496, 1493, 1489, 1512, 32, 1504, 1493, 1489, 1502, 1489, 1512, 32, 50, 48, 50, 51],
        date_of_death := Some (ascii ''2023-10-07'')\<rparr>]
   \<and> comprehensive_data_extraction (comprehensive_data_extraction
     [nan_row\<lparr>current_status := Some (ascii ''Deceased''), kidnapping_summary := Some 
        [1489, 45, 55, 32, 1489, 1488, 1493, 1511, 1496, 1493, 1489, 1512, 32, 1504, 1493, 1489, 1502, 1489, 1512, 32, 50, 48, 50, 51]\<rparr>])
   = [nan_row\<lparr>current_status := Some (ascii ''Deceased''), kidnapping_summary := Some 
        [1489, 45, 55, 32, 1489, 1488, 1493, 1511, 1496, 1493, 1489, 1512, 32, 1504, 1493, 1489, 1502, 1489, 1512, 32, 50, 48, 50, 51],
        date_of_death := Some (ascii ''2023-10-07''), release_date := Some (ascii ''2023-11-24'')\<rparr>]"
  by (simp add: extract_defs)

section \<open>The consistency check and the consistency fix (C5)\<close>

lemma scan_rows_iff:
  "inc \<in> set (scan_rows k rows) \<longleftrightarrow>
     (\<exists>i < length rows. row_issues (rows ! i) \<noteq> []
        \<and> inc = \<lparr>inc_index = k + i, inc_name = hebrew_name (rows ! i),
                  inc_status = current_status (rows ! i), inc_issues = row_issues (rows ! i),
                  inc_release_date = str_cell (release_date (rows ! i)),
                  inc_release_circumstances = str_cell (release_death_circumstances (rows ! i)),
                  inc_death_context = str_cell (context_of_death (rows ! i))\<rparr>)"
proof (induction rows arbitrary: k)
  case Nil
  show ?case by simp
next
  case (Cons r rows)
  have split: "\<And>P. (\<exists>i < length (r # rows). P i) \<longleftrightarrow> P 0 \<or> (\<exists>i < length rows. P (Suc i))"
    by (metis length_Cons less_Suc_eq_0_disj)
  show ?case
    unfolding split by (simp add: Cons.IH)
qed

lemma check_data_consistency_iff:
  "inc \<in> set (check_data_consistency df) \<longleftrightarrow>
     (\<exists>i < length df. row_issues (df ! i) \<noteq> []
        \<and> inc = \<lparr>inc_index = i, inc_name = hebrew_name (df ! i),
                  inc_status = current_status (df ! i), inc_issues = row_issues (df ! i),
                  inc_release_date = str_cell (release_date (df ! i)),
                  inc_release_circumstances = str_cell (release_death_circumstances (df ! i)),
                  inc_death_context = str_cell (context_of_death (df ! i))\<rparr>)"
  by (simp add: check_data_consistency_def scan_rows_iff)

lemma row_issues_held:
  assumes "current_status r = Some (ascii ''Held in Gaza'')"
  shows "(ascii ''Held in Gaza but has release date'' \<in> set (row_issues r))
           = (str_cell (release_date r) \<notin> {ascii ''nan'', []})"
    and "(ascii ''Held in Gaza but has release circumstances'' \<in> set (row_issues r))
           = (py_in (ascii ''Released'') (str_cell (release_death_circumstances r))
              \<or> py_in (ascii ''Returned'') (str_cell (release_death_circumstances r)))"
    and "(row_issues r = [])
           = (str_cell (release_date r) \<in> {ascii ''nan'', []}
              \<and> \<not> py_in (ascii ''Released'') (str_cell (release_death_circumstances r))
              \<and> \<not> py_in (ascii ''Returned'') (str_cell (release_death_circumstances r)))"
  using assms by (simp_all add: row_issues_def Let_def ascii_def)

lemma row_issues_released:
  assumes "current_status r = Some (ascii ''Released'')"
  shows "(ascii ''Released but no release date'' \<in> set (row_issues r))
           = (str_cell (release_date r) \<in> {ascii ''nan'', []})"
    and "(ascii ''Released but no release circumstances'' \<in> set (row_issues r))
           = (str_cell (release_death_circumstances r) \<in> {ascii ''nan'', []})"
    and "(row_issues r = [])
           = (str_cell (release_date r) \<notin> {ascii ''nan'', []}
              \<and> str_cell (release_death_circumstances r) \<notin> {ascii ''nan'', []})"
  using assms by (simp_all add: row_issues_def Let_def ascii_def)

lemma row_issues_deceased:
  assumes "current_status r = Some (ascii ''Deceased'')"
  shows "(ascii ''Deceased but no death context'' \<in> set (row_issues r))
           = (str_cell (context_of_death r) \<in> {ascii ''nan'', []})"
    and "(row_issues r = []) = (str_cell (context_of_death r) \<notin> {ascii ''nan'', []})"
  using assms by (simp_all add: row_issues_def Let_def ascii_def)

lemma row_issues_deceased_returned:
  assumes "current_status r = Some (ascii ''Deceased - Returned'')"
  shows "(ascii ''Deceased-Returned but no return date'' \<in> set (row_issues r))
           = (str_cell (release_date r) \<in> {ascii ''nan'', []})"
    and "(row_issues r = []) = (str_cell (context_of_death r) \<notin> {ascii ''nan'', []}
            \<and> str_cell (release_date r) \<notin> {ascii ''nan'', []})"
    and "(ascii ''Deceased-Returned but no death context'' \<in> set (row_issues r))
           = (str_cell (context_of_death r) \<in> {ascii ''nan'', []})"
  using assms by (simp_all add: row_issues_def Let_def ascii_def)

lemma row_issues_other:
  assumes "current_status r \<noteq> Some (ascii ''Released'')"
    and "current_status r \<noteq> Some (ascii ''Held in Gaza'')"
    and "current_status r \<noteq> Some (ascii ''Deceased'')"
    and "current_status r \<noteq> Some (ascii ''Deceased - Returned'')"
  shows "row_issues r = []"
  using assms by (simp add: row_issues_def Let_def)


lemma status_neq:
  "ascii ''Released'' \<noteq> ascii ''Held in Gaza''"
  "ascii ''Held in Gaza'' \<noteq> ascii ''Released''"
  "ascii ''Deceased - Returned'' \<noteq> ascii ''Held in Gaza''"
  "ascii ''Held in Gaza'' \<noteq> ascii ''Deceased - Returned''"
  by (simp_all add: ascii_def)

lemma status_rules_held:
  assumes "is_held (status_rules r)"
  shows "str_cell (release_date (status_rules r)) \<in> {ascii ''nan'', []}"
proof (cases "current_status r = Some (ascii ''Held in Gaza'')")
  case True
  note held = this
  show ?thesis
  proof (cases "str_cell (release_date r) \<in> {ascii ''nan'', []}")
    case False
    with held have "current_status (status_rules r) = Some (ascii ''Released'')"
      by (simp add: status_rules_def Let_def)
    with assms show ?thesis by (simp add: is_held_def status_neq)
  next
    case True
    note empty = this
    show ?thesis
    proof (cases "\<exists>word \<in> set [ascii ''Released'', ascii ''Returned'', ascii ''Rescue''].
                       py_in word (str_cell (release_death_circumstances r))")
      case True
      with held empty have "current_status (status_rules r) = Some (ascii ''Deceased - Returned'')
          \<or> current_status (status_rules r) = Some (ascii ''Released'')"
        by (simp add: status_rules_def Let_def)
      with assms show ?thesis by (auto simp: is_held_def status_neq)
    next
      case False
      with held empty have "status_rules r = r"
        by (simp add: status_rules_def Let_def status_neq)
      with empty show ?thesis by simp
    qed
  qed
next
  case False
  note not_held = this
  show ?thesis
  proof (cases "current_status r = Some (ascii ''Released'')")
    case True
    note released = this
    show ?thesis
    proof (cases "py_in (ascii ''Currently Held'') (str_cell (release_death_circumstances r))")
      case True
      with released have "status_rules r = r\<lparr>current_status := Some (ascii ''Held in Gaza''), release_date := Some []\<rparr>"
        by (simp add: status_rules_def Let_def status_neq)
      then show ?thesis by (simp add: str_cell_Some)
    next
      case False
      with released have "current_status (status_rules r) = Some (ascii ''Deceased - Returned'')
          \<or> current_status (status_rules r) = Some (ascii ''Released'')"
        by (simp add: status_rules_def Let_def status_neq)
      with assms show ?thesis by (auto simp: is_held_def status_neq)
    qed
  next
    case False
    with not_held have "status_rules r = r"
      by (simp add: status_rules_def Let_def)
    with assms not_held show ?thesis by (simp add: is_held_def)
  qed
qed

lemma fix_row_held:
  assumes "is_held (fix_row r)"
  shows "str_cell (release_date (fix_row r)) \<in> {ascii ''nan'', []}"
proof (cases "str_cell (release_death_circumstances r) = ascii ''Currently Held Captive''
         \<and> str_cell (release_date r) \<notin> {ascii ''nan'', []}")
  case True
  then have "fix_row r = (status_rules r)\<lparr>release_date := Some []\<rparr>"
    unfolding fix_row_def by (rule if_P)
  then show ?thesis by (simp add: str_cell_Some)
next
  case False
  then have "fix_row r = status_rules r"
    unfolding fix_row_def by (rule if_not_P)
  with assms status_rules_held [of r] show ?thesis by simp
qed

lemma cleanup_row_same:
  "current_status (cleanup_row r) = current_status r" "release_date (cleanup_row r) = release_date r"
  by (simp_all add: cleanup_row_def)

lemma fix_data_consistency_held:
  assumes "r' \<in> set (fix_data_consistency df)" "is_held r'"
  shows "str_cell (release_date r') \<in> {ascii ''nan'', []}"
proof -
  from assms(1) obtain r where r': "r' = cleanup_row (fix_row r)"
    by (auto simp: fix_data_consistency_def)
  with assms(2) have "is_held (fix_row r)" by (simp add: is_held_def cleanup_row_same)
  from fix_row_held [OF this] show ?thesis unfolding r' by (simp add: cleanup_row_same)
qed

lemma nan_row_fields:
  "release_death_circumstances nan_row = None" "context_of_death nan_row = None"
  by (simp_all add: nan_row_def)

text \<open>
  C5. The operations of the scripts do not keep the store coherent (the
  validated import gives a release date to a record that stays ``Held in Gaza''); the
  coherence rules are what the consistency check reports. \<open>check_data_consistency\<close> reports
  exactly the rows that have an issue, each with its index, its Hebrew name, its status, its
  issues and the texts of its release date, release circumstances and death context. The
  issues of a row are decided by its status alone, by seven rules. A ``Held in Gaza'' record
  has the issue ``Held in Gaza but has release date'' exactly when its release date is not
  empty, and the issue ``Held in Gaza but has release circumstances'' exactly when its
  release circumstances contain ``Released'' or ``Returned''; it has no issue exactly when
  neither holds. A ``Released'' record has the issue ``Released but no release date'' exactly
  when its release date is empty and ``Released but no release circumstances'' exactly when
  its release circumstances are empty; it has no issue exactly when both are filled. A
  ``Deceased'' record has the issue ``Deceased but no death context'' exactly when its death
  context is empty, and no issue otherwise. A ``Deceased - Returned'' record has the issue
  ``Deceased-Returned but no death context'' exactly when its death context is empty and
  ``Deceased-Returned but no return date'' exactly when its release date is empty (its
  release circumstances are not looked at); it has no issue exactly when both are filled. A
  record of any other status has no issue. A field is empty when its text is \<open>nan\<close> or the
  empty string. After \<open>fix_data_consistency\<close> every record that is ``Held in Gaza'' has an
  empty release date.
\<close>

theorem consistency_check_reports:
  "(inc \<in> set (check_data_consistency df) \<longleftrightarrow>
      (\<exists>i < length df. row_issues (df ! i) \<noteq> []
         \<and> inc = \<lparr>inc_index = i, inc_name = hebrew_name (df ! i),
                   inc_status = current_status (df ! i), inc_issues = row_issues (df ! i),
                  inc_release_date = str_cell (release_date (df ! i)),
                  inc_release_circumstances = str_cell (release_death_circumstances (df ! i)),
                  inc_death_context = str_cell (context_of_death (df ! i))\<rparr>))
   \<and> (current_status r = Some (ascii ''Held in Gaza'') \<longrightarrow>
        (ascii ''Held in Gaza but has release date'' \<in> set (row_issues r))
          = (str_cell (release_date r) \<notin> {ascii ''nan'', []})
        \<and> (ascii ''Held in Gaza but has release circumstances'' \<in> set (row_issues r))
          = (py_in (ascii ''Released'') (str_cell (release_death_circumstances r))
             \<or> py_in (ascii ''Returned'') (str_cell (release_death_circumstances r)))
        \<and> (row_issues r = [])
          = (str_cell (release_date r) \<in> {ascii ''nan'', []}
             \<and> \<not> py_in (ascii ''Released'') (str_cell (release_death_circumstances r))
             \<and> \<not> py_in (ascii ''Returned'') (str_cell (release_death_circumstances r))))
   \<and> (current_status r = Some (ascii ''Released'') \<longrightarrow>
        (ascii ''Released but no release date'' \<in> set (row_issues r))
          = (str_cell (release_date r) \<in> {ascii ''nan'', []})
        \<and> (ascii ''Released but no release circumstances'' \<in> set (row_issues r))
          = (str_cell (release_death_circumstances r) \<in> {ascii ''nan'', []})
        \<and> (row_issues r = [])
          = (str_cell (release_date r) \<notin> {ascii ''nan'', []}
             \<and> str_cell (release_death_circumstances r) \<notin> {ascii ''nan'', []}))
   \<and> (current_status r = Some (ascii ''Deceased'') \<longrightarrow>
        (ascii ''Deceased but no death context'' \<in> set (row_issues r))
          = (str_cell (context_of_death r) \<in> {ascii ''nan'', []})
        \<and> (row_issues r = []) = (str_cell (context_of_death r) \<notin> {ascii ''nan'', []}))
   \<and> (current_status r = Some (ascii ''Deceased - Returned'') \<longrightarrow>
        (ascii ''Deceased-Returned but no return date'' \<in> set (row_issues r))
          = (str_cell (release_date r) \<in> {ascii ''nan'', []})
        \<and> (row_issues r = [])
          = (str_cell (context_of_death r) \<notin> {ascii ''nan'', []}
             \<and> str_cell (release_date r) \<notin> {ascii ''nan'', []})
        \<and> (ascii ''Deceased-Returned but no death context'' \<in> set (row_issues r))
          = (str_cell (context_of_death r) \<in> {ascii ''nan'', []}))
   \<and> (current_status r \<noteq> Some (ascii ''Released'')
        \<and> current_status r \<noteq> Some (ascii ''Held in Gaza'')
        \<and> current_status r \<noteq> Some (ascii ''Deceased'')
        \<and> current_status r \<noteq> Some (ascii ''Deceased - Returned'') \<longrightarrow> row_issues r = [])
   \<and> (\<forall>r' \<in> set (fix_data_consistency df). is_held r' \<longrightarrow>
        str_cell (release_date r') \<in> {ascii ''nan'', []})"
proof (intro conjI impI ballI)
  show "inc \<in> set (check_data_consistency df) \<longleftrightarrow>
      (\<exists>i < length df. row_issues (df ! i) \<noteq> []
         \<and> inc = \<lparr>inc_index = i, inc_name = hebrew_name (df ! i),
                   inc_status = current_status (df ! i), inc_issues = row_issues (df ! i),
                  inc_release_date = str_cell (release_date (df ! i)),
                  inc_release_circumstances = str_cell (release_death_circumstances (df ! i)),
                  inc_death_context = str_cell (context_of_death (df ! i))\<rparr>)"
    by (rule check_data_consistency_iff)
next
  assume a: "current_status r = Some (ascii ''Held in Gaza'')"
  from a show "(ascii ''Held in Gaza but has release date'' \<in> set (row_issues r))
          = (str_cell (release_date r) \<notin> {ascii ''nan'', []})"
    by (rule row_issues_held(1))
  from a show "(ascii ''Held in Gaza but has release circumstances'' \<in> set (row_issues r))
          = (py_in (ascii ''Released'') (str_cell (release_death_circumstances r))
             \<or> py_in (ascii ''Returned'') (str_cell (release_death_circumstances r)))"
    by (rule row_issues_held(2))
  from a show "(row_issues r = [])
          = (str_cell (release_date r) \<in> {ascii ''nan'', []}
             \<and> \<not> py_in (ascii ''Released'') (str_cell (release_death_circumstances r))
             \<and> \<not> py_in (ascii ''Returned'') (str_cell (release_death_circumstances r)))"
    by (rule row_issues_held(3))
next
  assume a: "current_status r = Some (ascii ''Released'')"
  from a show "(ascii ''Released but no release date'' \<in> set (row_issues r))
          = (str_cell (release_date r) \<in> {ascii ''nan'', []})"
    by (rule row_issues_released(1))
  from a show "(ascii ''Released but no release circumstances'' \<in> set (row_issues r))
          = (str_cell (release_death_circumstances r) \<in> {ascii ''nan'', []})"
    by (rule row_issues_released(2))
  from a show "(row_issues r = [])
          = (str_cell (release_date r) \<notin> {ascii ''nan'', []}
             \<and> str_cell (release_death_circumstances r) \<notin> {ascii ''nan'', []})"
    by (rule row_issues_released(3))
next
  assume a: "current_status r = Some (ascii ''Deceased'')"
  from a show "(ascii ''Deceased but no death context'' \<in> set (row_issues r))
          = (str_cell (context_of_death r) \<in> {ascii ''nan'', []})"
    by (rule row_issues_deceased(1))
  from a show "(row_issues r = []) = (str_cell (context_of_death r) \<notin> {ascii ''nan'', []})"
    by (rule row_issues_deceased(2))
next
  assume a: "current_status r = Some (ascii ''Deceased - Returned'')"
  from a show "(ascii ''Deceased-Returned but no return date'' \<in> set (row_issues r))
          = (str_cell (release_date r) \<in> {ascii ''nan'', []})"
    by (rule row_issues_deceased_returned(1))
  from a show "(row_issues r = [])
          = (str_cell (context_of_death r) \<notin> {ascii ''nan'', []}
             \<and> str_cell (release_date r) \<notin> {ascii ''nan'', []})"
    by (rule row_issues_deceased_returned(2))
  from a show "(ascii ''Deceased-Returned but no death context'' \<in> set (row_issues r))
          = (str_cell (context_of_death r) \<in> {ascii ''nan'', []})"
    by (rule row_issues_deceased_returned(3))
next
  assume "current_status r \<noteq> Some (ascii ''Released'')
        \<and> current_status r \<noteq> Some (ascii ''Held in Gaza'')
        \<and> current_status r \<noteq> Some (ascii ''Deceased'')
        \<and> current_status r \<noteq> Some (ascii ''Deceased - Returned'')"
  then show "row_issues r = []"
    using row_issues_other [of r] by (elim conjE)
next
  fix r' assume "r' \<in> set (fix_data_consistency df)" "is_held r'"
  then show "str_cell (release_date r') \<in> {ascii ''nan'', []}"
    by (rule fix_data_consistency_held)
qed

theorem consistency_check_reports_witness:
  "current_status (nan_row\<lparr>hebrew_name := Some (ascii ''X''), current_status := Some (ascii ''Held in Gaza''),
        release_date := Some (ascii ''2024-06-08'')\<rparr>) = Some (ascii ''Held in Gaza'')
   \<and> str_cell (release_date (nan_row\<lparr>hebrew_name := Some (ascii ''X''),
        current_status := Some (ascii ''Held in Gaza''), release_date := Some (ascii ''2024-06-08'')\<rparr>))
        \<notin> {ascii ''nan'', []}
   \<and> ascii ''Held in Gaza but has release date''
        \<in> set (row_issues (nan_row\<lparr>hebrew_name := Some (ascii ''X''),
             current_status := Some (ascii ''Held in Gaza''), release_date := Some (ascii ''2024-06-08'')\<rparr>))
   \<and> \<lparr>inc_index = 0, inc_name = Some (ascii ''X''), inc_status = Some (ascii ''Held in Gaza''),
        inc_issues = [ascii ''Held in Gaza but has release date''],
        inc_release_date = ascii ''2024-06-08'', inc_release_circumstances = ascii ''nan'',
        inc_death_context = ascii ''nan''\<rparr>
        \<in> set (check_data_consistency [nan_row\<lparr>hebrew_name := Some (ascii ''X''),
             current_status := Some (ascii ''Held in Gaza''), release_date := Some (ascii ''2024-06-08'')\<rparr>])
   \<and> str_cell (release_date (cleanup_row (fix_row (nan_row\<lparr>current_status := Some (ascii ''Released''),
        release_death_circumstances := Some (ascii ''Currently Held Captive''),
        release_date := Some (ascii ''2024-06-08'')\<rparr>)))) \<in> {ascii ''nan'', []}
   \<and> ascii ''Held in Gaza but has release circumstances''
        \<in> set (row_issues (nan_row\<lparr>current_status := Some (ascii ''Held in Gaza''),
             release_death_circumstances := Some (ascii ''Returned in Deal'')\<rparr>))
   \<and> ascii ''Deceased but no death context''
        \<in> set (row_issues (nan_row\<lparr>current_status := Some (ascii ''Deceased'')\<rparr>))
   \<and> row_issues (nan_row\<lparr>current_status := Some (ascii ''Released''),
        release_date := Some (ascii ''2024-06-08''),
        release_death_circumstances := Some (ascii ''Returned in Deal'')\<rparr>) = []
   \<and> row_issues (nan_row\<lparr>current_status := Some (ascii ''Unknown'')\<rparr>) = []"
proof -
  let ?h = "nan_row\<lparr>hebrew_name := Some (ascii ''X''), current_status := Some (ascii ''Held in Gaza''),
        release_date := Some (ascii ''2024-06-08'')\<rparr>"
  let ?c = "nan_row\<lparr>current_status := Some (ascii ''Released''),
        release_death_circumstances := Some (ascii ''Currently Held Captive''),
        release_date := Some (ascii ''2024-06-08'')\<rparr>"
  let ?g = "nan_row\<lparr>current_status := Some (ascii ''Held in Gaza''),
             release_death_circumstances := Some (ascii ''Returned in Deal'')\<rparr>"
  let ?d = "nan_row\<lparr>current_status := Some (ascii ''Deceased'')\<rparr>"
  let ?l = "nan_row\<lparr>current_status := Some (ascii ''Released''),
        release_date := Some (ascii ''2024-06-08''),
        release_death_circumstances := Some (ascii ''Returned in Deal'')\<rparr>"
  let ?u = "nan_row\<lparr>current_status := Some (ascii ''Unknown'')\<rparr>"
  let ?inc = "\<lparr>inc_index = 0, inc_name = Some (ascii ''X''), inc_status = Some (ascii ''Held in Gaza''),
        inc_issues = [ascii ''Held in Gaza but has release date''],
        inc_release_date = ascii ''2024-06-08'', inc_release_circumstances = ascii ''nan'',
        inc_death_context = ascii ''nan''\<rparr>"
  have h1: "current_status ?h = Some (ascii ''Held in Gaza'')" by simp
  have h2: "str_cell (release_date ?h) \<notin> {ascii ''nan'', []}"
    by (simp add: str_cell_def ascii_def)
  have h3: "row_issues ?h = [ascii ''Held in Gaza but has release date'']"
    by (simp add: row_issues_def Let_def str_cell_def nan_row_def ascii_def)
  have h4: "\<exists>i < length [?h]. row_issues ([?h] ! i) \<noteq> []
         \<and> ?inc = \<lparr>inc_index = i, inc_name = hebrew_name ([?h] ! i),
                   inc_status = current_status ([?h] ! i), inc_issues = row_issues ([?h] ! i),
                  inc_release_date = str_cell (release_date ([?h] ! i)),
                  inc_release_circumstances = str_cell (release_death_circumstances ([?h] ! i)),
                  inc_death_context = str_cell (context_of_death ([?h] ! i))\<rparr>"
    by (rule exI [of _ 0]) (simp add: h3 str_cell_Some str_cell_None nan_row_fields)
  have h5: "cleanup_row (fix_row ?c) \<in> set (fix_data_consistency [?c])"
    by (simp add: fix_data_consistency_def)
  have h6: "is_held (cleanup_row (fix_row ?c))"
    by (simp add: is_held_def cleanup_row_same fix_row_def status_rules_def Let_def str_cell_def ascii_def)
  have g1: "current_status ?g = Some (ascii ''Held in Gaza'')" by simp
  have g2: "py_in (ascii ''Released'') (str_cell (release_death_circumstances ?g))
             \<or> py_in (ascii ''Returned'') (str_cell (release_death_circumstances ?g))"
    by (simp add: str_cell_def ascii_def)
  have d1: "current_status ?d = Some (ascii ''Deceased'')" by simp
  have d2: "str_cell (context_of_death ?d) \<in> {ascii ''nan'', []}"
    by (simp add: str_cell_def nan_row_def)
  have l1: "current_status ?l = Some (ascii ''Released'')" by simp
  have l2: "str_cell (release_date ?l) \<notin> {ascii ''nan'', []}
             \<and> str_cell (release_death_circumstances ?l) \<notin> {ascii ''nan'', []}"
    by (simp add: str_cell_def ascii_def)
  have u1: "current_status ?u \<noteq> Some (ascii ''Released'')
        \<and> current_status ?u \<noteq> Some (ascii ''Held in Gaza'')
        \<and> current_status ?u \<noteq> Some (ascii ''Deceased'')
        \<and> current_status ?u \<noteq> Some (ascii ''Deceased - Returned'')"
    by (simp add: ascii_def)
  note t = consistency_check_reports [of ?inc "[?h]" ?h]
  note t2 = consistency_check_reports [of ?inc "[?c]" ?h]
  note tg = consistency_check_reports [of ?inc "[?h]" ?g]
  note td = consistency_check_reports [of ?inc "[?h]" ?d]
  note tl = consistency_check_reports [of ?inc "[?h]" ?l]
  note tu = consistency_check_reports [of ?inc "[?h]" ?u]
  note c2 = conjunct2 [THEN conjunct1]
  note c3 = conjunct2 [THEN conjunct2, THEN conjunct1]
  note c4 = conjunct2 [THEN conjunct2, THEN conjunct2, THEN conjunct1]
  note c6 = conjunct2 [THEN conjunct2, THEN conjunct2, THEN conjunct2, THEN conjunct2, THEN conjunct1]
  note c7 = conjunct2 [THEN conjunct2, THEN conjunct2, THEN conjunct2, THEN conjunct2, THEN conjunct2]
  have a: "ascii ''Held in Gaza but has release date'' \<in> set (row_issues ?h)"
    using t [THEN c2, THEN mp, OF h1, THEN conjunct1] h2 by (rule iffD2)
  have b: "?inc \<in> set (check_data_consistency [?h])"
    using t [THEN conjunct1] h4 by (rule iffD2)
  have c: "str_cell (release_date (cleanup_row (fix_row ?c))) \<in> {ascii ''nan'', []}"
    using t2 [THEN c7, THEN bspec, OF h5, THEN mp, OF h6] .
  have g: "ascii ''Held in Gaza but has release circumstances'' \<in> set (row_issues ?g)"
    using tg [THEN c2, THEN mp, OF g1, THEN conjunct2, THEN conjunct1] g2 by (rule iffD2)
  have d: "ascii ''Deceased but no death context'' \<in> set (row_issues ?d)"
    using td [THEN c4, THEN mp, OF d1, THEN conjunct1] d2 by (rule iffD2)
  have l: "row_issues ?l = []"
    using tl [THEN c3, THEN mp, OF l1, THEN conjunct2, THEN conjunct2] l2 by (rule iffD2)
  have u: "row_issues ?u = []"
    using tu [THEN c6, THEN mp, OF u1] .
  from h1 h2 a b c g d l u show ?thesis by (intro conjI)
qed

theorem store_not_coherent_counterexample:
  "current_status (import_row (\<lambda>u. True)
      [nan_row\<lparr>hebrew_name := Some (ascii ''X''), release_date := Some (ascii ''2024-06-08''),
         release_death_circumstances := Some (ascii ''Returned in Military Operation'')\<rparr>]
      (nan_row\<lparr>hebrew_name := Some (ascii ''X''), current_status := Some (ascii ''Held in Gaza'')\<rparr>))
     = Some (ascii ''Held in Gaza'')
   \<and> release_date (import_row (\<lambda>u. True)
      [nan_row\<lparr>hebrew_name := Some (ascii ''X''), release_date := Some (ascii ''2024-06-08''),
         release_death_circumstances := Some (ascii ''Returned in Military Operation'')\<rparr>]
      (nan_row\<lparr>hebrew_name := Some (ascii ''X''), current_status := Some (ascii ''Held in Gaza'')\<rparr>))
     = Some (ascii ''2024-06-08'')
   \<and> release_death_circumstances (nan_row\<lparr>current_status := Some (ascii ''Deceased - Returned''),
        context_of_death := Some (ascii ''Died in Captivity - Killed by Hamas''),
        release_date := Some (ascii ''2024-06-08'')\<rparr>) = None
   \<and> row_issues (nan_row\<lparr>current_status := Some (ascii ''Deceased - Returned''),
        context_of_death := Some (ascii ''Died in Captivity - Killed by Hamas''),
        release_date := Some (ascii ''2024-06-08'')\<rparr>) = []"
  by (simp add: import_row_def archive_lookup_def cell_eq_def import_date_def assign_def truthy_def
      empty_cell_def row_issues_def nan_row_def Let_def date_defs)

section \<open>Fuzzy matching takes the best candidate (C4)\<close>

lemma variants_loop_Cons:
  "variants_loop ratio e h (v # vs) (b, s) =
     (if similarity ratio e v > s \<and> similarity ratio e v > 7 / 10
      then variants_loop ratio e h vs (Some h, similarity ratio e v)
      else variants_loop ratio e h vs (b, s))"
  by (simp add: Let_def)

lemma variants_loop_inv:
  assumes "variants_loop ratio e h vs (b, s) = (b', s')"
  shows "s \<le> s'
     \<and> (\<forall>v \<in> set vs. similarity ratio e v > 7 / 10 \<longrightarrow> similarity ratio e v \<le> s')
     \<and> ((b', s') = (b, s)
         \<or> (b' = Some h \<and> s' > 7 / 10 \<and> s' > s \<and> (\<exists>v \<in> set vs. similarity ratio e v = s')))"
  using assms
proof (induction vs arbitrary: b s)
  case Nil
  then show ?case by simp
next
  case (Cons v vs)
  let ?x = "similarity ratio e v"
  show ?case
  proof (cases "?x > s \<and> ?x > 7 / 10")
    case True
    with Cons.prems have "variants_loop ratio e h vs (Some h, ?x) = (b', s')"
      by (simp only: variants_loop_Cons simp_thms if_True)
    from Cons.IH [OF this]
    have 1: "?x \<le> s'"
      and 2: "\<forall>v \<in> set vs. similarity ratio e v > 7 / 10 \<longrightarrow> similarity ratio e v \<le> s'"
      and 3: "(b', s') = (Some h, ?x)
         \<or> (b' = Some h \<and> s' > 7 / 10 \<and> s' > ?x \<and> (\<exists>v \<in> set vs. similarity ratio e v = s'))"
      by blast+
    from True 1 have a: "s \<le> s'" and gt: "s' > s" and g7: "s' > 7 / 10" by linarith+
    from 1 2 have b: "\<forall>w \<in> set (v # vs). similarity ratio e w > 7 / 10 \<longrightarrow> similarity ratio e w \<le> s'"
      by simp
    from 3 have "b' = Some h \<and> (\<exists>w \<in> set (v # vs). similarity ratio e w = s')"
      by (elim disjE) auto
    with a b gt g7 show ?thesis by blast
  next
    case False
    with Cons.prems have "variants_loop ratio e h vs (b, s) = (b', s')"
      by (simp only: variants_loop_Cons simp_thms if_False)
    from Cons.IH [OF this]
    have 1: "s \<le> s'"
      and 2: "\<forall>v \<in> set vs. similarity ratio e v > 7 / 10 \<longrightarrow> similarity ratio e v \<le> s'"
      and 3: "(b', s') = (b, s)
         \<or> (b' = Some h \<and> s' > 7 / 10 \<and> s' > s \<and> (\<exists>v \<in> set vs. similarity ratio e v = s'))"
      by blast+
    from False 1 have "?x > 7 / 10 \<longrightarrow> ?x \<le> s'" by linarith
    with 2 have b: "\<forall>w \<in> set (v # vs). similarity ratio e w > 7 / 10 \<longrightarrow> similarity ratio e w \<le> s'"
      by simp
    from 3 have c: "(b', s') = (b, s)
         \<or> (b' = Some h \<and> s' > 7 / 10 \<and> s' > s \<and> (\<exists>w \<in> set (v # vs). similarity ratio e w = s'))"
      by (elim disjE) auto
    from 1 b c show ?thesis by blast
  qed
qed

lemma mappings_loop_inv:
  assumes "mappings_loop ratio e ms (b, s) = (b', s')"
  shows "s \<le> s'
     \<and> (\<forall>(h, vs) \<in> set ms. \<forall>v \<in> set vs. similarity ratio e v > 7 / 10 \<longrightarrow> similarity ratio e v \<le> s')
     \<and> ((b', s') = (b, s)
         \<or> (\<exists>h vs v. (h, vs) \<in> set ms \<and> v \<in> set vs \<and> b' = Some h
               \<and> similarity ratio e v = s' \<and> s' > 7 / 10 \<and> s' > s))"
  using assms
proof (induction ms arbitrary: b s)
  case Nil
  then show ?case by simp
next
  case (Cons m ms)
  obtain h vs where m: "m = (h, vs)" by (cases m)
  obtain b1 s1 where v: "variants_loop ratio e h vs (b, s) = (b1, s1)"
    by (cases "variants_loop ratio e h vs (b, s)")
  with Cons.prems m have r: "mappings_loop ratio e ms (b1, s1) = (b', s')" by simp
  from variants_loop_inv [OF v]
  have v1: "s \<le> s1"
    and v2: "\<forall>v \<in> set vs. similarity ratio e v > 7 / 10 \<longrightarrow> similarity ratio e v \<le> s1"
    and v3: "(b1, s1) = (b, s)
         \<or> (b1 = Some h \<and> s1 > 7 / 10 \<and> s1 > s \<and> (\<exists>v \<in> set vs. similarity ratio e v = s1))"
    by blast+
  from Cons.IH [OF r]
  have m1: "s1 \<le> s'"
    and m2: "\<forall>(h, vs) \<in> set ms. \<forall>v \<in> set vs. similarity ratio e v > 7 / 10 \<longrightarrow> similarity ratio e v \<le> s'"
    and m3: "(b', s') = (b1, s1)
         \<or> (\<exists>h vs v. (h, vs) \<in> set ms \<and> v \<in> set vs \<and> b' = Some h
               \<and> similarity ratio e v = s' \<and> s' > 7 / 10 \<and> s' > s1)"
    by blast+
  have 1: "s \<le> s'" using v1 m1 by linarith
  have "\<forall>v \<in> set vs. similarity ratio e v > 7 / 10 \<longrightarrow> similarity ratio e v \<le> s'"
  proof (intro ballI impI)
    fix w assume "w \<in> set vs" "similarity ratio e w > 7 / 10"
    with v2 have "similarity ratio e w \<le> s1" by blast
    with m1 show "similarity ratio e w \<le> s'" by linarith
  qed
  with m2 have 2: "\<forall>(h, vs) \<in> set (m # ms). \<forall>v \<in> set vs. similarity ratio e v > 7 / 10
        \<longrightarrow> similarity ratio e v \<le> s'"
    unfolding m by simp
  have 3: "(b', s') = (b, s)
         \<or> (\<exists>h vs v. (h, vs) \<in> set (m # ms) \<and> v \<in> set vs \<and> b' = Some h
               \<and> similarity ratio e v = s' \<and> s' > 7 / 10 \<and> s' > s)"
    using m3
  proof (elim disjE exE conjE)
    assume e: "(b', s') = (b1, s1)"
    from v3 show ?thesis
    proof (elim disjE conjE bexE)
      assume "(b1, s1) = (b, s)"
      with e show ?thesis by simp
    next
      fix w assume "b1 = Some h" "s1 > 7 / 10" "s1 > s" "w \<in> set vs" "similarity ratio e w = s1"
      with e m have "(h, vs) \<in> set (m # ms) \<and> w \<in> set vs \<and> b' = Some h
               \<and> similarity ratio e w = s' \<and> s' > 7 / 10 \<and> s' > s" by simp
      then show ?thesis by blast
    qed
  next
    fix h' vs' v' assume "(h', vs') \<in> set ms" "v' \<in> set vs'" "b' = Some h'"
      "similarity ratio e v' = s'" "s' > 7 / 10" "s' > s1"
    with v1 have "(h', vs') \<in> set (m # ms) \<and> v' \<in> set vs' \<and> b' = Some h'
               \<and> similarity ratio e v' = s' \<and> s' > 7 / 10 \<and> s' > s" by simp
    then show ?thesis by blast
  qed
  from 1 2 3 show ?case by (intro conjI)
qed

lemma best_hebrew_match_eq:
  assumes "mappings_loop ratio e mappings (None, 0) = (b', s')"
  shows "best_hebrew_match ratio mappings e = (if s' > 7 / 10 then b' else None)"
  using assms unfolding best_hebrew_match_def by (simp only: prod.case)

lemma best_hebrew_match_None:
  "(best_hebrew_match ratio mappings e = None)
     = (\<forall>(h, vs) \<in> set mappings. \<forall>v \<in> set vs. \<not> similarity ratio e v > 7 / 10)"
proof -
  obtain b' s' where l: "mappings_loop ratio e mappings (None, 0) = (b', s')"
    by (cases "mappings_loop ratio e mappings (None, 0)")
  from mappings_loop_inv [OF l]
  have m2: "\<forall>(h, vs) \<in> set mappings. \<forall>v \<in> set vs. similarity ratio e v > 7 / 10 \<longrightarrow> similarity ratio e v \<le> s'"
    and m3: "(b', s') = (None, 0)
         \<or> (\<exists>h vs v. (h, vs) \<in> set mappings \<and> v \<in> set vs \<and> b' = Some h
               \<and> similarity ratio e v = s' \<and> s' > 7 / 10 \<and> s' > 0)"
    by blast+
  show ?thesis
  proof (cases "s' > 7 / 10")
    case True
    then have "(b', s') \<noteq> (None, 0)" by auto
    with m3 obtain h vs v where hv: "(h, vs) \<in> set mappings" "v \<in> set vs" "b' = Some h"
      "similarity ratio e v = s'" by blast
    with True have "best_hebrew_match ratio mappings e \<noteq> None"
      by (simp only: best_hebrew_match_eq [OF l] if_True) simp
    moreover from hv True have "\<not> (\<forall>(h, vs) \<in> set mappings. \<forall>v \<in> set vs. \<not> similarity ratio e v > 7 / 10)"
      by blast
    ultimately show ?thesis by blast
  next
    case False
    have "\<forall>(h, vs) \<in> set mappings. \<forall>v \<in> set vs. \<not> similarity ratio e v > 7 / 10"
    proof (intro ballI, clarify)
      fix h vs v assume a: "(h, vs) \<in> set mappings" "v \<in> set vs" "similarity ratio e v > 7 / 10"
      with m2 have "similarity ratio e v \<le> s'" by blast
      with a(3) False show False by linarith
    qed
    moreover from False have "best_hebrew_match ratio mappings e = None"
      by (simp only: best_hebrew_match_eq [OF l] if_False)
    ultimately show ?thesis by blast
  qed
qed

lemma best_hebrew_match_Some:
  assumes "best_hebrew_match ratio mappings e = Some h"
  shows "\<exists>vs v. (h, vs) \<in> set mappings \<and> v \<in> set vs \<and> similarity ratio e v > 7 / 10
           \<and> (\<forall>(h', vs') \<in> set mappings. \<forall>v' \<in> set vs'.
                 similarity ratio e v' \<le> similarity ratio e v)"
proof -
  obtain b' s' where l: "mappings_loop ratio e mappings (None, 0) = (b', s')"
    by (cases "mappings_loop ratio e mappings (None, 0)")
  from mappings_loop_inv [OF l]
  have m2: "\<forall>(h, vs) \<in> set mappings. \<forall>v \<in> set vs. similarity ratio e v > 7 / 10 \<longrightarrow> similarity ratio e v \<le> s'"
    and m3: "(b', s') = (None, 0)
         \<or> (\<exists>h vs v. (h, vs) \<in> set mappings \<and> v \<in> set vs \<and> b' = Some h
               \<and> similarity ratio e v = s' \<and> s' > 7 / 10 \<and> s' > 0)"
    by blast+
  have s: "s' > 7 / 10"
  proof (rule ccontr)
    assume "\<not> s' > 7 / 10"
    then have "best_hebrew_match ratio mappings e = None"
      by (simp only: best_hebrew_match_eq [OF l] if_False)
    with assms show False by simp
  qed
  then have b: "b' = Some h" using assms by (simp only: best_hebrew_match_eq [OF l] if_True)
  from s have "(b', s') \<noteq> (None, 0)" by auto
  with m3 b obtain vs v where m: "(h, vs) \<in> set mappings" "v \<in> set vs" "similarity ratio e v = s'"
    by auto
  have "\<forall>(h', vs') \<in> set mappings. \<forall>v' \<in> set vs'. similarity ratio e v' \<le> s'"
  proof (intro ballI, clarify)
    fix h' vs' v' assume a: "(h', vs') \<in> set mappings" "v' \<in> set vs'"
    show "similarity ratio e v' \<le> s'"
    proof (cases "similarity ratio e v' > 7 / 10")
      case True
      with m2 a show ?thesis by blast
    next
      case False
      with s show ?thesis by linarith
    qed
  qed
  with m s show ?thesis by (intro exI [of _ vs] exI [of _ v]) simp
qed

lemma best_match_loop_Cons:
  "best_match_loop name k (r # rows) (b, s) =
     (if is_held r then best_match_loop name (Suc k) rows (b, s)
      else if match_score name (str_cell (hebrew_name r)) > s
              \<and> match_score name (str_cell (hebrew_name r)) \<ge> 3
           then best_match_loop name (Suc k) rows (Some k, match_score name (str_cell (hebrew_name r)))
           else best_match_loop name (Suc k) rows (b, s))"
  by (simp add: is_held_def Let_def)

lemma all_less_Suc: "(\<forall>i < Suc n. P i) = (P 0 \<and> (\<forall>i < n. P (Suc i)))"
  by (metis less_Suc_eq_0_disj Suc_less_eq zero_less_Suc)

lemma loop_post_step:
  assumes "loop_post name (Suc k) rows mid result"
    and "snd start \<le> snd mid"
    and "\<not> is_held r \<and> 3 \<le> match_score name (str_cell (hebrew_name r))
           \<longrightarrow> match_score name (str_cell (hebrew_name r)) \<le> snd mid"
    and "mid = start \<or> (fst mid = Some k \<and> \<not> is_held r
           \<and> match_score name (str_cell (hebrew_name r)) = snd mid \<and> 3 \<le> snd mid
           \<and> snd start < snd mid)"
  shows "loop_post name k (r # rows) start result"
proof -
  let ?sc = "\<lambda>x. match_score name (str_cell (hebrew_name x))"
  from assms(1) have p1: "snd mid \<le> snd result"
    and p2: "\<forall>i < length rows. \<not> is_held (rows ! i) \<and> 3 \<le> ?sc (rows ! i) \<longrightarrow> ?sc (rows ! i) \<le> snd result"
    and p3: "result = mid
          \<or> (\<exists>i < length rows. fst result = Some (Suc k + i) \<and> \<not> is_held (rows ! i)
                \<and> ?sc (rows ! i) = snd result \<and> 3 \<le> snd result \<and> snd mid < snd result
                \<and> (\<forall>j < i. \<not> is_held (rows ! j) \<longrightarrow> ?sc (rows ! j) < snd result))"
    unfolding loop_post_def by blast+
  have 1: "snd start \<le> snd result" using assms(2) p1 by linarith
  have 2: "\<forall>i < length (r # rows). \<not> is_held ((r # rows) ! i) \<and> 3 \<le> ?sc ((r # rows) ! i)
              \<longrightarrow> ?sc ((r # rows) ! i) \<le> snd result"
    using assms(3) p1 p2 by (simp add: all_less_Suc) linarith
  have 3: "result = start
          \<or> (\<exists>i < length (r # rows). fst result = Some (k + i) \<and> \<not> is_held ((r # rows) ! i)
                \<and> ?sc ((r # rows) ! i) = snd result \<and> 3 \<le> snd result \<and> snd start < snd result
                \<and> (\<forall>j < i. \<not> is_held ((r # rows) ! j) \<longrightarrow> ?sc ((r # rows) ! j) < snd result))"
    using p3
  proof (elim disjE exE conjE)
    assume e: "result = mid"
    from assms(4) show ?thesis
    proof (elim disjE conjE)
      assume "mid = start"
      with e show ?thesis by simp
    next
      assume "fst mid = Some k" "\<not> is_held r" "?sc r = snd mid" "3 \<le> snd mid" "snd start < snd mid"
      with e have "0 < length (r # rows) \<and> fst result = Some (k + 0) \<and> \<not> is_held ((r # rows) ! 0)
                \<and> ?sc ((r # rows) ! 0) = snd result \<and> 3 \<le> snd result \<and> snd start < snd result
                \<and> (\<forall>j < 0. \<not> is_held ((r # rows) ! j) \<longrightarrow> ?sc ((r # rows) ! j) < snd result)"
        by simp
      then show ?thesis by blast
    qed
  next
    fix i assume i: "i < length rows" "fst result = Some (Suc k + i)" "\<not> is_held (rows ! i)"
      "?sc (rows ! i) = snd result" "3 \<le> snd result" "snd mid < snd result"
      "\<forall>j < i. \<not> is_held (rows ! j) \<longrightarrow> ?sc (rows ! j) < snd result"
    have first: "\<not> is_held r \<longrightarrow> ?sc r < snd result"
    proof
      assume nh: "\<not> is_held r"
      show "?sc r < snd result"
      proof (cases "3 \<le> ?sc r")
        case True
        with nh assms(3) have "?sc r \<le> snd mid" by blast
        with i(6) show ?thesis by linarith
      next
        case False
        with i(5) show ?thesis by linarith
      qed
    qed
    have "\<forall>j < Suc i. \<not> is_held ((r # rows) ! j) \<longrightarrow> ?sc ((r # rows) ! j) < snd result"
      using first i(7) by (simp add: all_less_Suc)
    moreover have "snd start < snd result" using assms(2) i(6) by linarith
    ultimately have "Suc i < length (r # rows) \<and> fst result = Some (k + Suc i)
                \<and> \<not> is_held ((r # rows) ! Suc i)
                \<and> ?sc ((r # rows) ! Suc i) = snd result \<and> 3 \<le> snd result \<and> snd start < snd result
                \<and> (\<forall>j < Suc i. \<not> is_held ((r # rows) ! j) \<longrightarrow> ?sc ((r # rows) ! j) < snd result)"
      using i by simp
    then show ?thesis by blast
  qed
  from 1 2 3 show ?thesis unfolding loop_post_def by (intro conjI)
qed

lemma best_match_loop_inv:
  "loop_post name k rows (b, s) (best_match_loop name k rows (b, s))"
proof (induction rows arbitrary: k b s)
  case Nil
  show ?case by (simp add: loop_post_def)
next
  case (Cons r rows)
  let ?x = "match_score name (str_cell (hebrew_name r))"
  show ?case
  proof (cases "is_held r")
    case True
    then have e: "best_match_loop name k (r # rows) (b, s) = best_match_loop name (Suc k) rows (b, s)"
      by (simp only: best_match_loop_Cons if_True)
    show ?thesis unfolding e
      by (rule loop_post_step [OF Cons.IH]) (use True in simp_all)
  next
    case False
    note nh = this
    show ?thesis
    proof (cases "?x > s \<and> ?x \<ge> 3")
      case True
      with nh have e: "best_match_loop name k (r # rows) (b, s)
          = best_match_loop name (Suc k) rows (Some k, ?x)"
        by (simp only: best_match_loop_Cons simp_thms if_True if_False)
      show ?thesis unfolding e
        by (rule loop_post_step [OF Cons.IH]) (use True nh in simp_all)
    next
      case False
      with nh have e: "best_match_loop name k (r # rows) (b, s)
          = best_match_loop name (Suc k) rows (b, s)"
        by (simp only: best_match_loop_Cons simp_thms if_True if_False)
      show ?thesis unfolding e
        by (rule loop_post_step [OF Cons.IH]) (use False nh in auto)
    qed
  qed
qed

lemma fuzzy_match_fst:
  "fuzzy_match df name =
     (case fst (best_match_loop name 0 df (None, 0)) of
        None \<Rightarrow> None
      | Some best_match \<Rightarrow>
          Some \<lparr>upd_missing = name, upd_found = hebrew_name (df ! best_match),
                upd_index = best_match, upd_current_status = current_status (df ! best_match),
                upd_score = snd (best_match_loop name 0 df (None, 0))\<rparr>)"
  by (cases "best_match_loop name 0 df (None, 0)") (simp add: fuzzy_match_def split: option.splits)

lemma fuzzy_match_None:
  "(fuzzy_match df name = None)
     = (\<forall>r \<in> set df. is_held r \<or> match_score name (str_cell (hebrew_name r)) < 3)"
proof -
  let ?sc = "\<lambda>x. match_score name (str_cell (hebrew_name x))"
  let ?res = "best_match_loop name 0 df (None, 0)"
  from best_match_loop_inv [of name 0 df None 0]
  have p2: "\<forall>i < length df. \<not> is_held (df ! i) \<and> 3 \<le> ?sc (df ! i) \<longrightarrow> ?sc (df ! i) \<le> snd ?res"
    and p3: "?res = (None, 0)
          \<or> (\<exists>i < length df. fst ?res = Some (0 + i) \<and> \<not> is_held (df ! i)
                \<and> ?sc (df ! i) = snd ?res \<and> 3 \<le> snd ?res)"
    unfolding loop_post_def by auto
  have n: "(fuzzy_match df name = None) = (fst ?res = None)"
    by (simp add: fuzzy_match_fst split: option.splits)
  show ?thesis
  proof (cases "fst ?res")
    case None
    with p3 have "?res = (None, 0)" by auto
    then have "snd ?res = 0" by simp
    with p2 have "\<forall>i < length df. is_held (df ! i) \<or> ?sc (df ! i) < 3" by fastforce
    then have "\<forall>r \<in> set df. is_held r \<or> ?sc r < 3" by (metis in_set_conv_nth)
    with None n show ?thesis by simp
  next
    case (Some i')
    with p3 obtain i where "i < length df" "\<not> is_held (df ! i)" "3 \<le> ?sc (df ! i)" by auto
    then have "\<not> (\<forall>r \<in> set df. is_held r \<or> ?sc r < 3)"
      by (metis nth_mem not_less)
    moreover from Some n have "fuzzy_match df name \<noteq> None" by simp
    ultimately show ?thesis by blast
  qed
qed

lemma fuzzy_match_Some:
  assumes "fuzzy_match df name = Some u"
  shows "upd_index u < length df \<and> \<not> is_held (df ! upd_index u)
     \<and> upd_score u = match_score name (str_cell (hebrew_name (df ! upd_index u)))
     \<and> 3 \<le> upd_score u
     \<and> (\<forall>j < length df. \<not> is_held (df ! j)
           \<longrightarrow> match_score name (str_cell (hebrew_name (df ! j))) \<le> upd_score u)
     \<and> (\<forall>j < upd_index u. \<not> is_held (df ! j)
           \<longrightarrow> match_score name (str_cell (hebrew_name (df ! j))) < upd_score u)"
proof -
  let ?sc = "\<lambda>x. match_score name (str_cell (hebrew_name x))"
  let ?res = "best_match_loop name 0 df (None, 0)"
  from assms obtain i' where f: "fst ?res = Some i'" and ui: "upd_index u = i'" and us: "upd_score u = snd ?res"
    by (auto simp: fuzzy_match_fst split: option.splits)
  from best_match_loop_inv [of name 0 df None 0]
  have p2: "\<forall>i < length df. \<not> is_held (df ! i) \<and> 3 \<le> ?sc (df ! i) \<longrightarrow> ?sc (df ! i) \<le> snd ?res"
    and p3: "?res = (None, 0)
          \<or> (\<exists>i < length df. fst ?res = Some (0 + i) \<and> \<not> is_held (df ! i)
                \<and> ?sc (df ! i) = snd ?res \<and> 3 \<le> snd ?res
                \<and> (\<forall>j < i. \<not> is_held (df ! j) \<longrightarrow> ?sc (df ! j) < snd ?res))"
    unfolding loop_post_def by auto
  from f have "?res \<noteq> (None, 0)" by auto
  with p3 f have i: "i' < length df" "\<not> is_held (df ! i')" "?sc (df ! i') = snd ?res" "3 \<le> snd ?res"
    "\<forall>j < i'. \<not> is_held (df ! j) \<longrightarrow> ?sc (df ! j) < snd ?res"
    by auto
  have "\<forall>j < length df. \<not> is_held (df ! j) \<longrightarrow> ?sc (df ! j) \<le> snd ?res"
  proof (intro allI impI)
    fix j assume j: "j < length df" "\<not> is_held (df ! j)"
    show "?sc (df ! j) \<le> snd ?res"
    proof (cases "3 \<le> ?sc (df ! j)")
      case True
      with p2 j show ?thesis by blast
    next
      case False
      with i(4) show ?thesis by linarith
    qed
  qed
  with i show ?thesis unfolding ui us by simp
qed

text \<open>
  C4. A name gets no proposed update only when no candidate passes the
  threshold: \<open>fuzzy_match\<close> of \<open>find_missing_names.py\<close> proposes nothing exactly when every row
  is held or scores below 3, and \<open>find_best_hebrew_match\<close> returns \<open>None\<close> exactly when no
  English variant has a similarity above 0.7. When one or more candidates pass, a match is
  chosen without any report: the first row with the highest score (every row not held
  scores at most as much, every earlier one strictly less), respectively a Hebrew name
  with a variant of highest similarity. Several candidates, equally scored or not, do not
  prevent the update.
\<close>

theorem fuzzy_matching_takes_best:
  "((fuzzy_match df name = None)
      = (\<forall>r \<in> set df. is_held r \<or> match_score name (str_cell (hebrew_name r)) < 3))
   \<and> (fuzzy_match df name = Some u \<longrightarrow>
        upd_index u < length df \<and> \<not> is_held (df ! upd_index u)
        \<and> upd_score u = match_score name (str_cell (hebrew_name (df ! upd_index u)))
        \<and> 3 \<le> upd_score u
        \<and> (\<forall>j < length df. \<not> is_held (df ! j)
              \<longrightarrow> match_score name (str_cell (hebrew_name (df ! j))) \<le> upd_score u)
        \<and> (\<forall>j < upd_index u. \<not> is_held (df ! j)
              \<longrightarrow> match_score name (str_cell (hebrew_name (df ! j))) < upd_score u))
   \<and> ((best_hebrew_match ratio mappings e = None)
        = (\<forall>(h, vs) \<in> set mappings. \<forall>v \<in> set vs. \<not> similarity ratio e v > 7 / 10))
   \<and> (best_hebrew_match ratio mappings e = Some h \<longrightarrow>
        (\<exists>vs v. (h, vs) \<in> set mappings \<and> v \<in> set vs \<and> similarity ratio e v > 7 / 10
           \<and> (\<forall>(h', vs') \<in> set mappings. \<forall>v' \<in> set vs'.
                 similarity ratio e v' \<le> similarity ratio e v)))
   \<and> find_best_hebrew_match ratio e = best_hebrew_match ratio comprehensive_mappings e"
proof (intro conjI impI)
  show "(fuzzy_match df name = None)
      = (\<forall>r \<in> set df. is_held r \<or> match_score name (str_cell (hebrew_name r)) < 3)"
    by (rule fuzzy_match_None)
next
  assume "fuzzy_match df name = Some u"
  from fuzzy_match_Some [OF this]
  show "upd_index u < length df" "\<not> is_held (df ! upd_index u)"
    "upd_score u = match_score name (str_cell (hebrew_name (df ! upd_index u)))"
    "3 \<le> upd_score u"
    "\<forall>j < length df. \<not> is_held (df ! j)
              \<longrightarrow> match_score name (str_cell (hebrew_name (df ! j))) \<le> upd_score u"
    "\<forall>j < upd_index u. \<not> is_held (df ! j)
              \<longrightarrow> match_score name (str_cell (hebrew_name (df ! j))) < upd_score u"
    by blast+
next
  show "(best_hebrew_match ratio mappings e = None)
        = (\<forall>(h, vs) \<in> set mappings. \<forall>v \<in> set vs. \<not> similarity ratio e v > 7 / 10)"
    by (rule best_hebrew_match_None)
next
  assume "best_hebrew_match ratio mappings e = Some h"
  then show "\<exists>vs v. (h, vs) \<in> set mappings \<and> v \<in> set vs \<and> similarity ratio e v > 7 / 10
           \<and> (\<forall>(h', vs') \<in> set mappings. \<forall>v' \<in> set vs'.
                 similarity ratio e v' \<le> similarity ratio e v)"
    by (rule best_hebrew_match_Some)
next
  show "find_best_hebrew_match ratio e = best_hebrew_match ratio comprehensive_mappings e"
    by (simp add: find_best_hebrew_match_def)
qed

lemmas fuzzy_defs = fuzzy_match_def match_score_def part_score_def split_ws_def str_cell_def
  isspace_def nan_row_def ascii_def Let_def

theorem fuzzy_matching_takes_best_witness:
  "fuzzy_match
     [nan_row\<lparr>hebrew_name := Some [1514, 1502, 1497, 1512, 32, 1499, 1492, 1503], current_status := Some (ascii ''Unknown'')\<rparr>,
      nan_row\<lparr>hebrew_name := Some [1514, 1502, 1497, 1512, 32, 1500, 1493, 1497], current_status := Some (ascii ''Unknown'')\<rparr>]
     
      [1514, 1502, 1497, 1512, 32, 1488, 1491, 1512]
   = Some \<lparr>upd_missing = 
      [1514, 1502, 1497, 1512, 32, 1488, 1491, 1512], upd_found = Some [1514, 1502, 1497, 1512, 32, 1499, 1492, 1503], upd_index = 0,
           upd_current_status = Some (ascii ''Unknown''), upd_score = 6\<rparr>
   \<and> match_score 
      [1514, 1502, 1497, 1512, 32, 1488, 1491, 1512] (str_cell (hebrew_name
        ([nan_row\<lparr>hebrew_name := Some [1514, 1502, 1497, 1512, 32, 1499, 1492, 1503], current_status := Some (ascii ''Unknown'')\<rparr>,
          nan_row\<lparr>hebrew_name := Some [1514, 1502, 1497, 1512, 32, 1500, 1493, 1497], current_status := Some (ascii ''Unknown'')\<rparr>] ! 0))) = 6
   \<and> fuzzy_match [nan_row\<lparr>hebrew_name := Some (ascii ''X''), current_status := Some (ascii ''Unknown'')\<rparr>] 
      [1514, 1502, 1497, 1512, 32, 1488, 1491, 1512]
       = None"
proof -
  let ?df = "[nan_row\<lparr>hebrew_name := Some [1514, 1502, 1497, 1512, 32, 1499, 1492, 1503], current_status := Some (ascii ''Unknown'')\<rparr>,
      nan_row\<lparr>hebrew_name := Some [1514, 1502, 1497, 1512, 32, 1500, 1493, 1497], current_status := Some (ascii ''Unknown'')\<rparr>]"
  let ?u = "\<lparr>upd_missing = 
      [1514, 1502, 1497, 1512, 32, 1488, 1491, 1512], upd_found = Some [1514, 1502, 1497, 1512, 32, 1499, 1492, 1503], upd_index = 0,
           upd_current_status = Some (ascii ''Unknown''), upd_score = 6\<rparr>"
  let ?x = "[nan_row\<lparr>hebrew_name := Some (ascii ''X''), current_status := Some (ascii ''Unknown'')\<rparr>]"
  have h1: "fuzzy_match ?df 
      [1514, 1502, 1497, 1512, 32, 1488, 1491, 1512] = Some ?u"
    by (simp add: fuzzy_defs)
  have h2: "\<forall>r \<in> set ?x. is_held r \<or> match_score 
      [1514, 1502, 1497, 1512, 32, 1488, 1491, 1512] (str_cell (hebrew_name r)) < 3"
    by (simp add: fuzzy_defs is_held_def)
  note t = fuzzy_matching_takes_best [of ?df "
      [1514, 1502, 1497, 1512, 32, 1488, 1491, 1512]" ?u "\<lambda>a b. 0" "[]" "[]" "[]"]
  note t2 = fuzzy_matching_takes_best [of ?x "
      [1514, 1502, 1497, 1512, 32, 1488, 1491, 1512]" ?u "\<lambda>a b. 0" "[]" "[]" "[]"]
  from t [THEN conjunct2, THEN conjunct1, THEN mp, OF h1]
  have "upd_score ?u = match_score 
      [1514, 1502, 1497, 1512, 32, 1488, 1491, 1512] (str_cell (hebrew_name (?df ! upd_index ?u)))"
    by (elim conjE)
  then have a: "match_score 
      [1514, 1502, 1497, 1512, 32, 1488, 1491, 1512] (str_cell (hebrew_name (?df ! 0))) = 6" by simp
  have b: "fuzzy_match ?x 
      [1514, 1502, 1497, 1512, 32, 1488, 1491, 1512] = None"
    using t2 [THEN conjunct1] h2 by (rule iffD2)
  from h1 a b show ?thesis by (intro conjI)
qed

theorem tied_candidates_still_matched_counterexample:
  "match_score 
      [1514, 1502, 1497, 1512, 32, 1488, 1491, 1512] [1514, 1502, 1497, 1512, 32, 1499, 1492, 1503] = 6
   \<and> match_score 
      [1514, 1502, 1497, 1512, 32, 1488, 1491, 1512] [1514, 1502, 1497, 1512, 32, 1500, 1493, 1497] = 6
   \<and> 
      [1514, 1502, 1497, 1512, 32, 1488, 1491, 1512] \<in> set (missing_names
        [nan_row\<lparr>hebrew_name := Some [1514, 1502, 1497, 1512, 32, 1499, 1492, 1503], current_status := Some (ascii ''Unknown'')\<rparr>,
         nan_row\<lparr>hebrew_name := Some [1514, 1502, 1497, 1512, 32, 1500, 1493, 1497], current_status := Some (ascii ''Unknown'')\<rparr>])
   \<and> fuzzy_match
        [nan_row\<lparr>hebrew_name := Some [1514, 1502, 1497, 1512, 32, 1499, 1492, 1503], current_status := Some (ascii ''Unknown'')\<rparr>,
         nan_row\<lparr>hebrew_name := Some [1514, 1502, 1497, 1512, 32, 1500, 1493, 1497], current_status := Some (ascii ''Unknown'')\<rparr>]
        
      [1514, 1502, 1497, 1512, 32, 1488, 1491, 1512]
      = Some \<lparr>upd_missing = 
      [1514, 1502, 1497, 1512, 32, 1488, 1491, 1512], upd_found = Some [1514, 1502, 1497, 1512, 32, 1499, 1492, 1503], upd_index = 0,
              upd_current_status = Some (ascii ''Unknown''), upd_score = 6\<rparr>
   \<and> current_status (find_missing_names
        [nan_row\<lparr>hebrew_name := Some [1514, 1502, 1497, 1512, 32, 1499, 1492, 1503], current_status := Some (ascii ''Unknown'')\<rparr>,
         nan_row\<lparr>hebrew_name := Some [1514, 1502, 1497, 1512, 32, 1500, 1493, 1497], current_status := Some (ascii ''Unknown'')\<rparr>] ! 0)
      = Some (ascii ''Held in Gaza'')"
  by (simp add: missing_defs still_held_names_def ascii_def)

end
